theory Spec2Isabelle
  imports Main "HOL-Library.Sublist" "HOL-Library.AList"
begin

section \<open>Dynamically typed configuration values\<close>

text \<open>
  The parsed configuration is a Go \<^verbatim>\<open>map[string]any\<close>. The dynamic values that the
  detector and the converter tell apart are strings, booleans, \<^verbatim>\<open>[]any\<close> lists and
  nested \<^verbatim>\<open>map[string]any\<close> maps; \<^verbatim>\<open>[]string\<close> is what the converter itself
  stores as the asset list. Numbers and the nil interface are never inspected. A map is an
  association list read with \<open>map_of\<close> and written with \<open>AList.update\<close>; the nil map
  is \<open>None\<close> (reading it finds no key, as in Go).
\<close>

datatype val =
    VNull
  | VBool bool
  | VNum int
  | VStr string
  | VList "val list"
  | VStrs "string list"
  | VMap "(string \<times> val) list option"

type_synonym gomap = "(string \<times> val) list option"

type_synonym error = string

text \<open>\<^verbatim>\<open>m[k]\<close> on a possibly nil map; \<open>None\<close> is the missing key.\<close>

fun mget :: "gomap \<Rightarrow> string \<Rightarrow> val option" where
  "mget None k = None"
| "mget (Some m) k = map_of m k"

text \<open>The comma-ok type assertions \<^verbatim>\<open>x.(string)\<close>, \<^verbatim>\<open>x.(bool)\<close>, \<^verbatim>\<open>x.([]any)\<close> and
  \<^verbatim>\<open>x.(map[string]any)\<close> applied to the result of a lookup.\<close>

fun asString :: "val option \<Rightarrow> string option" where
  "asString (Some (VStr s)) = Some s"
| "asString _ = None"

fun asBool :: "val option \<Rightarrow> bool option" where
  "asBool (Some (VBool b)) = Some b"
| "asBool _ = None"

fun asList :: "val option \<Rightarrow> val list option" where
  "asList (Some (VList xs)) = Some xs"
| "asList _ = None"

fun asMap :: "val option \<Rightarrow> gomap option" where
  "asMap (Some (VMap m)) = Some m"
| "asMap _ = None"

text \<open>\<^verbatim>\<open>strings.TrimSuffix\<close>, \<^verbatim>\<open>strings.TrimPrefix\<close> and \<^verbatim>\<open>strings.ReplaceAll\<close>.
  \<open>ReplaceAll\<close> scans from the left and replaces non-overlapping matches; for the empty
  pattern Go inserts the replacement before every character and at the end.\<close>

definition TrimSuffix :: "string \<Rightarrow> string \<Rightarrow> string" where
  "TrimSuffix s suf = (if suffix suf s then take (length s - length suf) s else s)"

definition TrimPrefix :: "string \<Rightarrow> string \<Rightarrow> string" where
  "TrimPrefix s pre = (if prefix pre s then drop (length pre) s else s)"

function ReplaceAll :: "string \<Rightarrow> string \<Rightarrow> string \<Rightarrow> string" where
  "ReplaceAll s [] new = new @ concat (map (\<lambda>c. c # new) s)"
| "ReplaceAll [] (a # old) new = []"
| "ReplaceAll (c # cs) (a # old) new =
     (if prefix (a # old) (c # cs)
      then new @ ReplaceAll (drop (length (a # old)) (c # cs)) (a # old) new
      else c # ReplaceAll cs (a # old) new)"
  by pat_completeness auto
termination
  by (relation "measure (\<lambda>(s, old, new). length s)") auto

section \<open>Package detector\<close>

definition ToolNone :: string where "ToolNone = ''none''"
definition ToolSemanticRelease :: string where "ToolSemanticRelease = ''semantic-release''"
definition ToolReleaseIt :: string where "ToolReleaseIt = ''release-it''"
definition ToolStandardVersion :: string where "ToolStandardVersion = ''standard-version''"
definition ToolGoReleaser :: string where "ToolGoReleaser = ''goreleaser''"

record Result =
  Tool :: string
  ConfigFile :: string
  ConfigData :: gomap
  Details :: gomap

text \<open>
  What the detector takes from outside the repository: \<^verbatim>\<open>os.ReadFile\<close>,
  \<^verbatim>\<open>json.Unmarshal\<close> and \<^verbatim>\<open>yaml.Unmarshal\<close> into a \<^verbatim>\<open>map[string]any\<close>,
  \<^verbatim>\<open>filepath.Join\<close> and \<^verbatim>\<open>filepath.Ext\<close>. \<open>Inl\<close> is a returned error.
\<close>

record world =
  ReadFile :: "string \<Rightarrow> error + string"
  jsonUnmarshal :: "string \<Rightarrow> error + gomap"
  yamlUnmarshal :: "string \<Rightarrow> error + gomap"
  Join :: "string \<Rightarrow> string \<Rightarrow> string"
  Ext :: "string \<Rightarrow> string"

definition ErrNotExist :: error where "ErrNotExist = ''file does not exist''"

definition readConfigFile :: "world \<Rightarrow> string \<Rightarrow> error + gomap" where
  "readConfigFile w path =
     (case ReadFile w path of
        Inl err \<Rightarrow> Inl err
      | Inr data \<Rightarrow>
          (case jsonUnmarshal w data of
             Inr result \<Rightarrow> Inr result
           | Inl _ \<Rightarrow>
               (case yamlUnmarshal w data of
                  Inr result \<Rightarrow> Inr result
                | Inl _ \<Rightarrow>
                    (let ext = Ext w path in
                     if ext = ''.js'' \<or> ext = ''.cjs'' \<or> ext = ''.ts''
                     then Inr (Some [(''_jsConfig'', VBool True)])
                     else Inl ErrNotExist))))"

definition readPackageJSON :: "world \<Rightarrow> string \<Rightarrow> error + gomap" where
  "readPackageJSON w path =
     (case ReadFile w path of
        Inl err \<Rightarrow> Inl err
      | Inr data \<Rightarrow>
          (case jsonUnmarshal w data of
             Inl err \<Rightarrow> Inl err
           | Inr result \<Rightarrow> Inr result))"

fun countPlugins :: "val \<Rightarrow> int" where
  "countPlugins (VList p) = int (length p)"
| "countPlugins (VStrs p) = int (length p)"
| "countPlugins _ = 0"

definition extractSemanticReleaseDetails :: "gomap \<Rightarrow> gomap" where
  "extractSemanticReleaseDetails data =
     (let details = [];
          details = (case mget data ''branches'' of
                       Some branches \<Rightarrow> AList.update ''branches'' branches details
                     | None \<Rightarrow> details);
          details = (case mget data ''plugins'' of
                       Some plugins \<Rightarrow> AList.update ''plugins'' (VNum (countPlugins plugins)) details
                     | None \<Rightarrow> details);
          details = (case mget data ''tagFormat'' of
                       Some tagFormat \<Rightarrow> AList.update ''tagFormat'' tagFormat details
                     | None \<Rightarrow> details)
      in Some details)"

definition extractReleaseItDetails :: "gomap \<Rightarrow> gomap" where
  "extractReleaseItDetails data =
     (let details = [];
          details = (case asMap (mget data ''git'') of
                       Some git \<Rightarrow>
                         (case mget git ''tagName'' of
                            Some tagName \<Rightarrow> AList.update ''tagName'' tagName details
                          | None \<Rightarrow> details)
                     | None \<Rightarrow> details);
          details = (case asMap (mget data ''npm'') of
                       Some npm \<Rightarrow>
                         (case mget npm ''publish'' of
                            Some publish \<Rightarrow> AList.update ''npmPublish'' publish details
                          | None \<Rightarrow> details)
                     | None \<Rightarrow> details);
          details = (case asMap (mget data ''github'') of
                       Some github \<Rightarrow>
                         (case mget github ''release'' of
                            Some release \<Rightarrow> AList.update ''githubRelease'' release details
                          | None \<Rightarrow> details)
                     | None \<Rightarrow> details)
      in Some details)"

definition extractStandardVersionDetails :: "gomap \<Rightarrow> gomap" where
  "extractStandardVersionDetails data =
     (let details = [];
          details = (case mget data ''tagPrefix'' of
                       Some tagPrefix \<Rightarrow> AList.update ''tagPrefix'' tagPrefix details
                     | None \<Rightarrow> details);
          details = (case asMap (mget data ''skip'') of
                       Some skip \<Rightarrow> AList.update ''skip'' (VMap skip) details
                     | None \<Rightarrow> details);
          details = (case mget data ''types'' of
                       Some types \<Rightarrow> AList.update ''customTypes'' (VBool True) details
                     | None \<Rightarrow> details)
      in Some details)"

text \<open>The guarded read \<^verbatim>\<open>builds[0].(map[string]any)\<close> of the first declared build:
  the \<^verbatim>\<open>builds\<close> key holds a non-empty list whose first element is a map.\<close>

definition firstBuild :: "gomap \<Rightarrow> gomap option" where
  "firstBuild data =
     (case asList (mget data ''builds'') of
        Some (build # _) \<Rightarrow> asMap (Some build)
      | _ \<Rightarrow> None)"

definition extractGoReleaserDetails :: "gomap \<Rightarrow> gomap" where
  "extractGoReleaserDetails data =
     (let details = [];
          details = (case asString (mget data ''project_name'') of
                       Some projectName \<Rightarrow> AList.update ''projectName'' (VStr projectName) details
                     | None \<Rightarrow> details);
          details = (case asList (mget data ''builds'') of
                       Some builds \<Rightarrow> AList.update ''buildsCount'' (VNum (int (length builds))) details
                     | None \<Rightarrow> details);
          details = (case asList (mget data ''archives'') of
                       Some archives \<Rightarrow> AList.update ''archivesCount'' (VNum (int (length archives))) details
                     | None \<Rightarrow> details);
          details = (case asMap (mget data ''release'') of
                       Some release \<Rightarrow>
                         (let details = (case asMap (mget release ''github'') of
                                           Some github \<Rightarrow> AList.update ''github'' (VMap github) details
                                         | None \<Rightarrow> details);
                              details = (case asBool (mget release ''draft'') of
                                           Some draft \<Rightarrow> AList.update ''draft'' (VBool draft) details
                                         | None \<Rightarrow> details);
                              details = (case mget release ''prerelease'' of
                                           Some prerelease \<Rightarrow> AList.update ''prerelease'' prerelease details
                                         | None \<Rightarrow> details)
                          in details)
                     | None \<Rightarrow> details);
          details = (case asMap (mget data ''changelog'') of
                       Some changelog \<Rightarrow>
                         (let details = (case asBool (mget changelog ''skip'') of
                                           Some skip \<Rightarrow> AList.update ''changelogSkip'' (VBool skip) details
                                         | None \<Rightarrow> details);
                              details = (case asString (mget changelog ''sort'') of
                                           Some sort' \<Rightarrow> AList.update ''changelogSort'' (VStr sort') details
                                         | None \<Rightarrow> details)
                          in details)
                     | None \<Rightarrow> details);
          details = (case firstBuild data of
                       Some build \<Rightarrow>
                         (let details = (case asList (mget build ''goos'') of
                                           Some goos \<Rightarrow> AList.update ''goos'' (VList goos) details
                                         | None \<Rightarrow> details);
                              details = (case asList (mget build ''goarch'') of
                                           Some goarch \<Rightarrow> AList.update ''goarch'' (VList goarch) details
                                         | None \<Rightarrow> details)
                          in details)
                     | None \<Rightarrow> details)
      in Some details)"

text \<open>The loop every per-tool probe runs over its dedicated file names: the first candidate
  that \<open>readConfigFile\<close> reads without error, with its joined path.\<close>

fun firstConfigFile :: "world \<Rightarrow> string \<Rightarrow> string list \<Rightarrow> (string \<times> gomap) option" where
  "firstConfigFile w dir [] = None"
| "firstConfigFile w dir (file # files) =
     (let path = Join w dir file in
      case readConfigFile w path of
        Inr data \<Rightarrow> Some (path, data)
      | Inl _ \<Rightarrow> firstConfigFile w dir files)"

text \<open>The fallback of the first three probes: the embedded mapping under a top-level key of
  \<^verbatim>\<open>package.json\<close>.\<close>

definition packageKey :: "world \<Rightarrow> string \<Rightarrow> string \<Rightarrow> (string \<times> gomap) option" where
  "packageKey w dir key =
     (let pkgPath = Join w dir ''package.json'' in
      case readPackageJSON w pkgPath of
        Inr pkg \<Rightarrow>
          (case asMap (mget pkg key) of
             Some embedded \<Rightarrow> Some (pkgPath @ '' ('' @ key @ '' key)'', embedded)
           | None \<Rightarrow> None)
      | Inl _ \<Rightarrow> None)"

definition semanticReleaseFiles :: "string list" where
  "semanticReleaseFiles =
     [''.releaserc'', ''.releaserc.json'', ''.releaserc.yaml'', ''.releaserc.yml'',
      ''release.config.js'', ''release.config.cjs'']"

definition releaseItFiles :: "string list" where
  "releaseItFiles =
     [''.release-it.json'', ''.release-it.yaml'', ''.release-it.yml'', ''.release-it.js'',
      ''.release-it.cjs'', ''.release-it.ts'']"

definition standardVersionFiles :: "string list" where
  "standardVersionFiles = [''.versionrc'', ''.versionrc.json'', ''.versionrc.js'', ''.versionrc.cjs'']"

definition goReleaserFiles :: "string list" where
  "goReleaserFiles = [''.goreleaser.yml'', ''.goreleaser.yaml'', ''goreleaser.yml'', ''goreleaser.yaml'']"

text \<open>A probe returns a pointer (\<open>None\<close> is nil) and an error that is nil on every path.\<close>

definition detectSemanticRelease :: "world \<Rightarrow> string \<Rightarrow> error + Result option" where
  "detectSemanticRelease w dir =
     (case firstConfigFile w dir semanticReleaseFiles of
        Some (path, data) \<Rightarrow>
          Inr (Some \<lparr>Tool = ToolSemanticRelease, ConfigFile = path, ConfigData = data,
                     Details = extractSemanticReleaseDetails data\<rparr>)
      | None \<Rightarrow>
          (case packageKey w dir ''release'' of
             Some (file, release) \<Rightarrow>
               Inr (Some \<lparr>Tool = ToolSemanticRelease, ConfigFile = file, ConfigData = release,
                          Details = extractSemanticReleaseDetails release\<rparr>)
           | None \<Rightarrow> Inr None))"

definition detectReleaseIt :: "world \<Rightarrow> string \<Rightarrow> error + Result option" where
  "detectReleaseIt w dir =
     (case firstConfigFile w dir releaseItFiles of
        Some (path, data) \<Rightarrow>
          Inr (Some \<lparr>Tool = ToolReleaseIt, ConfigFile = path, ConfigData = data,
                     Details = extractReleaseItDetails data\<rparr>)
      | None \<Rightarrow>
          (case packageKey w dir ''release-it'' of
             Some (file, releaseIt) \<Rightarrow>
               Inr (Some \<lparr>Tool = ToolReleaseIt, ConfigFile = file, ConfigData = releaseIt,
                          Details = extractReleaseItDetails releaseIt\<rparr>)
           | None \<Rightarrow> Inr None))"

definition detectStandardVersion :: "world \<Rightarrow> string \<Rightarrow> error + Result option" where
  "detectStandardVersion w dir =
     (case firstConfigFile w dir standardVersionFiles of
        Some (path, data) \<Rightarrow>
          Inr (Some \<lparr>Tool = ToolStandardVersion, ConfigFile = path, ConfigData = data,
                     Details = extractStandardVersionDetails data\<rparr>)
      | None \<Rightarrow>
          (case packageKey w dir ''standard-version'' of
             Some (file, sv) \<Rightarrow>
               Inr (Some \<lparr>Tool = ToolStandardVersion, ConfigFile = file, ConfigData = sv,
                          Details = extractStandardVersionDetails sv\<rparr>)
           | None \<Rightarrow> Inr None))"

definition detectGoReleaser :: "world \<Rightarrow> string \<Rightarrow> error + Result option" where
  "detectGoReleaser w dir =
     (case firstConfigFile w dir goReleaserFiles of
        Some (path, data) \<Rightarrow>
          Inr (Some \<lparr>Tool = ToolGoReleaser, ConfigFile = path, ConfigData = data,
                     Details = extractGoReleaserDetails data\<rparr>)
      | None \<Rightarrow> Inr None)"

fun runDetectors :: "(string \<Rightarrow> error + Result option) list \<Rightarrow> string \<Rightarrow> error + Result" where
  "runDetectors [] dir = Inr \<lparr>Tool = ToolNone, ConfigFile = [], ConfigData = None, Details = None\<rparr>"
| "runDetectors (detect # detectors) dir =
     (case detect dir of
        Inl err \<Rightarrow> runDetectors detectors dir
      | Inr None \<Rightarrow> runDetectors detectors dir
      | Inr (Some result) \<Rightarrow>
          (if Tool result \<noteq> ToolNone then Inr result else runDetectors detectors dir))"

definition Detect :: "world \<Rightarrow> string \<Rightarrow> error + Result" where
  "Detect w dir =
     runDetectors
       [detectSemanticRelease w, detectReleaseIt w, detectStandardVersion w, detectGoReleaser w]
       dir"

section \<open>Package converter\<close>

record VersioningConfig =
  Strategy :: string
  TagPrefix :: string

record ChangelogConfig =
  Enabled_Changelog :: bool
  Template :: string
  File :: string

record GitConfig =
  RequireCleanTree :: bool
  PushTags :: bool
  CreateTag :: bool
  CommitMessage :: string
  TagMessage :: string
  RequireUpToDate :: bool
  AllowedBranches :: "string list"

record PluginConfig =
  Name :: string
  Enabled :: bool
  Config :: gomap

record AIConfig =
  Enabled_AI :: bool
  Provider :: string

record RelictaConfig =
  Versioning :: VersioningConfig
  Changelog :: ChangelogConfig
  Git :: GitConfig
  Plugins :: "PluginConfig list"
  AI :: "AIConfig option"

text \<open>The struct tag \<^verbatim>\<open>yaml:"tag_prefix,omitempty"\<close> of \<open>TagPrefix\<close>: a Go string field has
  no unset state of its own, the zero value is the unset field and the document leaves it out.\<close>

definition tag_prefix :: "VersioningConfig \<Rightarrow> string option" where
  "tag_prefix v = (if TagPrefix v = [] then None else Some (TagPrefix v))"

definition convertTemplate :: "string \<Rightarrow> string" where
  "convertTemplate template =
     (let template = ReplaceAll template ''${version}'' ''{{.Version}}'';
          template = ReplaceAll template ''${nextRelease.version}'' ''{{.Version}}'';
          template = ReplaceAll template ''{{version}}'' ''{{.Version}}''
      in template)"

fun extractBranches_loop :: "val list \<Rightarrow> string list \<Rightarrow> string list" where
  "extractBranches_loop [] result = result"
| "extractBranches_loop (b # branches) result =
     (case b of
        VStr branch \<Rightarrow> extractBranches_loop branches (result @ [branch])
      | VMap branch \<Rightarrow>
          (case asString (mget branch ''name'') of
             Some name \<Rightarrow> extractBranches_loop branches (result @ [name])
           | None \<Rightarrow> extractBranches_loop branches result)
      | _ \<Rightarrow> extractBranches_loop branches result)"

definition extractBranches :: "val list \<Rightarrow> string list" where
  "extractBranches branches = extractBranches_loop branches []"

definition mapSemanticReleasePlugin :: "string \<Rightarrow> gomap \<Rightarrow> PluginConfig option" where
  "mapSemanticReleasePlugin name0 config =
     (let name = TrimPrefix name0 ''@semantic-release/'' in
      if name = ''github'' then Some \<lparr>Name = ''github'', Enabled = True, Config = config\<rparr>
      else if name = ''gitlab'' then Some \<lparr>Name = ''gitlab'', Enabled = True, Config = config\<rparr>
      else if name = ''npm'' then Some \<lparr>Name = ''npm'', Enabled = True, Config = config\<rparr>
      else if name = ''changelog'' \<or> name = ''release-notes-generator'' then None
      else if name = ''commit-analyzer'' then None
      else if name = ''git'' then None
      else if name = ''exec'' then
        Some \<lparr>Name = ''custom'', Enabled = False,
              Config = Some [(''_note'', VStr ''Migrate custom exec commands manually''),
                             (''_original'', VMap config)]\<rparr>
      else
        Some \<lparr>Name = name, Enabled = False,
              Config = Some [(''_note'', VStr ''Unknown plugin - requires manual migration''),
                             (''_original'', VMap config)]\<rparr>)"

text \<open>The type switch at the head of the plugin loop: the name and the configuration map an
  entry declares. Both start at their zero values (the empty name, the nil map).\<close>

fun pluginName :: "val \<Rightarrow> string" where
  "pluginName (VStr plugin) = plugin"
| "pluginName (VList (p0 # _)) = (case asString (Some p0) of Some name \<Rightarrow> name | None \<Rightarrow> [])"
| "pluginName _ = []"

fun pluginConfig :: "val \<Rightarrow> gomap" where
  "pluginConfig (VList (_ # p1 # _)) = (case asMap (Some p1) of Some cfg \<Rightarrow> cfg | None \<Rightarrow> None)"
| "pluginConfig _ = None"

fun convertSemanticReleasePlugins_loop :: "val list \<Rightarrow> PluginConfig list \<Rightarrow> PluginConfig list" where
  "convertSemanticReleasePlugins_loop [] result = result"
| "convertSemanticReleasePlugins_loop (p # plugins) result =
     (case mapSemanticReleasePlugin (pluginName p) (pluginConfig p) of
        Some relictaPlugin \<Rightarrow> convertSemanticReleasePlugins_loop plugins (result @ [relictaPlugin])
      | None \<Rightarrow> convertSemanticReleasePlugins_loop plugins result)"

definition convertSemanticReleasePlugins :: "val list \<Rightarrow> PluginConfig list" where
  "convertSemanticReleasePlugins plugins = convertSemanticReleasePlugins_loop plugins []"

text \<open>
  Each converter builds its baseline document and then runs the blocks of the source in order;
  a block reads the tree and returns the document it was given, updated. One definition per
  block, named after the key it extracts.
\<close>

definition semanticReleaseDefaults :: RelictaConfig where
  "semanticReleaseDefaults =
     \<lparr>Versioning = \<lparr>Strategy = ''conventional'', TagPrefix = []\<rparr>,
      Changelog = \<lparr>Enabled_Changelog = True, Template = [], File = ''CHANGELOG.md''\<rparr>,
      Git = \<lparr>RequireCleanTree = True, PushTags = True, CreateTag = True,
             CommitMessage = [], TagMessage = [], RequireUpToDate = False,
             AllowedBranches = []\<rparr>,
      Plugins = [], AI = None\<rparr>"

definition semanticRelease_tagFormat :: "gomap \<Rightarrow> RelictaConfig \<Rightarrow> RelictaConfig" where
  "semanticRelease_tagFormat data config =
     (case asString (mget data ''tagFormat'') of
        Some tagFormat \<Rightarrow>
          (let pfx = TrimSuffix tagFormat ''${version}'' in
           if pfx \<noteq> [] then config\<lparr>Versioning := (Versioning config)\<lparr>TagPrefix := pfx\<rparr>\<rparr>
           else config)
      | None \<Rightarrow> config)"

definition semanticRelease_branches :: "gomap \<Rightarrow> RelictaConfig \<Rightarrow> RelictaConfig" where
  "semanticRelease_branches data config =
     (case asList (mget data ''branches'') of
        Some branches \<Rightarrow> config\<lparr>Git := (Git config)\<lparr>AllowedBranches := extractBranches branches\<rparr>\<rparr>
      | None \<Rightarrow> config)"

definition semanticRelease_plugins :: "gomap \<Rightarrow> RelictaConfig \<Rightarrow> RelictaConfig" where
  "semanticRelease_plugins data config =
     (case asList (mget data ''plugins'') of
        Some plugins \<Rightarrow> config\<lparr>Plugins := convertSemanticReleasePlugins plugins\<rparr>
      | None \<Rightarrow> config)"

definition convertSemanticRelease :: "Result \<Rightarrow> error + RelictaConfig" where
  "convertSemanticRelease result =
     (let data = ConfigData result;
          config = semanticReleaseDefaults;
          config = semanticRelease_tagFormat data config;
          config = semanticRelease_branches data config;
          config = semanticRelease_plugins data config
      in Inr config)"

definition releaseItDefaults :: RelictaConfig where
  "releaseItDefaults =
     \<lparr>Versioning = \<lparr>Strategy = ''conventional'', TagPrefix = []\<rparr>,
      Changelog = \<lparr>Enabled_Changelog = True, Template = [], File = ''CHANGELOG.md''\<rparr>,
      Git = \<lparr>RequireCleanTree = True, PushTags = True, CreateTag = True,
             CommitMessage = [], TagMessage = [], RequireUpToDate = False,
             AllowedBranches = []\<rparr>,
      Plugins = [], AI = None\<rparr>"

definition releaseIt_tagName :: "gomap \<Rightarrow> RelictaConfig \<Rightarrow> RelictaConfig" where
  "releaseIt_tagName git config =
     (case asString (mget git ''tagName'') of
        Some tagName \<Rightarrow>
          (let pfx = TrimSuffix tagName ''${version}'' in
           if pfx \<noteq> [] then config\<lparr>Versioning := (Versioning config)\<lparr>TagPrefix := pfx\<rparr>\<rparr>
           else config)
      | None \<Rightarrow> config)"

definition releaseIt_commitMessage :: "gomap \<Rightarrow> RelictaConfig \<Rightarrow> RelictaConfig" where
  "releaseIt_commitMessage git config =
     (case asString (mget git ''commitMessage'') of
        Some commitMessage \<Rightarrow>
          config\<lparr>Git := (Git config)\<lparr>CommitMessage := convertTemplate commitMessage\<rparr>\<rparr>
      | None \<Rightarrow> config)"

definition releaseIt_tagAnnotation :: "gomap \<Rightarrow> RelictaConfig \<Rightarrow> RelictaConfig" where
  "releaseIt_tagAnnotation git config =
     (case asString (mget git ''tagAnnotation'') of
        Some tagAnnotation \<Rightarrow>
          config\<lparr>Git := (Git config)\<lparr>TagMessage := convertTemplate tagAnnotation\<rparr>\<rparr>
      | None \<Rightarrow> config)"

definition releaseIt_requireCleanWorkingDir :: "gomap \<Rightarrow> RelictaConfig \<Rightarrow> RelictaConfig" where
  "releaseIt_requireCleanWorkingDir git config =
     (case asBool (mget git ''requireCleanWorkingDir'') of
        Some requireCleanWorkingDir \<Rightarrow>
          config\<lparr>Git := (Git config)\<lparr>RequireCleanTree := requireCleanWorkingDir\<rparr>\<rparr>
      | None \<Rightarrow> config)"

definition releaseIt_push :: "gomap \<Rightarrow> RelictaConfig \<Rightarrow> RelictaConfig" where
  "releaseIt_push git config =
     (case asBool (mget git ''push'') of
        Some push \<Rightarrow> config\<lparr>Git := (Git config)\<lparr>PushTags := push\<rparr>\<rparr>
      | None \<Rightarrow> config)"

definition releaseIt_git :: "gomap \<Rightarrow> RelictaConfig \<Rightarrow> RelictaConfig" where
  "releaseIt_git data config =
     (case asMap (mget data ''git'') of
        Some git \<Rightarrow>
          (let config = releaseIt_tagName git config;
               config = releaseIt_commitMessage git config;
               config = releaseIt_tagAnnotation git config;
               config = releaseIt_requireCleanWorkingDir git config;
               config = releaseIt_push git config
           in config)
      | None \<Rightarrow> config)"

definition releaseIt_npm :: "gomap \<Rightarrow> RelictaConfig \<Rightarrow> RelictaConfig" where
  "releaseIt_npm data config =
     (case asMap (mget data ''npm'') of
        Some npm \<Rightarrow>
          (if asBool (mget npm ''publish'') = Some True
           then config\<lparr>Plugins := Plugins config @
                  [\<lparr>Name = ''npm'', Enabled = True, Config = None\<rparr>]\<rparr>
           else config)
      | None \<Rightarrow> config)"

definition releaseIt_githubConfig :: "gomap \<Rightarrow> (string \<times> val) list" where
  "releaseIt_githubConfig github =
     (let ghConfig = [];
          ghConfig = (case asBool (mget github ''draft'') of
                        Some draft \<Rightarrow> AList.update ''draft'' (VBool draft) ghConfig
                      | None \<Rightarrow> ghConfig);
          ghConfig = (case asBool (mget github ''preRelease'') of
                        Some preRelease \<Rightarrow> AList.update ''prerelease'' (VBool preRelease) ghConfig
                      | None \<Rightarrow> ghConfig)
      in ghConfig)"

definition releaseIt_github :: "gomap \<Rightarrow> RelictaConfig \<Rightarrow> RelictaConfig" where
  "releaseIt_github data config =
     (case asMap (mget data ''github'') of
        Some github \<Rightarrow>
          (if asBool (mget github ''release'') = Some True
           then config\<lparr>Plugins := Plugins config @
                  [\<lparr>Name = ''github'', Enabled = True,
                    Config = Some (releaseIt_githubConfig github)\<rparr>]\<rparr>
           else config)
      | None \<Rightarrow> config)"

definition releaseIt_gitlab :: "gomap \<Rightarrow> RelictaConfig \<Rightarrow> RelictaConfig" where
  "releaseIt_gitlab data config =
     (case asMap (mget data ''gitlab'') of
        Some gitlab \<Rightarrow>
          (if asBool (mget gitlab ''release'') = Some True
           then config\<lparr>Plugins := Plugins config @
                  [\<lparr>Name = ''gitlab'', Enabled = True, Config = None\<rparr>]\<rparr>
           else config)
      | None \<Rightarrow> config)"

definition convertReleaseIt :: "Result \<Rightarrow> error + RelictaConfig" where
  "convertReleaseIt result =
     (let data = ConfigData result;
          config = releaseItDefaults;
          config = releaseIt_git data config;
          config = releaseIt_npm data config;
          config = releaseIt_github data config;
          config = releaseIt_gitlab data config
      in Inr config)"

definition standardVersionDefaults :: RelictaConfig where
  "standardVersionDefaults =
     \<lparr>Versioning = \<lparr>Strategy = ''conventional'', TagPrefix = []\<rparr>,
      Changelog = \<lparr>Enabled_Changelog = True, Template = [], File = ''CHANGELOG.md''\<rparr>,
      Git = \<lparr>RequireCleanTree = True, PushTags = True, CreateTag = True,
             CommitMessage = [], TagMessage = [], RequireUpToDate = False,
             AllowedBranches = []\<rparr>,
      Plugins = [], AI = None\<rparr>"

definition standardVersion_tagPrefix :: "gomap \<Rightarrow> RelictaConfig \<Rightarrow> RelictaConfig" where
  "standardVersion_tagPrefix data config =
     (case asString (mget data ''tagPrefix'') of
        Some tagPrefix \<Rightarrow> config\<lparr>Versioning := (Versioning config)\<lparr>TagPrefix := tagPrefix\<rparr>\<rparr>
      | None \<Rightarrow> config)"

definition standardVersion_skipChangelog :: "gomap \<Rightarrow> RelictaConfig \<Rightarrow> RelictaConfig" where
  "standardVersion_skipChangelog skip config =
     (if asBool (mget skip ''changelog'') = Some True
      then config\<lparr>Changelog := (Changelog config)\<lparr>Enabled_Changelog := False\<rparr>\<rparr>
      else config)"

definition standardVersion_skipTag :: "gomap \<Rightarrow> RelictaConfig \<Rightarrow> RelictaConfig" where
  "standardVersion_skipTag skip config =
     (if asBool (mget skip ''tag'') = Some True
      then config\<lparr>Git := (Git config)\<lparr>CreateTag := False\<rparr>\<rparr>
      else config)"

definition standardVersion_skip :: "gomap \<Rightarrow> RelictaConfig \<Rightarrow> RelictaConfig" where
  "standardVersion_skip data config =
     (case asMap (mget data ''skip'') of
        Some skip \<Rightarrow>
          (let config = standardVersion_skipChangelog skip config;
               config = standardVersion_skipTag skip config
           in config)
      | None \<Rightarrow> config)"

definition standardVersion_releaseCommitMessageFormat ::
    "gomap \<Rightarrow> RelictaConfig \<Rightarrow> RelictaConfig" where
  "standardVersion_releaseCommitMessageFormat data config =
     (case asString (mget data ''releaseCommitMessageFormat'') of
        Some releaseCommitMessageFormat \<Rightarrow>
          config\<lparr>Git := (Git config)\<lparr>CommitMessage := convertTemplate releaseCommitMessageFormat\<rparr>\<rparr>
      | None \<Rightarrow> config)"

definition standardVersion_infile :: "gomap \<Rightarrow> RelictaConfig \<Rightarrow> RelictaConfig" where
  "standardVersion_infile data config =
     (case asString (mget data ''infile'') of
        Some infile \<Rightarrow> config\<lparr>Changelog := (Changelog config)\<lparr>File := infile\<rparr>\<rparr>
      | None \<Rightarrow> config)"

definition convertStandardVersion :: "Result \<Rightarrow> error + RelictaConfig" where
  "convertStandardVersion result =
     (let data = ConfigData result;
          config = standardVersionDefaults;
          config = standardVersion_tagPrefix data config;
          config = standardVersion_skip data config;
          config = standardVersion_releaseCommitMessageFormat data config;
          config = standardVersion_infile data config
      in Inr config)"

fun toStringSlice :: "val list \<Rightarrow> string list" where
  "toStringSlice [] = []"
| "toStringSlice (v # input) =
     (case asString (Some v) of
        Some s \<Rightarrow> s # toStringSlice input
      | None \<Rightarrow> toStringSlice input)"

text \<open>The body of the inner loop of \<open>extractGoReleaserAssets\<close>: the path
  \<^verbatim>\<open>fmt.Sprintf("release/%s_%s_%s%s", binaryName, os, archName, ext)\<close>.\<close>

definition assetPath :: "string \<Rightarrow> string \<Rightarrow> string \<Rightarrow> string" where
  "assetPath binaryName os arch =
     (let archName = (if arch = ''amd64'' then ''x86_64''
                      else if arch = ''arm64'' then ''aarch64''
                      else arch);
          ext = (if os = ''windows'' then ''.zip'' else ''.tar.gz'')
      in ''release/'' @ binaryName @ ''_'' @ os @ ''_'' @ archName @ ext)"

definition extractGoReleaserAssets :: "gomap \<Rightarrow> string \<Rightarrow> string list" where
  "extractGoReleaserAssets data projectName =
     (let assets = [];
          binaryName = projectName;
          binaryName = (case firstBuild data of
                          Some build \<Rightarrow>
                            (case asString (mget build ''binary'') of
                               Some binary \<Rightarrow> binary
                             | None \<Rightarrow> binaryName)
                        | None \<Rightarrow> binaryName);
          binaryName = (if binaryName = [] then ''{{.ProjectName}}'' else binaryName);
          goos = [''linux'', ''darwin'', ''windows''];
          goarch = [''amd64'', ''arm64''];
          goos = (case firstBuild data of
                    Some build \<Rightarrow>
                      (case asList (mget build ''goos'') of
                         Some g \<Rightarrow> toStringSlice g
                       | None \<Rightarrow> goos)
                  | None \<Rightarrow> goos);
          goarch = (case firstBuild data of
                      Some build \<Rightarrow>
                        (case asList (mget build ''goarch'') of
                           Some g \<Rightarrow> toStringSlice g
                         | None \<Rightarrow> goarch)
                    | None \<Rightarrow> goarch);
          assets = foldl (\<lambda>assets os.
                      foldl (\<lambda>assets arch. assets @ [assetPath binaryName os arch]) assets goarch)
                    assets goos;
          assets = assets @ [''release/checksums.txt'']
      in assets)"

text \<open>The loop of \<open>convertGoReleaser\<close> that stores the asset list in the first plugin named
  \<^verbatim>\<open>github\<close>, making its configuration map when it is nil, and then breaks.\<close>

fun attachAssets :: "string list \<Rightarrow> PluginConfig list \<Rightarrow> PluginConfig list" where
  "attachAssets assets [] = []"
| "attachAssets assets (p # plugins) =
     (if Name p = ''github''
      then p\<lparr>Config := Some (AList.update ''assets'' (VStrs assets)
                              (case Config p of None \<Rightarrow> [] | Some m \<Rightarrow> m))\<rparr> # plugins
      else p # attachAssets assets plugins)"

definition goReleaserDefaults :: RelictaConfig where
  "goReleaserDefaults =
     \<lparr>Versioning = \<lparr>Strategy = ''conventional'', TagPrefix = ''v''\<rparr>,
      Changelog = \<lparr>Enabled_Changelog = True, Template = [], File = ''CHANGELOG.md''\<rparr>,
      Git = \<lparr>RequireCleanTree = True, PushTags = True, CreateTag = True,
             CommitMessage = [], TagMessage = [], RequireUpToDate = False,
             AllowedBranches = [''main'']\<rparr>,
      Plugins = [], AI = None\<rparr>"

definition goReleaser_changelog :: "gomap \<Rightarrow> RelictaConfig \<Rightarrow> RelictaConfig" where
  "goReleaser_changelog data config =
     (case asMap (mget data ''changelog'') of
        Some changelog \<Rightarrow>
          (if asBool (mget changelog ''skip'') = Some True
           then config\<lparr>Changelog := (Changelog config)\<lparr>Enabled_Changelog := False\<rparr>\<rparr>
           else config)
      | None \<Rightarrow> config)"

definition goReleaser_ownerRepo :: "gomap \<Rightarrow> (string \<times> val) list \<Rightarrow> (string \<times> val) list" where
  "goReleaser_ownerRepo release ghConfig =
     (case asMap (mget release ''github'') of
        Some github \<Rightarrow>
          (let ghConfig = (case asString (mget github ''owner'') of
                             Some owner \<Rightarrow> AList.update ''owner'' (VStr owner) ghConfig
                           | None \<Rightarrow> ghConfig);
               ghConfig = (case asString (mget github ''name'') of
                             Some name \<Rightarrow> AList.update ''repo'' (VStr name) ghConfig
                           | None \<Rightarrow> ghConfig)
           in ghConfig)
      | None \<Rightarrow> ghConfig)"

definition goReleaser_draft :: "gomap \<Rightarrow> (string \<times> val) list \<Rightarrow> (string \<times> val) list" where
  "goReleaser_draft release ghConfig =
     (case asBool (mget release ''draft'') of
        Some draft \<Rightarrow> AList.update ''draft'' (VBool draft) ghConfig
      | None \<Rightarrow> ghConfig)"

definition goReleaser_prerelease :: "gomap \<Rightarrow> (string \<times> val) list \<Rightarrow> (string \<times> val) list" where
  "goReleaser_prerelease release ghConfig =
     (case asString (mget release ''prerelease'') of
        Some prerelease \<Rightarrow> AList.update ''prerelease'' (VBool (prerelease = ''auto'')) ghConfig
      | None \<Rightarrow>
          (case asBool (mget release ''prerelease'') of
             Some prerelease \<Rightarrow> AList.update ''prerelease'' (VBool prerelease) ghConfig
           | None \<Rightarrow> ghConfig))"

definition goReleaser_nameTemplate :: "gomap \<Rightarrow> (string \<times> val) list \<Rightarrow> (string \<times> val) list" where
  "goReleaser_nameTemplate release ghConfig =
     (case asString (mget release ''name_template'') of
        Some nameTemplate \<Rightarrow> AList.update ''name_template'' (VStr nameTemplate) ghConfig
      | None \<Rightarrow> ghConfig)"

definition goReleaser_release :: "gomap \<Rightarrow> RelictaConfig \<Rightarrow> RelictaConfig" where
  "goReleaser_release data config =
     (case asMap (mget data ''release'') of
        Some release \<Rightarrow>
          (let ghConfig = [];
               ghConfig = goReleaser_ownerRepo release ghConfig;
               ghConfig = goReleaser_draft release ghConfig;
               ghConfig = goReleaser_prerelease release ghConfig;
               ghConfig = goReleaser_nameTemplate release ghConfig
           in config\<lparr>Plugins := Plugins config @
                [\<lparr>Name = ''github'', Enabled = True, Config = Some ghConfig\<rparr>]\<rparr>)
      | None \<Rightarrow>
          config\<lparr>Plugins := Plugins config @
            [\<lparr>Name = ''github'', Enabled = True, Config = None\<rparr>]\<rparr>)"

definition goReleaser_assets :: "string list \<Rightarrow> RelictaConfig \<Rightarrow> RelictaConfig" where
  "goReleaser_assets assets config =
     (if length assets > 0
      then config\<lparr>Plugins := attachAssets assets (Plugins config)\<rparr>
      else config)"

text \<open>The last block of the source reads \<^verbatim>\<open>snapshot.version_template\<close> and discards it;
  it has no effect on the document.\<close>

definition convertGoReleaser :: "Result \<Rightarrow> error + RelictaConfig" where
  "convertGoReleaser result =
     (let data = ConfigData result;
          config = goReleaserDefaults;
          projectName = (case asString (mget data ''project_name'') of
                           Some pn \<Rightarrow> pn
                         | None \<Rightarrow> []);
          config = goReleaser_changelog data config;
          config = goReleaser_release data config;
          assets = extractGoReleaserAssets data projectName;
          config = goReleaser_assets assets config
      in Inr config)"

definition Convert :: "Result \<Rightarrow> error + RelictaConfig" where
  "Convert result =
     (if Tool result = ToolSemanticRelease then convertSemanticRelease result
      else if Tool result = ToolReleaseIt then convertReleaseIt result
      else if Tool result = ToolStandardVersion then convertStandardVersion result
      else if Tool result = ToolGoReleaser then convertGoReleaser result
      else Inl (''unsupported tool: '' @ Tool result))"

section \<open>Definitions used in the statements and proofs\<close>

text \<open>Two conditions on a pattern \<open>q\<close> and a replacement token \<open>new\<close>, both decided by
  evaluation: no match of \<open>q\<close> can begin inside the token, and no match of \<open>q\<close> that began
  before the token can continue into it.\<close>

definition cannot_start_in :: "string \<Rightarrow> string \<Rightarrow> bool" where
  "cannot_start_in q new \<longleftrightarrow>
     list_all (\<lambda>u. u = [] \<or> (\<not> prefix q u \<and> \<not> prefix u q)) (suffixes new)"

definition cannot_run_into :: "string \<Rightarrow> string \<Rightarrow> bool" where
  "cannot_run_into q new \<longleftrightarrow>
     list_all (\<lambda>p. p = [] \<or> (\<not> prefix p new \<and> \<not> prefix new p)) (suffixes q)"

text \<open>The type assertion each converter applies to a top-level key of the tree, read off the
  blocks above: \<open>accepts tool key v\<close> holds when the converter of \<open>tool\<close> reads \<open>key\<close> and its
  assertion succeeds on \<open>v\<close>.\<close>

definition accepts :: "string \<Rightarrow> string \<Rightarrow> val \<Rightarrow> bool" where
  "accepts tool key v \<longleftrightarrow>
     tool = ToolSemanticRelease \<and>
       (key = ''tagFormat'' \<and> asString (Some v) \<noteq> None \<or>
        key \<in> {''branches'', ''plugins''} \<and> asList (Some v) \<noteq> None) \<or>
     tool = ToolReleaseIt \<and>
       key \<in> {''git'', ''npm'', ''github'', ''gitlab''} \<and> asMap (Some v) \<noteq> None \<or>
     tool = ToolStandardVersion \<and>
       (key \<in> {''tagPrefix'', ''releaseCommitMessageFormat'', ''infile''} \<and> asString (Some v) \<noteq> None \<or>
        key = ''skip'' \<and> asMap (Some v) \<noteq> None) \<or>
     tool = ToolGoReleaser \<and>
       (key = ''project_name'' \<and> asString (Some v) \<noteq> None \<or>
        key \<in> {''changelog'', ''release''} \<and> asMap (Some v) \<noteq> None \<or>
        key = ''builds'' \<and> asList (Some v) \<noteq> None)"

text \<open>The same for a key of a mapping nested under a top-level key:
  \<open>acceptsIn tool parent key v\<close> holds when the converter of \<open>tool\<close> reads \<open>key\<close> in the
  mapping under \<open>parent\<close> and its assertion succeeds on \<open>v\<close>.\<close>

definition acceptsIn :: "string \<Rightarrow> string \<Rightarrow> string \<Rightarrow> val \<Rightarrow> bool" where
  "acceptsIn tool parent key v \<longleftrightarrow>
     tool = ToolReleaseIt \<and>
       (parent = ''git'' \<and>
          (key \<in> {''tagName'', ''commitMessage'', ''tagAnnotation''} \<and> asString (Some v) \<noteq> None \<or>
           key \<in> {''requireCleanWorkingDir'', ''push''} \<and> asBool (Some v) \<noteq> None) \<or>
        parent = ''npm'' \<and> key = ''publish'' \<and> asBool (Some v) \<noteq> None \<or>
        parent = ''github'' \<and> key \<in> {''release'', ''draft'', ''preRelease''} \<and> asBool (Some v) \<noteq> None \<or>
        parent = ''gitlab'' \<and> key = ''release'' \<and> asBool (Some v) \<noteq> None) \<or>
     tool = ToolStandardVersion \<and>
       parent = ''skip'' \<and> key \<in> {''changelog'', ''tag''} \<and> asBool (Some v) \<noteq> None \<or>
     tool = ToolGoReleaser \<and>
       (parent = ''changelog'' \<and> key = ''skip'' \<and> asBool (Some v) \<noteq> None \<or>
        parent = ''release'' \<and>
          (key = ''github'' \<and> asMap (Some v) \<noteq> None \<or>
           key = ''draft'' \<and> asBool (Some v) \<noteq> None \<or>
           key = ''prerelease'' \<and> (asString (Some v) \<noteq> None \<or> asBool (Some v) \<noteq> None) \<or>
           key = ''name_template'' \<and> asString (Some v) \<noteq> None))"

text \<open>The configuration of the plugin entry that the release block of \<open>convertGoReleaser\<close>
  appends.\<close>

definition releasePluginConfig :: "gomap \<Rightarrow> RelictaConfig \<Rightarrow> gomap" where
  "releasePluginConfig data config = Config (last (Plugins (goReleaser_release data config)))"

text \<open>Concrete directories for the detector: files given by path and content, with
  \<^verbatim>\<open>filepath.Join\<close> and \<^verbatim>\<open>filepath.Ext\<close> as on Unix and the two parsers given on the
  contents that occur.\<close>

definition unixJoin :: "string \<Rightarrow> string \<Rightarrow> string" where
  "unixJoin dir file = dir @ ''/'' @ file"

definition unixExt :: "string \<Rightarrow> string" where
  "unixExt path =
     (let seg = takeWhile (\<lambda>c. c \<noteq> CHR ''/'') (rev path) in
      if CHR ''.'' \<in> set seg then CHR ''.'' # rev (takeWhile (\<lambda>c. c \<noteq> CHR ''.'') seg) else [])"

definition demoJSON :: "string \<Rightarrow> error + gomap" where
  "demoJSON content =
     (if content = ''{\"branches\": [\"main\"]}''
      then Inr (Some [(''branches'', VList [VStr ''main''])])
      else if content = ''{\"git\": {\"tagName\": \"v${version}\"}}''
      then Inr (Some [(''git'', VMap (Some [(''tagName'', VStr ''v${version}'')]))])
      else if content = ''{\"tagPrefix\": \"v\"}''
      then Inr (Some [(''tagPrefix'', VStr ''v'')])
      else if content = ''{\"name\": \"test\"}''
      then Inr (Some [(''name'', VStr ''test'')])
      else if content = ''{\"name\": \"test\", \"release\": {\"branches\": [\"main\"]}}''
      then Inr (Some [(''name'', VStr ''test''),
                      (''release'', VMap (Some [(''branches'', VList [VStr ''main''])]))])
      else Inl ''invalid character'')"

definition demoYAML :: "string \<Rightarrow> error + gomap" where
  "demoYAML content =
     (case demoJSON content of
        Inr m \<Rightarrow> Inr m
      | Inl err \<Rightarrow>
          (if content = ''project_name: demo''
           then Inr (Some [(''project_name'', VStr ''demo'')])
           else Inl ''cannot unmarshal''))"

definition demoFiles :: "(string \<times> string) list \<Rightarrow> world" where
  "demoFiles files =
     \<lparr>ReadFile = (\<lambda>path. case map_of files path of
                            Some content \<Rightarrow> Inr content
                          | None \<Rightarrow> Inl ''no such file or directory''),
      jsonUnmarshal = demoJSON,
      yamlUnmarshal = demoYAML,
      Join = unixJoin,
      Ext = unixExt\<rparr>"

definition priorityWorld :: world where
  "priorityWorld = demoFiles
     [(''proj/.releaserc.json'', ''{\"branches\": [\"main\"]}''),
      (''proj/.release-it.json'', ''{\"git\": {\"tagName\": \"v${version}\"}}''),
      (''proj/.versionrc.json'', ''{\"tagPrefix\": \"v\"}'')]"

definition manifestWorld :: world where
  "manifestWorld = demoFiles
     [(''proj/.release-it.json'', ''{\"git\": {\"tagName\": \"v${version}\"}}''),
      (''proj/.versionrc.json'', ''{\"tagPrefix\": \"v\"}''),
      (''proj/package.json'', ''{\"name\": \"test\", \"release\": {\"branches\": [\"main\"]}}'')]"

definition laterToolsWorld :: world where
  "laterToolsWorld = demoFiles
     [(''proj/.release-it.json'', ''{\"git\": {\"tagName\": \"v${version}\"}}''),
      (''proj/.versionrc.json'', ''{\"tagPrefix\": \"v\"}''),
      (''proj/.goreleaser.yml'', ''project_name: demo''),
      (''proj/package.json'', ''{\"name\": \"test\"}'')]"

section \<open>Shared facts\<close>

lemmas Tool_defs = ToolNone_def ToolSemanticRelease_def ToolReleaseIt_def
  ToolStandardVersion_def ToolGoReleaser_def

text \<open>The plugin loop as a concatenation of the entries' outcomes.\<close>

lemma convertSemanticReleasePlugins_loop_eq:
  "convertSemanticReleasePlugins_loop plugins acc =
   acc @ concat (map (\<lambda>p. case mapSemanticReleasePlugin (pluginName p) (pluginConfig p) of
                            Some relictaPlugin \<Rightarrow> [relictaPlugin] | None \<Rightarrow> []) plugins)"
  by (induction plugins arbitrary: acc) (simp_all split: option.splits)

section \<open>Detection priority\<close>

lemma detectSemanticRelease_files:
  "firstConfigFile w dir semanticReleaseFiles = Some (path, data) \<Longrightarrow>
   detectSemanticRelease w dir =
     Inr (Some \<lparr>Tool = ToolSemanticRelease, ConfigFile = path, ConfigData = data,
                Details = extractSemanticReleaseDetails data\<rparr>)"
  by (simp add: detectSemanticRelease_def)

lemma detectSemanticRelease_key:
  "firstConfigFile w dir semanticReleaseFiles = None \<Longrightarrow>
   packageKey w dir ''release'' = Some (file, data) \<Longrightarrow>
   detectSemanticRelease w dir =
     Inr (Some \<lparr>Tool = ToolSemanticRelease, ConfigFile = file, ConfigData = data,
                Details = extractSemanticReleaseDetails data\<rparr>)"
  by (simp add: detectSemanticRelease_def)

lemma detectSemanticRelease_none:
  "firstConfigFile w dir semanticReleaseFiles = None \<Longrightarrow>
   packageKey w dir ''release'' = None \<Longrightarrow>
   detectSemanticRelease w dir = Inr None"
  by (simp add: detectSemanticRelease_def)

lemma detectReleaseIt_files:
  "firstConfigFile w dir releaseItFiles = Some (path, data) \<Longrightarrow>
   detectReleaseIt w dir =
     Inr (Some \<lparr>Tool = ToolReleaseIt, ConfigFile = path, ConfigData = data,
                Details = extractReleaseItDetails data\<rparr>)"
  by (simp add: detectReleaseIt_def)

lemma detectReleaseIt_key:
  "firstConfigFile w dir releaseItFiles = None \<Longrightarrow>
   packageKey w dir ''release-it'' = Some (file, data) \<Longrightarrow>
   detectReleaseIt w dir =
     Inr (Some \<lparr>Tool = ToolReleaseIt, ConfigFile = file, ConfigData = data,
                Details = extractReleaseItDetails data\<rparr>)"
  by (simp add: detectReleaseIt_def)

lemma detectReleaseIt_none:
  "firstConfigFile w dir releaseItFiles = None \<Longrightarrow>
   packageKey w dir ''release-it'' = None \<Longrightarrow>
   detectReleaseIt w dir = Inr None"
  by (simp add: detectReleaseIt_def)

lemma detectStandardVersion_files:
  "firstConfigFile w dir standardVersionFiles = Some (path, data) \<Longrightarrow>
   detectStandardVersion w dir =
     Inr (Some \<lparr>Tool = ToolStandardVersion, ConfigFile = path, ConfigData = data,
                Details = extractStandardVersionDetails data\<rparr>)"
  by (simp add: detectStandardVersion_def)

lemma detectStandardVersion_key:
  "firstConfigFile w dir standardVersionFiles = None \<Longrightarrow>
   packageKey w dir ''standard-version'' = Some (file, data) \<Longrightarrow>
   detectStandardVersion w dir =
     Inr (Some \<lparr>Tool = ToolStandardVersion, ConfigFile = file, ConfigData = data,
                Details = extractStandardVersionDetails data\<rparr>)"
  by (simp add: detectStandardVersion_def)

lemma detectStandardVersion_none:
  "firstConfigFile w dir standardVersionFiles = None \<Longrightarrow>
   packageKey w dir ''standard-version'' = None \<Longrightarrow>
   detectStandardVersion w dir = Inr None"
  by (simp add: detectStandardVersion_def)

lemma detectGoReleaser_files:
  "firstConfigFile w dir goReleaserFiles = Some (path, data) \<Longrightarrow>
   detectGoReleaser w dir =
     Inr (Some \<lparr>Tool = ToolGoReleaser, ConfigFile = path, ConfigData = data,
                Details = extractGoReleaserDetails data\<rparr>)"
  by (simp add: detectGoReleaser_def)

lemma detectGoReleaser_none:
  "firstConfigFile w dir goReleaserFiles = None \<Longrightarrow> detectGoReleaser w dir = Inr None"
  by (simp add: detectGoReleaser_def)

lemma runDetectors_hit:
  "detect dir = Inr (Some result) \<Longrightarrow> Tool result \<noteq> ToolNone \<Longrightarrow>
   runDetectors (detect # detectors) dir = Inr result"
  by simp

lemma runDetectors_miss:
  "detect dir = Inr None \<Longrightarrow>
   runDetectors (detect # detectors) dir = runDetectors detectors dir"
  by simp

text \<open>
  C1 (as amended). \<open>Detect\<close> returns the first tool, in the order semantic-release,
  release-it, standard-version, goreleaser, whose probe matches, where a probe matches through
  the tool's first parseable dedicated file or, failing that, through the tool's key in
  \<^verbatim>\<open>package.json\<close>. So in a directory where dedicated files of several tools are present
  and parseable, the first of those tools in the order is returned, with the tree of its first
  parseable dedicated file, provided no tool before it is configured through its
  \<^verbatim>\<open>package.json\<close> key; the result of a later tool is never returned once the probe of an
  earlier tool matches.
\<close>

theorem Detect_priority:
  "(\<forall>path data.
      firstConfigFile w dir semanticReleaseFiles = Some (path, data) \<longrightarrow>
      Detect w dir = Inr \<lparr>Tool = ToolSemanticRelease, ConfigFile = path, ConfigData = data,
                           Details = extractSemanticReleaseDetails data\<rparr>) \<and>
   (\<forall>path data.
      firstConfigFile w dir semanticReleaseFiles = None \<and>
      packageKey w dir ''release'' = None \<and>
      firstConfigFile w dir releaseItFiles = Some (path, data) \<longrightarrow>
      Detect w dir = Inr \<lparr>Tool = ToolReleaseIt, ConfigFile = path, ConfigData = data,
                           Details = extractReleaseItDetails data\<rparr>) \<and>
   (\<forall>path data.
      firstConfigFile w dir semanticReleaseFiles = None \<and>
      packageKey w dir ''release'' = None \<and>
      firstConfigFile w dir releaseItFiles = None \<and>
      packageKey w dir ''release-it'' = None \<and>
      firstConfigFile w dir standardVersionFiles = Some (path, data) \<longrightarrow>
      Detect w dir = Inr \<lparr>Tool = ToolStandardVersion, ConfigFile = path, ConfigData = data,
                           Details = extractStandardVersionDetails data\<rparr>) \<and>
   (\<forall>path data.
      firstConfigFile w dir semanticReleaseFiles = None \<and>
      packageKey w dir ''release'' = None \<and>
      firstConfigFile w dir releaseItFiles = None \<and>
      packageKey w dir ''release-it'' = None \<and>
      firstConfigFile w dir standardVersionFiles = None \<and>
      packageKey w dir ''standard-version'' = None \<and>
      firstConfigFile w dir goReleaserFiles = Some (path, data) \<longrightarrow>
      Detect w dir = Inr \<lparr>Tool = ToolGoReleaser, ConfigFile = path, ConfigData = data,
                           Details = extractGoReleaserDetails data\<rparr>) \<and>
   (\<forall>file data.
      firstConfigFile w dir semanticReleaseFiles = None \<and>
      packageKey w dir ''release'' = Some (file, data) \<longrightarrow>
      Detect w dir = Inr \<lparr>Tool = ToolSemanticRelease, ConfigFile = file, ConfigData = data,
                           Details = extractSemanticReleaseDetails data\<rparr>) \<and>
   (\<forall>file data.
      firstConfigFile w dir semanticReleaseFiles = None \<and>
      packageKey w dir ''release'' = None \<and>
      firstConfigFile w dir releaseItFiles = None \<and>
      packageKey w dir ''release-it'' = Some (file, data) \<longrightarrow>
      Detect w dir = Inr \<lparr>Tool = ToolReleaseIt, ConfigFile = file, ConfigData = data,
                           Details = extractReleaseItDetails data\<rparr>) \<and>
   (\<forall>file data.
      firstConfigFile w dir semanticReleaseFiles = None \<and>
      packageKey w dir ''release'' = None \<and>
      firstConfigFile w dir releaseItFiles = None \<and>
      packageKey w dir ''release-it'' = None \<and>
      firstConfigFile w dir standardVersionFiles = None \<and>
      packageKey w dir ''standard-version'' = Some (file, data) \<longrightarrow>
      Detect w dir = Inr \<lparr>Tool = ToolStandardVersion, ConfigFile = file, ConfigData = data,
                           Details = extractStandardVersionDetails data\<rparr>) \<and>
   (firstConfigFile w dir semanticReleaseFiles = None \<and>
    packageKey w dir ''release'' = None \<and>
    firstConfigFile w dir releaseItFiles = None \<and>
    packageKey w dir ''release-it'' = None \<and>
    firstConfigFile w dir standardVersionFiles = None \<and>
    packageKey w dir ''standard-version'' = None \<and>
    firstConfigFile w dir goReleaserFiles = None \<longrightarrow>
    Detect w dir = Inr \<lparr>Tool = ToolNone, ConfigFile = [], ConfigData = None, Details = None\<rparr>)"
  by (intro conjI allI impI)
    (simp_all add: Detect_def Tool_defs
      detectSemanticRelease_files detectSemanticRelease_key detectSemanticRelease_none
      detectReleaseIt_files detectReleaseIt_key detectReleaseIt_none
      detectStandardVersion_files detectStandardVersion_key detectStandardVersion_none
      detectGoReleaser_files detectGoReleaser_none)

theorem Detect_priority_witness:
  "firstConfigFile priorityWorld ''proj'' semanticReleaseFiles =
     Some (''proj/.releaserc.json'', Some [(''branches'', VList [VStr ''main''])]) \<and>
   firstConfigFile priorityWorld ''proj'' releaseItFiles =
     Some (''proj/.release-it.json'', Some [(''git'', VMap (Some [(''tagName'', VStr ''v${version}'')]))]) \<and>
   firstConfigFile priorityWorld ''proj'' standardVersionFiles =
     Some (''proj/.versionrc.json'', Some [(''tagPrefix'', VStr ''v'')]) \<and>
   Detect priorityWorld ''proj'' =
     Inr \<lparr>Tool = ToolSemanticRelease, ConfigFile = ''proj/.releaserc.json'',
          ConfigData = Some [(''branches'', VList [VStr ''main''])],
          Details = Some [(''branches'', VList [VStr ''main''])]\<rparr> \<and>
   firstConfigFile laterToolsWorld ''proj'' semanticReleaseFiles = None \<and>
   packageKey laterToolsWorld ''proj'' ''release'' = None \<and>
   firstConfigFile laterToolsWorld ''proj'' releaseItFiles =
     Some (''proj/.release-it.json'', Some [(''git'', VMap (Some [(''tagName'', VStr ''v${version}'')]))]) \<and>
   firstConfigFile laterToolsWorld ''proj'' standardVersionFiles =
     Some (''proj/.versionrc.json'', Some [(''tagPrefix'', VStr ''v'')]) \<and>
   firstConfigFile laterToolsWorld ''proj'' goReleaserFiles =
     Some (''proj/.goreleaser.yml'', Some [(''project_name'', VStr ''demo'')]) \<and>
   Detect laterToolsWorld ''proj'' =
     Inr \<lparr>Tool = ToolReleaseIt, ConfigFile = ''proj/.release-it.json'',
          ConfigData = Some [(''git'', VMap (Some [(''tagName'', VStr ''v${version}'')]))],
          Details = Some [(''tagName'', VStr ''v${version}'')]\<rparr>"
proof -
  have sr: "firstConfigFile priorityWorld ''proj'' semanticReleaseFiles =
     Some (''proj/.releaserc.json'', Some [(''branches'', VList [VStr ''main''])])"
    by code_simp
  have ri: "firstConfigFile priorityWorld ''proj'' releaseItFiles =
     Some (''proj/.release-it.json'', Some [(''git'', VMap (Some [(''tagName'', VStr ''v${version}'')]))])"
    by code_simp
  have sv: "firstConfigFile priorityWorld ''proj'' standardVersionFiles =
     Some (''proj/.versionrc.json'', Some [(''tagPrefix'', VStr ''v'')])"
    by code_simp
  have d: "extractSemanticReleaseDetails (Some [(''branches'', VList [VStr ''main''])]) =
      Some [(''branches'', VList [VStr ''main''])]"
    by code_simp
  have 1: "Detect priorityWorld ''proj'' =
     Inr \<lparr>Tool = ToolSemanticRelease, ConfigFile = ''proj/.releaserc.json'',
          ConfigData = Some [(''branches'', VList [VStr ''main''])],
          Details = Some [(''branches'', VList [VStr ''main''])]\<rparr>"
    using Detect_priority [of priorityWorld "''proj''", THEN conjunct1, rule_format, OF sr]
    by (simp only: d)
  have sr': "firstConfigFile laterToolsWorld ''proj'' semanticReleaseFiles = None"
    by code_simp
  have pk': "packageKey laterToolsWorld ''proj'' ''release'' = None"
    by code_simp
  have ri': "firstConfigFile laterToolsWorld ''proj'' releaseItFiles =
     Some (''proj/.release-it.json'', Some [(''git'', VMap (Some [(''tagName'', VStr ''v${version}'')]))])"
    by code_simp
  have sv': "firstConfigFile laterToolsWorld ''proj'' standardVersionFiles =
     Some (''proj/.versionrc.json'', Some [(''tagPrefix'', VStr ''v'')])"
    by code_simp
  have gr': "firstConfigFile laterToolsWorld ''proj'' goReleaserFiles =
     Some (''proj/.goreleaser.yml'', Some [(''project_name'', VStr ''demo'')])"
    by code_simp
  have d': "extractReleaseItDetails (Some [(''git'', VMap (Some [(''tagName'', VStr ''v${version}'')]))]) =
      Some [(''tagName'', VStr ''v${version}'')]"
    by code_simp
  have 2: "Detect laterToolsWorld ''proj'' =
     Inr \<lparr>Tool = ToolReleaseIt, ConfigFile = ''proj/.release-it.json'',
          ConfigData = Some [(''git'', VMap (Some [(''tagName'', VStr ''v${version}'')]))],
          Details = Some [(''tagName'', VStr ''v${version}'')]\<rparr>"
    using Detect_priority [of laterToolsWorld "''proj''", THEN conjunct2, THEN conjunct1,
        rule_format, OF conjI [OF sr' conjI [OF pk' ri']]]
    by (simp only: d')
  show ?thesis
    by (intro conjI) (fact sr ri sv 1 sr' pk' ri' sv' gr' 2)+
qed

text \<open>
  C1 (as stated) fails. In this directory the dedicated files of release-it and
  standard-version are present and parseable, no dedicated file of semantic-release or
  goreleaser is, and \<^verbatim>\<open>package.json\<close> has a \<^verbatim>\<open>release\<close> key: \<open>Detect\<close> returns
  semantic-release with the tree embedded in the manifest, not release-it, the first in the
  order of the tools that have a dedicated file.
\<close>

theorem Detect_manifest_outranks_dedicated:
  "firstConfigFile manifestWorld ''proj'' semanticReleaseFiles = None \<and>
   firstConfigFile manifestWorld ''proj'' releaseItFiles =
     Some (''proj/.release-it.json'', Some [(''git'', VMap (Some [(''tagName'', VStr ''v${version}'')]))]) \<and>
   firstConfigFile manifestWorld ''proj'' standardVersionFiles =
     Some (''proj/.versionrc.json'', Some [(''tagPrefix'', VStr ''v'')]) \<and>
   firstConfigFile manifestWorld ''proj'' goReleaserFiles = None \<and>
   Detect manifestWorld ''proj'' =
     Inr \<lparr>Tool = ToolSemanticRelease, ConfigFile = ''proj/package.json (release key)'',
          ConfigData = Some [(''branches'', VList [VStr ''main''])],
          Details = Some [(''branches'', VList [VStr ''main''])]\<rparr> \<and>
   ToolSemanticRelease \<noteq> ToolReleaseIt"
proof -
  have sr: "firstConfigFile manifestWorld ''proj'' semanticReleaseFiles = None"
    by code_simp
  have ri: "firstConfigFile manifestWorld ''proj'' releaseItFiles =
     Some (''proj/.release-it.json'', Some [(''git'', VMap (Some [(''tagName'', VStr ''v${version}'')]))])"
    by code_simp
  have sv: "firstConfigFile manifestWorld ''proj'' standardVersionFiles =
     Some (''proj/.versionrc.json'', Some [(''tagPrefix'', VStr ''v'')])"
    by code_simp
  have gr: "firstConfigFile manifestWorld ''proj'' goReleaserFiles = None"
    by code_simp
  have pk: "packageKey manifestWorld ''proj'' ''release'' =
      Some (''proj/package.json (release key)'', Some [(''branches'', VList [VStr ''main''])])"
    by code_simp
  have d: "extractSemanticReleaseDetails (Some [(''branches'', VList [VStr ''main''])]) =
      Some [(''branches'', VList [VStr ''main''])]"
    by code_simp
  have det: "Detect manifestWorld ''proj'' =
     Inr \<lparr>Tool = ToolSemanticRelease, ConfigFile = ''proj/package.json (release key)'',
          ConfigData = Some [(''branches'', VList [VStr ''main''])],
          Details = Some [(''branches'', VList [VStr ''main''])]\<rparr>"
    by (simp add: Detect_def detectSemanticRelease_def sr pk d Tool_defs)
  have ne: "ToolSemanticRelease \<noteq> ToolReleaseIt" by (simp add: Tool_defs)
  show ?thesis
    by (intro conjI) (fact sr ri sv gr det ne)+
qed

section \<open>Plugin mapping\<close>







section \<open>Build-matrix asset derivation\<close>

lemma foldl_snoc_map: "foldl (\<lambda>acc x. acc @ [f x]) acc xs = acc @ map f xs"
  by (induction xs arbitrary: acc) simp_all

lemma foldl_foldl_snoc:
  "foldl (\<lambda>acc x. foldl (\<lambda>acc y. acc @ [f x y]) acc ys) acc xs =
   acc @ concat (map (\<lambda>x. map (f x) ys) xs)"
  by (induction xs arbitrary: acc) (simp_all add: foldl_snoc_map)

lemma extractGoReleaserAssets_eq:
  "extractGoReleaserAssets data projectName =
     concat (map (\<lambda>os. map (assetPath
        (let b = (case firstBuild data of
                    Some build \<Rightarrow> (case asString (mget build ''binary'') of
                                       Some binary \<Rightarrow> binary | None \<Rightarrow> projectName)
                  | None \<Rightarrow> projectName)
         in if b = [] then ''{{.ProjectName}}'' else b) os)
        (case firstBuild data of
           Some build \<Rightarrow> (case asList (mget build ''goarch'') of
                              Some g \<Rightarrow> toStringSlice g | None \<Rightarrow> [''amd64'', ''arm64''])
         | None \<Rightarrow> [''amd64'', ''arm64'']))
        (case firstBuild data of
           Some build \<Rightarrow> (case asList (mget build ''goos'') of
                              Some g \<Rightarrow> toStringSlice g | None \<Rightarrow> [''linux'', ''darwin'', ''windows''])
         | None \<Rightarrow> [''linux'', ''darwin'', ''windows''])) @
     [''release/checksums.txt'']"
  unfolding extractGoReleaserAssets_def Let_def foldl_foldl_snoc by simp

text \<open>
  C3. For a GoReleaser tree whose first build declares the OS list linux, darwin, windows, the
  architecture list amd64, arm64 and the binary name \<^verbatim>\<open>plugin-test\<close>, asset derivation
  gives exactly seven paths: one per pair, OS-major and architecture-minor in declaration order,
  with amd64 written x86_64 and arm64 written aarch64, the extension \<^verbatim>\<open>.zip\<close> for windows and
  \<^verbatim>\<open>.tar.gz\<close> otherwise, and the checksums manifest last. For every tree the result is that
  cross product over an OS list, an architecture list and a name, followed by the one checksums
  path, where each list is the one the first build declares (its string elements) or, when the
  first build declares none, the default OS triple or architecture pair; and the name is the
  binary name the first build declares, falls back to the project name when none is declared,
  and then to the placeholder \<^verbatim>\<open>{{.ProjectName}}\<close> when the name so found is empty.
\<close>

theorem goReleaser_asset_derivation:
  "(\<forall>build. firstBuild data = Some build \<and>
       asString (mget build ''binary'') = Some ''plugin-test'' \<and>
       asList (mget build ''goos'') = Some [VStr ''linux'', VStr ''darwin'', VStr ''windows''] \<and>
       asList (mget build ''goarch'') = Some [VStr ''amd64'', VStr ''arm64''] \<longrightarrow>
     extractGoReleaserAssets data projectName =
       [''release/plugin-test_linux_x86_64.tar.gz'', ''release/plugin-test_linux_aarch64.tar.gz'',
        ''release/plugin-test_darwin_x86_64.tar.gz'', ''release/plugin-test_darwin_aarch64.tar.gz'',
        ''release/plugin-test_windows_x86_64.zip'', ''release/plugin-test_windows_aarch64.zip'',
        ''release/checksums.txt'']) \<and>
   ((\<forall>build. firstBuild data = Some build \<longrightarrow>
       asString (mget build ''binary'') = None \<and>
       asList (mget build ''goos'') = None \<and> asList (mget build ''goarch'') = None) \<longrightarrow>
     extractGoReleaserAssets data projectName =
       map (\<lambda>suffix. ''release/'' @ (if projectName = [] then ''{{.ProjectName}}'' else projectName) @ suffix)
         [''_linux_x86_64.tar.gz'', ''_linux_aarch64.tar.gz'',
          ''_darwin_x86_64.tar.gz'', ''_darwin_aarch64.tar.gz'',
          ''_windows_x86_64.zip'', ''_windows_aarch64.zip''] @
       [''release/checksums.txt'']) \<and>
   (\<exists>goos goarch binaryName.
      extractGoReleaserAssets data projectName =
        concat (map (\<lambda>os. map (\<lambda>arch.
            ''release/'' @ (if binaryName = [] then ''{{.ProjectName}}'' else binaryName) @
            ''_'' @ os @ ''_'' @
            (if arch = ''amd64'' then ''x86_64'' else if arch = ''arm64'' then ''aarch64'' else arch) @
            (if os = ''windows'' then ''.zip'' else ''.tar.gz''))
          goarch) goos) @
        [''release/checksums.txt''] \<and>
      (\<forall>build g. firstBuild data = Some build \<and> asList (mget build ''goos'') = Some g \<longrightarrow>
         goos = toStringSlice g) \<and>
      ((\<forall>build. firstBuild data = Some build \<longrightarrow> asList (mget build ''goos'') = None) \<longrightarrow>
         goos = [''linux'', ''darwin'', ''windows'']) \<and>
      (\<forall>build g. firstBuild data = Some build \<and> asList (mget build ''goarch'') = Some g \<longrightarrow>
         goarch = toStringSlice g) \<and>
      ((\<forall>build. firstBuild data = Some build \<longrightarrow> asList (mget build ''goarch'') = None) \<longrightarrow>
         goarch = [''amd64'', ''arm64'']) \<and>
      (\<forall>build binary. firstBuild data = Some build \<and>
         asString (mget build ''binary'') = Some binary \<longrightarrow> binaryName = binary) \<and>
      ((\<forall>build. firstBuild data = Some build \<longrightarrow> asString (mget build ''binary'') = None) \<longrightarrow>
         binaryName = projectName)) \<and>
   toStringSlice (map VStr names) = names \<and>
   (asString (Some v) = None \<longrightarrow> toStringSlice (xs @ v # ys) = toStringSlice (xs @ ys))"
proof (intro conjI allI impI)
  fix build
  assume "firstBuild data = Some build \<and>
       asString (mget build ''binary'') = Some ''plugin-test'' \<and>
       asList (mget build ''goos'') = Some [VStr ''linux'', VStr ''darwin'', VStr ''windows''] \<and>
       asList (mget build ''goarch'') = Some [VStr ''amd64'', VStr ''arm64'']"
  then show "extractGoReleaserAssets data projectName =
       [''release/plugin-test_linux_x86_64.tar.gz'', ''release/plugin-test_linux_aarch64.tar.gz'',
        ''release/plugin-test_darwin_x86_64.tar.gz'', ''release/plugin-test_darwin_aarch64.tar.gz'',
        ''release/plugin-test_windows_x86_64.zip'', ''release/plugin-test_windows_aarch64.zip'',
        ''release/checksums.txt'']"
    by (simp add: extractGoReleaserAssets_eq assetPath_def)
next
  assume h: "\<forall>build. firstBuild data = Some build \<longrightarrow>
       asString (mget build ''binary'') = None \<and>
       asList (mget build ''goos'') = None \<and> asList (mget build ''goarch'') = None"
  show "extractGoReleaserAssets data projectName =
       map (\<lambda>suffix. ''release/'' @ (if projectName = [] then ''{{.ProjectName}}'' else projectName) @ suffix)
         [''_linux_x86_64.tar.gz'', ''_linux_aarch64.tar.gz'',
          ''_darwin_x86_64.tar.gz'', ''_darwin_aarch64.tar.gz'',
          ''_windows_x86_64.zip'', ''_windows_aarch64.zip''] @
       [''release/checksums.txt'']"
  proof (cases "firstBuild data")
    case None
    then show ?thesis by (simp add: extractGoReleaserAssets_eq assetPath_def)
  next
    case (Some build)
    with h show ?thesis by (simp add: extractGoReleaserAssets_eq assetPath_def)
  qed
next
  let ?goos = "case firstBuild data of
           Some build \<Rightarrow> (case asList (mget build ''goos'') of
                              Some g \<Rightarrow> toStringSlice g | None \<Rightarrow> [''linux'', ''darwin'', ''windows''])
         | None \<Rightarrow> [''linux'', ''darwin'', ''windows'']"
  let ?goarch = "case firstBuild data of
           Some build \<Rightarrow> (case asList (mget build ''goarch'') of
                              Some g \<Rightarrow> toStringSlice g | None \<Rightarrow> [''amd64'', ''arm64''])
         | None \<Rightarrow> [''amd64'', ''arm64'']"
  let ?name = "case firstBuild data of
                    Some build \<Rightarrow> (case asString (mget build ''binary'') of
                                       Some binary \<Rightarrow> binary | None \<Rightarrow> projectName)
                  | None \<Rightarrow> projectName"
  have eq: "extractGoReleaserAssets data projectName =
        concat (map (\<lambda>os. map (\<lambda>arch.
            ''release/'' @ (if ?name = [] then ''{{.ProjectName}}'' else ?name) @
            ''_'' @ os @ ''_'' @
            (if arch = ''amd64'' then ''x86_64'' else if arch = ''arm64'' then ''aarch64'' else arch) @
            (if os = ''windows'' then ''.zip'' else ''.tar.gz''))
          ?goarch) ?goos) @
        [''release/checksums.txt'']"
    unfolding extractGoReleaserAssets_eq assetPath_def Let_def by (rule refl)
  have 1: "\<forall>build g. firstBuild data = Some build \<and> asList (mget build ''goos'') = Some g \<longrightarrow>
         ?goos = toStringSlice g" by simp
  have 2: "(\<forall>build. firstBuild data = Some build \<longrightarrow> asList (mget build ''goos'') = None) \<longrightarrow>
         ?goos = [''linux'', ''darwin'', ''windows'']" by (cases "firstBuild data") simp_all
  have 3: "\<forall>build g. firstBuild data = Some build \<and> asList (mget build ''goarch'') = Some g \<longrightarrow>
         ?goarch = toStringSlice g" by simp
  have 4: "(\<forall>build. firstBuild data = Some build \<longrightarrow> asList (mget build ''goarch'') = None) \<longrightarrow>
         ?goarch = [''amd64'', ''arm64'']" by (cases "firstBuild data") simp_all
  have 5: "\<forall>build binary. firstBuild data = Some build \<and>
         asString (mget build ''binary'') = Some binary \<longrightarrow> ?name = binary" by simp
  have 6: "(\<forall>build. firstBuild data = Some build \<longrightarrow> asString (mget build ''binary'') = None) \<longrightarrow>
         ?name = projectName" by (cases "firstBuild data") simp_all
  show "\<exists>goos goarch binaryName.
      extractGoReleaserAssets data projectName =
        concat (map (\<lambda>os. map (\<lambda>arch.
            ''release/'' @ (if binaryName = [] then ''{{.ProjectName}}'' else binaryName) @
            ''_'' @ os @ ''_'' @
            (if arch = ''amd64'' then ''x86_64'' else if arch = ''arm64'' then ''aarch64'' else arch) @
            (if os = ''windows'' then ''.zip'' else ''.tar.gz''))
          goarch) goos) @
        [''release/checksums.txt''] \<and>
      (\<forall>build g. firstBuild data = Some build \<and> asList (mget build ''goos'') = Some g \<longrightarrow>
         goos = toStringSlice g) \<and>
      ((\<forall>build. firstBuild data = Some build \<longrightarrow> asList (mget build ''goos'') = None) \<longrightarrow>
         goos = [''linux'', ''darwin'', ''windows'']) \<and>
      (\<forall>build g. firstBuild data = Some build \<and> asList (mget build ''goarch'') = Some g \<longrightarrow>
         goarch = toStringSlice g) \<and>
      ((\<forall>build. firstBuild data = Some build \<longrightarrow> asList (mget build ''goarch'') = None) \<longrightarrow>
         goarch = [''amd64'', ''arm64'']) \<and>
      (\<forall>build binary. firstBuild data = Some build \<and>
         asString (mget build ''binary'') = Some binary \<longrightarrow> binaryName = binary) \<and>
      ((\<forall>build. firstBuild data = Some build \<longrightarrow> asString (mget build ''binary'') = None) \<longrightarrow>
         binaryName = projectName)"
    apply (rule exI [where x = ?goos])
    apply (rule exI [where x = ?goarch])
    apply (rule exI [where x = ?name])
    apply (intro conjI)
          apply (rule eq)
         apply (rule 1)
        apply (rule 2)
       apply (rule 3)
      apply (rule 4)
     apply (rule 5)
    apply (rule 6)
    done
next
  show "toStringSlice (map VStr names) = names"
    by (induction names) simp_all
next
  assume "asString (Some v) = None"
  then show "toStringSlice (xs @ v # ys) = toStringSlice (xs @ ys)"
    by (induction xs) (simp_all split: option.splits)
qed

theorem goReleaser_asset_derivation_witness:
  "firstBuild (Some [(''project_name'', VStr ''plugin-test''),
       (''builds'', VList [VMap (Some [(''binary'', VStr ''plugin-test''),
          (''goos'', VList [VStr ''linux'', VStr ''darwin'', VStr ''windows'']),
          (''goarch'', VList [VStr ''amd64'', VStr ''arm64''])])])]) =
     Some (Some [(''binary'', VStr ''plugin-test''),
          (''goos'', VList [VStr ''linux'', VStr ''darwin'', VStr ''windows'']),
          (''goarch'', VList [VStr ''amd64'', VStr ''arm64''])]) \<and>
   extractGoReleaserAssets (Some [(''project_name'', VStr ''plugin-test''),
       (''builds'', VList [VMap (Some [(''binary'', VStr ''plugin-test''),
          (''goos'', VList [VStr ''linux'', VStr ''darwin'', VStr ''windows'']),
          (''goarch'', VList [VStr ''amd64'', VStr ''arm64''])])])]) ''plugin-test'' =
     [''release/plugin-test_linux_x86_64.tar.gz'', ''release/plugin-test_linux_aarch64.tar.gz'',
      ''release/plugin-test_darwin_x86_64.tar.gz'', ''release/plugin-test_darwin_aarch64.tar.gz'',
      ''release/plugin-test_windows_x86_64.zip'', ''release/plugin-test_windows_aarch64.zip'',
      ''release/checksums.txt''] \<and>
   firstBuild (Some []) = None \<and>
   extractGoReleaserAssets (Some []) ''myapp'' =
     [''release/myapp_linux_x86_64.tar.gz'', ''release/myapp_linux_aarch64.tar.gz'',
      ''release/myapp_darwin_x86_64.tar.gz'', ''release/myapp_darwin_aarch64.tar.gz'',
      ''release/myapp_windows_x86_64.zip'', ''release/myapp_windows_aarch64.zip'',
      ''release/checksums.txt''] \<and>
   extractGoReleaserAssets
       (Some [(''builds'', VList [VMap (Some [(''binary'', VStr []),
          (''goos'', VList [VStr ''linux'', VNum 7]),
          (''goarch'', VList [VStr ''riscv64''])])])]) ''myapp'' =
     [''release/{{.ProjectName}}_linux_riscv64.tar.gz'', ''release/checksums.txt'']"
proof -
  let ?build = "Some [(''binary'', VStr ''plugin-test''),
          (''goos'', VList [VStr ''linux'', VStr ''darwin'', VStr ''windows'']),
          (''goarch'', VList [VStr ''amd64'', VStr ''arm64''])]"
  let ?data = "Some [(''project_name'', VStr ''plugin-test''), (''builds'', VList [VMap ?build])]"
  have fb: "firstBuild ?data = Some ?build" by (simp add: firstBuild_def)
  have h: "firstBuild ?data = Some ?build \<and>
       asString (mget ?build ''binary'') = Some ''plugin-test'' \<and>
       asList (mget ?build ''goos'') = Some [VStr ''linux'', VStr ''darwin'', VStr ''windows''] \<and>
       asList (mget ?build ''goarch'') = Some [VStr ''amd64'', VStr ''arm64'']"
    using fb by simp
  have 1: "extractGoReleaserAssets ?data ''plugin-test'' =
     [''release/plugin-test_linux_x86_64.tar.gz'', ''release/plugin-test_linux_aarch64.tar.gz'',
      ''release/plugin-test_darwin_x86_64.tar.gz'', ''release/plugin-test_darwin_aarch64.tar.gz'',
      ''release/plugin-test_windows_x86_64.zip'', ''release/plugin-test_windows_aarch64.zip'',
      ''release/checksums.txt'']"
    by (rule goReleaser_asset_derivation [where data = ?data and projectName = "''plugin-test''",
          THEN conjunct1, rule_format, OF h])
  have fb0: "firstBuild (Some []) = None" by (simp add: firstBuild_def)
  have h0: "\<forall>build. firstBuild (Some []) = Some build \<longrightarrow>
       asString (mget build ''binary'') = None \<and>
       asList (mget build ''goos'') = None \<and> asList (mget build ''goarch'') = None"
    using fb0 by simp
  have 2: "extractGoReleaserAssets (Some []) ''myapp'' =
     [''release/myapp_linux_x86_64.tar.gz'', ''release/myapp_linux_aarch64.tar.gz'',
      ''release/myapp_darwin_x86_64.tar.gz'', ''release/myapp_darwin_aarch64.tar.gz'',
      ''release/myapp_windows_x86_64.zip'', ''release/myapp_windows_aarch64.zip'',
      ''release/checksums.txt'']"
    using goReleaser_asset_derivation [where data = "Some []" and projectName = "''myapp''",
          THEN conjunct2, THEN conjunct1, THEN mp, OF h0]
    by simp
  let ?b3 = "Some [(''binary'', VStr []), (''goos'', VList [VStr ''linux'', VNum 7]),
          (''goarch'', VList [VStr ''riscv64''])]"
  let ?d3 = "Some [(''builds'', VList [VMap ?b3])]"
  have fb3: "firstBuild ?d3 = Some ?b3" by (simp add: firstBuild_def)
  from goReleaser_asset_derivation [where data = ?d3 and projectName = "''myapp''",
      THEN conjunct2, THEN conjunct2, THEN conjunct1]
  obtain goos goarch binaryName where
    eq: "extractGoReleaserAssets ?d3 ''myapp'' =
        concat (map (\<lambda>os. map (\<lambda>arch.
            ''release/'' @ (if binaryName = [] then ''{{.ProjectName}}'' else binaryName) @
            ''_'' @ os @ ''_'' @
            (if arch = ''amd64'' then ''x86_64'' else if arch = ''arm64'' then ''aarch64'' else arch) @
            (if os = ''windows'' then ''.zip'' else ''.tar.gz''))
          goarch) goos) @
        [''release/checksums.txt'']"
    and os: "\<forall>build g. firstBuild ?d3 = Some build \<and> asList (mget build ''goos'') = Some g \<longrightarrow>
         goos = toStringSlice g"
    and arch: "\<forall>build g. firstBuild ?d3 = Some build \<and> asList (mget build ''goarch'') = Some g \<longrightarrow>
         goarch = toStringSlice g"
    and name: "\<forall>build binary. firstBuild ?d3 = Some build \<and>
         asString (mget build ''binary'') = Some binary \<longrightarrow> binaryName = binary"
    by (elim exE conjE) (rule that)
  from os [rule_format, of ?b3 "[VStr ''linux'', VNum 7]"] fb3
  have os': "goos = [''linux'']" by simp
  from arch [rule_format, of ?b3 "[VStr ''riscv64'']"] fb3
  have arch': "goarch = [''riscv64'']" by simp
  from name [rule_format, of ?b3 "[]"] fb3
  have name': "binaryName = []" by simp
  have 3: "extractGoReleaserAssets ?d3 ''myapp'' =
     [''release/{{.ProjectName}}_linux_riscv64.tar.gz'', ''release/checksums.txt'']"
    unfolding eq os' arch' name' by simp
  show ?thesis
    by (intro conjI) (fact fb 1 fb0 2 3)+
qed

section \<open>Template placeholder normalization\<close>

lemma prefix_append_cases:
  "prefix p (u @ r) \<Longrightarrow> prefix p u \<or> prefix u p"
  by (auto simp: prefix_append)

lemma ReplaceAll_match:
  "prefix (a # old) (c # cs) \<Longrightarrow>
   ReplaceAll (c # cs) (a # old) new = new @ ReplaceAll (drop (length (a # old)) (c # cs)) (a # old) new"
  by simp

lemma ReplaceAll_skip:
  "\<not> prefix (a # old) (c # cs) \<Longrightarrow>
   ReplaceAll (c # cs) (a # old) new = c # ReplaceAll cs (a # old) new"
  by auto

lemma cannot_start_inD:
  "cannot_start_in q new \<Longrightarrow> suffix u new \<Longrightarrow> u \<noteq> [] \<Longrightarrow> \<not> prefix q u \<and> \<not> prefix u q"
  by (auto simp: cannot_start_in_def list_all_iff in_set_suffixes)

lemma cannot_run_intoD:
  "cannot_run_into q new \<Longrightarrow> suffix p q \<Longrightarrow> p \<noteq> [] \<Longrightarrow> \<not> prefix p new \<and> \<not> prefix new p"
  by (auto simp: cannot_run_into_def list_all_iff in_set_suffixes)

lemma prefix_ReplaceAll_back:
  assumes "cannot_run_into q new"
  shows "suffix p q \<Longrightarrow> prefix p (ReplaceAll s (a # old) new) \<Longrightarrow> prefix p s"
proof (induction s arbitrary: p)
  case Nil
  then show ?case by simp
next
  case (Cons c cs)
  show ?case
  proof (cases p)
    case Nil
    then show ?thesis by simp
  next
    case p: (Cons d p')
    show ?thesis
    proof (cases "prefix (a # old) (c # cs)")
      case True
      from Cons.prems(2) have "prefix p (new @ ReplaceAll (drop (length (a # old)) (c # cs)) (a # old) new)"
        by (simp only: ReplaceAll_match [OF True])
      then have "prefix p new \<or> prefix new p" by (rule prefix_append_cases)
      moreover have "p \<noteq> []" using p by simp
      ultimately show ?thesis
        using cannot_run_intoD [OF assms Cons.prems(1)] by blast
    next
      case False
      from Cons.prems(2) have "prefix (d # p') (c # ReplaceAll cs (a # old) new)"
        by (simp only: ReplaceAll_skip [OF False] p)
      then have dc: "d = c" and pre: "prefix p' (ReplaceAll cs (a # old) new)"
        by simp_all
      from Cons.prems(1) p have "suffix p' q" by (auto dest: suffix_ConsD)
      from Cons.IH [OF this pre] dc p show ?thesis by simp
    qed
  qed
qed

lemma sublist_token_append:
  assumes "cannot_start_in q new"
  shows "suffix u new \<Longrightarrow> sublist q (u @ r) \<Longrightarrow> sublist q r"
proof (induction u)
  case Nil
  then show ?case by simp
next
  case (Cons x xs)
  have "\<not> prefix q ((x # xs) @ r)"
    using cannot_start_inD [OF assms Cons.prems(1)] prefix_append_cases [of q "x # xs" r] by blast
  with Cons.prems(2) have "sublist q (xs @ r)" by (simp add: sublist_Cons_right)
  moreover from Cons.prems(1) have "suffix xs new" by (rule suffix_ConsD)
  ultimately show ?case using Cons.IH by blast
qed

lemma ReplaceAll_keeps_absent:
  assumes cs: "cannot_start_in q new" and cr: "cannot_run_into q new" and q: "q \<noteq> []"
  shows "\<not> sublist q s \<Longrightarrow> \<not> sublist q (ReplaceAll s (a # old) new)"
proof (induction s rule: length_induct)
  case (1 s)
  show ?case
  proof (cases s)
    case Nil
    then show ?thesis using q by simp
  next
    case s: (Cons c cs)
    show ?thesis
    proof (cases "prefix (a # old) (c # cs)")
      case True
      let ?rest = "drop (length (a # old)) (c # cs)"
      have "sublist ?rest (c # cs)" by (rule sublist_drop)
      with "1.prems" s have "\<not> sublist q ?rest"
        using sublist_order.order.trans by blast
      moreover have "length ?rest < length s" using s by simp
      ultimately have "\<not> sublist q (ReplaceAll ?rest (a # old) new)"
        using "1.IH" by blast
      then have "\<not> sublist q (new @ ReplaceAll ?rest (a # old) new)"
        using sublist_token_append [OF cs suffix_order.refl] by blast
      then show ?thesis by (simp only: s ReplaceAll_match [OF True] not_False_eq_True)
    next
      case False
      from "1.prems" s have np: "\<not> prefix q (c # cs)" and ns: "\<not> sublist q cs"
        by (simp_all add: sublist_Cons_right)
      have "length cs < length s" using s by simp
      with ns "1.IH" have r: "\<not> sublist q (ReplaceAll cs (a # old) new)" by blast
      have "\<not> prefix q (ReplaceAll (c # cs) (a # old) new)"
        using prefix_ReplaceAll_back [OF cr suffix_order.refl, of "c # cs" a old] np by blast
      then have "\<not> prefix q (c # ReplaceAll cs (a # old) new)"
        by (simp only: ReplaceAll_skip [OF False] not_False_eq_True)
      with r have "\<not> sublist q (c # ReplaceAll cs (a # old) new)"
        by (simp add: sublist_Cons_right)
      then show ?thesis by (simp only: s ReplaceAll_skip [OF False] not_False_eq_True)
    qed
  qed
qed

lemma ReplaceAll_removes:
  assumes cs: "cannot_start_in (a # old) new" and cr: "cannot_run_into (a # old) new"
  shows "\<not> sublist (a # old) (ReplaceAll s (a # old) new)"
proof (induction s rule: length_induct)
  case (1 s)
  show ?case
  proof (cases s)
    case Nil
    then show ?thesis by simp
  next
    case s: (Cons c cs)
    show ?thesis
    proof (cases "prefix (a # old) (c # cs)")
      case True
      let ?rest = "drop (length (a # old)) (c # cs)"
      have "length ?rest < length s" using s by simp
      then have "\<not> sublist (a # old) (ReplaceAll ?rest (a # old) new)"
        using "1.IH" by blast
      then have "\<not> sublist (a # old) (new @ ReplaceAll ?rest (a # old) new)"
        using sublist_token_append [OF cs suffix_order.refl] by blast
      then show ?thesis by (simp only: s ReplaceAll_match [OF True] not_False_eq_True)
    next
      case False
      have "length cs < length s" using s by simp
      with "1.IH" have r: "\<not> sublist (a # old) (ReplaceAll cs (a # old) new)" by blast
      have "\<not> prefix (a # old) (ReplaceAll (c # cs) (a # old) new)"
        using prefix_ReplaceAll_back [OF cr suffix_order.refl, of "c # cs" a old] False by blast
      then have "\<not> prefix (a # old) (c # ReplaceAll cs (a # old) new)"
        by (simp only: ReplaceAll_skip [OF False] not_False_eq_True)
      with r have "\<not> sublist (a # old) (c # ReplaceAll cs (a # old) new)"
        by (simp add: sublist_Cons_right)
      then show ?thesis by (simp only: s ReplaceAll_skip [OF False] not_False_eq_True)
    qed
  qed
qed

lemma ReplaceAll_absent_id:
  "\<not> sublist (a # old) s \<Longrightarrow> ReplaceAll s (a # old) new = s"
proof (induction s)
  case Nil
  then show ?case by simp
next
  case (Cons c cs)
  then have np: "\<not> prefix (a # old) (c # cs)" and "\<not> sublist (a # old) cs"
    by (simp_all add: sublist_Cons_right)
  with Cons.IH have "ReplaceAll cs (a # old) new = cs" by blast
  then show ?case by (simp only: ReplaceAll_skip [OF np])
qed

lemma start_version: "cannot_start_in ''${version}'' ''{{.Version}}''"
  by (simp add: cannot_start_in_def)
lemma start_nextRelease: "cannot_start_in ''${nextRelease.version}'' ''{{.Version}}''"
  by (simp add: cannot_start_in_def)
lemma start_braces: "cannot_start_in ''{{version}}'' ''{{.Version}}''"
  by (simp add: cannot_start_in_def)
lemma run_version: "cannot_run_into ''${version}'' ''{{.Version}}''"
  by (simp add: cannot_run_into_def)
lemma run_nextRelease: "cannot_run_into ''${nextRelease.version}'' ''{{.Version}}''"
  by (simp add: cannot_run_into_def)
lemma run_braces: "cannot_run_into ''{{version}}'' ''{{.Version}}''"
  by (simp add: cannot_run_into_def)

lemma convertTemplate_free:
  "\<not> sublist ''${version}'' (convertTemplate s)"
  "\<not> sublist ''${nextRelease.version}'' (convertTemplate s)"
  "\<not> sublist ''{{version}}'' (convertTemplate s)"
  unfolding convertTemplate_def Let_def
  using ReplaceAll_removes [OF start_version run_version]
    ReplaceAll_removes [OF start_nextRelease run_nextRelease]
    ReplaceAll_removes [OF start_braces run_braces]
    ReplaceAll_keeps_absent [OF start_version run_version]
    ReplaceAll_keeps_absent [OF start_nextRelease run_nextRelease]
  by simp_all

text \<open>
  C4. Template placeholder normalization is idempotent: for every string \<open>s\<close>, applying
  \<open>convertTemplate\<close> twice gives the same string as applying it once. The reason is that the
  normalized string has no occurrence of any of the three patterns \<^verbatim>\<open>${version}\<close>,
  \<^verbatim>\<open>${nextRelease.version}\<close> and \<^verbatim>\<open>{{version}}\<close>: the replacement token
  \<^verbatim>\<open>{{.Version}}\<close> is matched by none of them, and no match can start in a token or run into
  one.
\<close>

theorem convertTemplate_idempotent:
  "convertTemplate (convertTemplate s) = convertTemplate s \<and>
   \<not> sublist ''${version}'' (convertTemplate s) \<and>
   \<not> sublist ''${nextRelease.version}'' (convertTemplate s) \<and>
   \<not> sublist ''{{version}}'' (convertTemplate s)"
proof -
  let ?r = "convertTemplate s"
  have "convertTemplate ?r =
      ReplaceAll (ReplaceAll (ReplaceAll ?r ''${version}'' ''{{.Version}}'')
        ''${nextRelease.version}'' ''{{.Version}}'') ''{{version}}'' ''{{.Version}}''"
    by (simp add: convertTemplate_def)
  also have "\<dots> = ?r"
    using convertTemplate_free [of s] by (simp add: ReplaceAll_absent_id)
  finally have "convertTemplate ?r = ?r" .
  with convertTemplate_free [of s] show ?thesis by (intro conjI)
qed

theorem convertTemplate_idempotent_witness:
  "convertTemplate ''chore(release): ${version} {{version}}'' =
     ''chore(release): {{.Version}} {{.Version}}'' \<and>
   convertTemplate ''chore(release): {{.Version}} {{.Version}}'' =
     ''chore(release): {{.Version}} {{.Version}}'' \<and>
   convertTemplate ''{{.Version}}'' = ''{{.Version}}'' \<and>
   \<not> sublist ''${version}'' ''{{.Version}}'' \<and>
   \<not> sublist ''${nextRelease.version}'' ''{{.Version}}'' \<and>
   \<not> sublist ''{{version}}'' ''{{.Version}}''"
proof -
  have 1: "convertTemplate ''chore(release): ${version} {{version}}'' =
     ''chore(release): {{.Version}} {{.Version}}''"
    by (simp add: convertTemplate_def)
  have 2: "convertTemplate ''{{.Version}}'' = ''{{.Version}}''"
    by (simp add: convertTemplate_def)
  note i = convertTemplate_idempotent [of "''chore(release): ${version} {{version}}''", unfolded 1]
  note t = convertTemplate_idempotent [of "''{{.Version}}''", unfolded 2]
  show ?thesis
    by (intro conjI) (rule 1 2 i [THEN conjunct1] t [THEN conjunct2, THEN conjunct1]
        t [THEN conjunct2, THEN conjunct2, THEN conjunct1]
        t [THEN conjunct2, THEN conjunct2, THEN conjunct2])+
qed

section \<open>Tag-prefix extraction\<close>

lemma TrimSuffix_append: "TrimSuffix (p @ suf) suf = p"
  by (simp add: TrimSuffix_def suffix_def)

lemma TrimSuffix_no_suffix: "\<not> suffix suf s \<Longrightarrow> TrimSuffix s suf = s"
  by (simp add: TrimSuffix_def)

lemma Versioning_semanticRelease_branches [simp]:
  "Versioning (semanticRelease_branches data config) = Versioning config"
  by (simp add: semanticRelease_branches_def split: option.splits)

lemma Versioning_semanticRelease_plugins [simp]:
  "Versioning (semanticRelease_plugins data config) = Versioning config"
  by (simp add: semanticRelease_plugins_def split: option.splits)

lemma Versioning_semanticRelease_tagFormat:
  "asString (mget data ''tagFormat'') = Some t \<Longrightarrow>
   Versioning (semanticRelease_tagFormat data config) =
     (if TrimSuffix t ''${version}'' \<noteq> []
      then (Versioning config)\<lparr>TagPrefix := TrimSuffix t ''${version}''\<rparr>
      else Versioning config)"
  by (simp add: semanticRelease_tagFormat_def Let_def)

lemma Versioning_releaseIt_commitMessage [simp]:
  "Versioning (releaseIt_commitMessage git config) = Versioning config"
  by (simp add: releaseIt_commitMessage_def split: option.splits)

lemma Versioning_releaseIt_tagAnnotation [simp]:
  "Versioning (releaseIt_tagAnnotation git config) = Versioning config"
  by (simp add: releaseIt_tagAnnotation_def split: option.splits)

lemma Versioning_releaseIt_requireCleanWorkingDir [simp]:
  "Versioning (releaseIt_requireCleanWorkingDir git config) = Versioning config"
  by (simp add: releaseIt_requireCleanWorkingDir_def split: option.splits)

lemma Versioning_releaseIt_push [simp]:
  "Versioning (releaseIt_push git config) = Versioning config"
  by (simp add: releaseIt_push_def split: option.splits)

lemma Versioning_releaseIt_npm [simp]:
  "Versioning (releaseIt_npm data config) = Versioning config"
  by (simp add: releaseIt_npm_def split: option.splits)

lemma Versioning_releaseIt_github [simp]:
  "Versioning (releaseIt_github data config) = Versioning config"
  by (simp add: releaseIt_github_def split: option.splits)

lemma Versioning_releaseIt_gitlab [simp]:
  "Versioning (releaseIt_gitlab data config) = Versioning config"
  by (simp add: releaseIt_gitlab_def split: option.splits)

lemma Versioning_releaseIt_tagName:
  "asString (mget git ''tagName'') = Some t \<Longrightarrow>
   Versioning (releaseIt_tagName git config) =
     (if TrimSuffix t ''${version}'' \<noteq> []
      then (Versioning config)\<lparr>TagPrefix := TrimSuffix t ''${version}''\<rparr>
      else Versioning config)"
  by (simp add: releaseIt_tagName_def Let_def)

lemma semanticRelease_TagPrefix:
  "asString (mget (ConfigData r) ''tagFormat'') = Some t \<Longrightarrow>
   \<exists>cfg. convertSemanticRelease r = Inr cfg \<and>
         TagPrefix (Versioning cfg) = TrimSuffix t ''${version}''"
  by (simp add: convertSemanticRelease_def Let_def Versioning_semanticRelease_tagFormat
      semanticReleaseDefaults_def)

lemma releaseIt_TagPrefix:
  "asMap (mget (ConfigData r) ''git'') = Some git \<Longrightarrow>
   asString (mget git ''tagName'') = Some t \<Longrightarrow>
   \<exists>cfg. convertReleaseIt r = Inr cfg \<and>
         TagPrefix (Versioning cfg) = TrimSuffix t ''${version}''"
  by (simp add: convertReleaseIt_def releaseIt_git_def Let_def Versioning_releaseIt_tagName
      releaseItDefaults_def)

text \<open>
  C5. Tag-prefix extraction removes the trailing version placeholder from the tag template, and
  the prefix field is set only when the remainder is not empty: for a semantic-release
  \<^verbatim>\<open>tagFormat\<close> and a release-it \<^verbatim>\<open>git.tagName\<close> of the form \<open>p @ ''${version}''\<close> the
  document's tag prefix is \<open>p\<close>, and the field is left out of the document when \<open>p\<close> is empty.
  So \<^verbatim>\<open>v${version}\<close> gives the prefix \<^verbatim>\<open>v\<close> and \<^verbatim>\<open>${version}\<close> alone gives none.
\<close>

theorem tag_prefix_extraction:
  "TrimSuffix (p @ ''${version}'') ''${version}'' = p \<and>
   (asString (mget (ConfigData r) ''tagFormat'') = Some (p @ ''${version}'') \<longrightarrow>
      (\<exists>cfg. convertSemanticRelease r = Inr cfg \<and> TagPrefix (Versioning cfg) = p \<and>
             tag_prefix (Versioning cfg) = (if p = [] then None else Some p))) \<and>
   (\<forall>git. asMap (mget (ConfigData r) ''git'') = Some git \<and>
          asString (mget git ''tagName'') = Some (p @ ''${version}'') \<longrightarrow>
      (\<exists>cfg. convertReleaseIt r = Inr cfg \<and> TagPrefix (Versioning cfg) = p \<and>
             tag_prefix (Versioning cfg) = (if p = [] then None else Some p)))"
proof (intro conjI allI impI)
  show "TrimSuffix (p @ ''${version}'') ''${version}'' = p" by (rule TrimSuffix_append)
next
  assume "asString (mget (ConfigData r) ''tagFormat'') = Some (p @ ''${version}'')"
  then show "\<exists>cfg. convertSemanticRelease r = Inr cfg \<and> TagPrefix (Versioning cfg) = p \<and>
             tag_prefix (Versioning cfg) = (if p = [] then None else Some p)"
    using semanticRelease_TagPrefix [of r "p @ ''${version}''"]
    by (auto simp: TrimSuffix_append tag_prefix_def)
next
  fix git
  assume "asMap (mget (ConfigData r) ''git'') = Some git \<and>
          asString (mget git ''tagName'') = Some (p @ ''${version}'')"
  then show "\<exists>cfg. convertReleaseIt r = Inr cfg \<and> TagPrefix (Versioning cfg) = p \<and>
             tag_prefix (Versioning cfg) = (if p = [] then None else Some p)"
    using releaseIt_TagPrefix [of r git "p @ ''${version}''"]
    by (auto simp: TrimSuffix_append tag_prefix_def)
qed

theorem tag_prefix_extraction_witness:
  "(\<exists>cfg. convertSemanticRelease
            \<lparr>Tool = ToolSemanticRelease, ConfigFile = ''.releaserc'',
             ConfigData = Some [(''tagFormat'', VStr ''v${version}'')], Details = None\<rparr> = Inr cfg \<and>
          tag_prefix (Versioning cfg) = Some ''v'') \<and>
   (\<exists>cfg. convertSemanticRelease
            \<lparr>Tool = ToolSemanticRelease, ConfigFile = ''.releaserc'',
             ConfigData = Some [(''tagFormat'', VStr ''${version}'')], Details = None\<rparr> = Inr cfg \<and>
          tag_prefix (Versioning cfg) = None) \<and>
   (\<exists>cfg. convertReleaseIt
            \<lparr>Tool = ToolReleaseIt, ConfigFile = ''.release-it.json'',
             ConfigData = Some [(''git'', VMap (Some [(''tagName'', VStr ''v${version}'')]))],
             Details = None\<rparr> = Inr cfg \<and>
          tag_prefix (Versioning cfg) = Some ''v'') \<and>
   (\<exists>cfg. convertReleaseIt
            \<lparr>Tool = ToolReleaseIt, ConfigFile = ''.release-it.json'',
             ConfigData = Some [(''git'', VMap (Some [(''tagName'', VStr ''${version}'')]))],
             Details = None\<rparr> = Inr cfg \<and>
          tag_prefix (Versioning cfg) = None)"
  using
    tag_prefix_extraction [where p = "''v''" and r = "\<lparr>Tool = ToolSemanticRelease, ConfigFile = ''.releaserc'',
             ConfigData = Some [(''tagFormat'', VStr ''v${version}'')], Details = None\<rparr>"]
    tag_prefix_extraction [where p = "[]" and r = "\<lparr>Tool = ToolSemanticRelease, ConfigFile = ''.releaserc'',
             ConfigData = Some [(''tagFormat'', VStr ''${version}'')], Details = None\<rparr>"]
    tag_prefix_extraction [where p = "''v''" and r = "\<lparr>Tool = ToolReleaseIt, ConfigFile = ''.release-it.json'',
             ConfigData = Some [(''git'', VMap (Some [(''tagName'', VStr ''v${version}'')]))],
             Details = None\<rparr>"]
    tag_prefix_extraction [where p = "[]" and r = "\<lparr>Tool = ToolReleaseIt, ConfigFile = ''.release-it.json'',
             ConfigData = Some [(''git'', VMap (Some [(''tagName'', VStr ''${version}'')]))],
             Details = None\<rparr>"]
  by auto

text \<open>
  C10. When the tag template contains the version placeholder but does not end with it, nothing
  is removed and the whole template, placeholder included, is stored as the tag prefix, for a
  semantic-release \<^verbatim>\<open>tagFormat\<close> and for a release-it \<^verbatim>\<open>git.tagName\<close>.
\<close>

theorem non_trailing_placeholder:
  assumes "sublist ''${version}'' t" and "\<not> suffix ''${version}'' t"
  shows "TrimSuffix t ''${version}'' = t \<and>
   (asString (mget (ConfigData r) ''tagFormat'') = Some t \<longrightarrow>
      (\<exists>cfg. convertSemanticRelease r = Inr cfg \<and> TagPrefix (Versioning cfg) = t \<and>
             tag_prefix (Versioning cfg) = Some t)) \<and>
   (\<forall>git. asMap (mget (ConfigData r) ''git'') = Some git \<and>
          asString (mget git ''tagName'') = Some t \<longrightarrow>
      (\<exists>cfg. convertReleaseIt r = Inr cfg \<and> TagPrefix (Versioning cfg) = t \<and>
             tag_prefix (Versioning cfg) = Some t))"
proof -
  from assms(1) have ne: "t \<noteq> []" by auto
  have trim: "TrimSuffix t ''${version}'' = t" using assms(2) by (rule TrimSuffix_no_suffix)
  show ?thesis
  proof (intro conjI allI impI)
    show "TrimSuffix t ''${version}'' = t" by (rule trim)
  next
    assume "asString (mget (ConfigData r) ''tagFormat'') = Some t"
    then show "\<exists>cfg. convertSemanticRelease r = Inr cfg \<and> TagPrefix (Versioning cfg) = t \<and>
             tag_prefix (Versioning cfg) = Some t"
      using ne semanticRelease_TagPrefix [of r t] by (auto simp: trim tag_prefix_def)
  next
    fix git
    assume "asMap (mget (ConfigData r) ''git'') = Some git \<and>
          asString (mget git ''tagName'') = Some t"
    then show "\<exists>cfg. convertReleaseIt r = Inr cfg \<and> TagPrefix (Versioning cfg) = t \<and>
             tag_prefix (Versioning cfg) = Some t"
      using ne releaseIt_TagPrefix [of r git t] by (auto simp: trim tag_prefix_def)
  qed
qed

theorem non_trailing_placeholder_witness:
  "sublist ''${version}'' ''${version}-rc'' \<and> \<not> suffix ''${version}'' ''${version}-rc'' \<and>
   sublist ''${version}'' ''release-${version}-final'' \<and>
   \<not> suffix ''${version}'' ''release-${version}-final'' \<and>
   (\<exists>cfg. convertSemanticRelease
            \<lparr>Tool = ToolSemanticRelease, ConfigFile = ''.releaserc'',
             ConfigData = Some [(''tagFormat'', VStr ''${version}-rc'')], Details = None\<rparr> = Inr cfg \<and>
          TagPrefix (Versioning cfg) = ''${version}-rc'') \<and>
   (\<exists>cfg. convertReleaseIt
            \<lparr>Tool = ToolReleaseIt, ConfigFile = ''.release-it.json'',
             ConfigData = Some [(''git'', VMap (Some [(''tagName'', VStr ''release-${version}-final'')]))],
             Details = None\<rparr> = Inr cfg \<and>
          TagPrefix (Versioning cfg) = ''release-${version}-final'')"
proof -
  have s1: "sublist ''${version}'' ([] @ ''${version}'' @ ''-rc'')" by (rule sublist_appendI)
  have s2: "sublist ''${version}'' (''release-'' @ ''${version}'' @ ''-final'')"
    by (rule sublist_appendI)
  have n1: "\<not> suffix ''${version}'' ''${version}-rc''" by (simp add: suffix_to_prefix)
  have n2: "\<not> suffix ''${version}'' ''release-${version}-final''" by (simp add: suffix_to_prefix)
  from s1 have s1': "sublist ''${version}'' ''${version}-rc''" by simp
  from s2 have s2': "sublist ''${version}'' ''release-${version}-final''" by simp
  show ?thesis
    using s1' s2' n1 n2
      non_trailing_placeholder [OF s1' n1, where r = "\<lparr>Tool = ToolSemanticRelease, ConfigFile = ''.releaserc'',
             ConfigData = Some [(''tagFormat'', VStr ''${version}-rc'')], Details = None\<rparr>"]
      non_trailing_placeholder [OF s2' n2, where r = "\<lparr>Tool = ToolReleaseIt, ConfigFile = ''.release-it.json'',
             ConfigData = Some [(''git'', VMap (Some [(''tagName'', VStr ''release-${version}-final'')]))],
             Details = None\<rparr>"]
    by auto
qed

section \<open>Tool-specific defaults\<close>

lemma extractGoReleaserAssets_nonempty: "extractGoReleaserAssets data projectName \<noteq> []"
  by (simp add: extractGoReleaserAssets_def Let_def)

lemma goReleaser_changelog_fields [simp]:
  "Plugins (goReleaser_changelog data config) = Plugins config"
  "Versioning (goReleaser_changelog data config) = Versioning config"
  "Git (goReleaser_changelog data config) = Git config"
  "AI (goReleaser_changelog data config) = AI config"
  by (simp_all add: goReleaser_changelog_def split: option.splits)

lemma goReleaser_release_Plugins:
  "Plugins (goReleaser_release data config) =
     Plugins config @
     [\<lparr>Name = ''github'', Enabled = True, Config = releasePluginConfig data config\<rparr>]"
  by (simp add: releasePluginConfig_def goReleaser_release_def split: option.splits)

lemma releasePluginConfig_None:
  "asMap (mget data ''release'') = None \<Longrightarrow> releasePluginConfig data config = None"
  by (simp add: releasePluginConfig_def goReleaser_release_def)

lemma goReleaser_release_fields [simp]:
  "Versioning (goReleaser_release data config) = Versioning config"
  "Changelog (goReleaser_release data config) = Changelog config"
  "Git (goReleaser_release data config) = Git config"
  "AI (goReleaser_release data config) = AI config"
  by (simp_all add: goReleaser_release_def Let_def split: option.splits)

lemma goReleaser_assets_fields [simp]:
  "Versioning (goReleaser_assets assets config) = Versioning config"
  "Changelog (goReleaser_assets assets config) = Changelog config"
  "Git (goReleaser_assets assets config) = Git config"
  "AI (goReleaser_assets assets config) = AI config"
  by (simp_all add: goReleaser_assets_def)

lemma convertGoReleaser_plugins:
  "\<exists>cfg c. convertGoReleaser r = Inr cfg \<and>
     Plugins cfg = [\<lparr>Name = ''github'', Enabled = True, Config = Some c\<rparr>] \<and>
     map_of c ''assets'' =
       Some (VStrs (extractGoReleaserAssets (ConfigData r)
          (case asString (mget (ConfigData r) ''project_name'') of Some pn \<Rightarrow> pn | None \<Rightarrow> []))) \<and>
     (asMap (mget (ConfigData r) ''release'') = None \<longrightarrow>
        c = [(''assets'', VStrs (extractGoReleaserAssets (ConfigData r)
          (case asString (mget (ConfigData r) ''project_name'') of Some pn \<Rightarrow> pn | None \<Rightarrow> [])))])"
proof -
  let ?data = "ConfigData r"
  let ?pn = "case asString (mget ?data ''project_name'') of Some pn \<Rightarrow> pn | None \<Rightarrow> []"
  let ?assets = "extractGoReleaserAssets ?data ?pn"
  let ?c1 = "goReleaser_changelog ?data goReleaserDefaults"
  let ?c = "releasePluginConfig ?data ?c1"
  let ?m = "AList.update ''assets'' (VStrs ?assets) (case ?c of None \<Rightarrow> [] | Some m \<Rightarrow> m)"
  let ?cfg = "goReleaser_assets ?assets (goReleaser_release ?data ?c1)"
  have p0: "Plugins ?c1 = []" by (simp add: goReleaserDefaults_def)
  have ne: "0 < length ?assets" using extractGoReleaserAssets_nonempty [of ?data ?pn] by simp
  have 1: "convertGoReleaser r = Inr ?cfg"
    by (simp add: convertGoReleaser_def Let_def)
  have 2: "Plugins ?cfg = [\<lparr>Name = ''github'', Enabled = True, Config = Some ?m\<rparr>]"
    unfolding goReleaser_assets_def using ne
    by (simp add: goReleaser_release_Plugins goReleaserDefaults_def)
  have 3: "map_of ?m ''assets'' = Some (VStrs ?assets)"
    by (simp add: update_conv')
  have 4: "asMap (mget ?data ''release'') = None \<longrightarrow> ?m = [(''assets'', VStrs ?assets)]"
    by (simp add: releasePluginConfig_None)
  show ?thesis
    apply (rule exI [where x = ?cfg])
    apply (rule exI [where x = ?m])
    apply (intro conjI)
       apply (rule 1)
      apply (rule 2)
     apply (rule 3)
    apply (rule 4)
    done
qed

lemma convertGoReleaser_empty:
  assumes "ConfigData r = None \<or> ConfigData r = Some []"
  shows "convertGoReleaser r = Inr
      \<lparr>Versioning = \<lparr>Strategy = ''conventional'', TagPrefix = ''v''\<rparr>,
       Changelog = \<lparr>Enabled_Changelog = True, Template = [], File = ''CHANGELOG.md''\<rparr>,
       Git = \<lparr>RequireCleanTree = True, PushTags = True, CreateTag = True,
              CommitMessage = [], TagMessage = [], RequireUpToDate = False,
              AllowedBranches = [''main'']\<rparr>,
       Plugins = [\<lparr>Name = ''github'', Enabled = True,
                   Config = Some [(''assets'', VStrs
                     [''release/{{.ProjectName}}_linux_x86_64.tar.gz'',
                      ''release/{{.ProjectName}}_linux_aarch64.tar.gz'',
                      ''release/{{.ProjectName}}_darwin_x86_64.tar.gz'',
                      ''release/{{.ProjectName}}_darwin_aarch64.tar.gz'',
                      ''release/{{.ProjectName}}_windows_x86_64.zip'',
                      ''release/{{.ProjectName}}_windows_aarch64.zip'',
                      ''release/checksums.txt''])]\<rparr>],
       AI = None\<rparr>"
proof -
  have a: "extractGoReleaserAssets (ConfigData r) [] =
      [''release/{{.ProjectName}}_linux_x86_64.tar.gz'',
                      ''release/{{.ProjectName}}_linux_aarch64.tar.gz'',
                      ''release/{{.ProjectName}}_darwin_x86_64.tar.gz'',
                      ''release/{{.ProjectName}}_darwin_aarch64.tar.gz'',
                      ''release/{{.ProjectName}}_windows_x86_64.zip'',
                      ''release/{{.ProjectName}}_windows_aarch64.zip'',
                      ''release/checksums.txt'']"
    using assms by (auto simp: extractGoReleaserAssets_def firstBuild_def assetPath_def)
  have b: "goReleaser_changelog (ConfigData r) c = c"
    "goReleaser_release (ConfigData r) c =
       c\<lparr>Plugins := Plugins c @ [\<lparr>Name = ''github'', Enabled = True, Config = None\<rparr>]\<rparr>" for c
    using assms by (auto simp: goReleaser_changelog_def goReleaser_release_def)
  have pn: "asString (mget (ConfigData r) ''project_name'') = None"
    using assms by auto
  show ?thesis
    by (simp add: convertGoReleaser_def Let_def b pn a goReleaser_assets_def goReleaserDefaults_def)
qed

lemma convert_empty_others:
  assumes "ConfigData r = None \<or> ConfigData r = Some []"
  shows "convertSemanticRelease r = Inr
      \<lparr>Versioning = \<lparr>Strategy = ''conventional'', TagPrefix = []\<rparr>,
       Changelog = \<lparr>Enabled_Changelog = True, Template = [], File = ''CHANGELOG.md''\<rparr>,
       Git = \<lparr>RequireCleanTree = True, PushTags = True, CreateTag = True,
              CommitMessage = [], TagMessage = [], RequireUpToDate = False,
              AllowedBranches = []\<rparr>,
       Plugins = [], AI = None\<rparr>"
    and "convertReleaseIt r = Inr
      \<lparr>Versioning = \<lparr>Strategy = ''conventional'', TagPrefix = []\<rparr>,
       Changelog = \<lparr>Enabled_Changelog = True, Template = [], File = ''CHANGELOG.md''\<rparr>,
       Git = \<lparr>RequireCleanTree = True, PushTags = True, CreateTag = True,
              CommitMessage = [], TagMessage = [], RequireUpToDate = False,
              AllowedBranches = []\<rparr>,
       Plugins = [], AI = None\<rparr>"
    and "convertStandardVersion r = Inr
      \<lparr>Versioning = \<lparr>Strategy = ''conventional'', TagPrefix = []\<rparr>,
       Changelog = \<lparr>Enabled_Changelog = True, Template = [], File = ''CHANGELOG.md''\<rparr>,
       Git = \<lparr>RequireCleanTree = True, PushTags = True, CreateTag = True,
              CommitMessage = [], TagMessage = [], RequireUpToDate = False,
              AllowedBranches = []\<rparr>,
       Plugins = [], AI = None\<rparr>"
proof -
  have sr: "semanticRelease_tagFormat (ConfigData r) c = c"
    "semanticRelease_branches (ConfigData r) c = c"
    "semanticRelease_plugins (ConfigData r) c = c" for c
    using assms by (auto simp: semanticRelease_tagFormat_def semanticRelease_branches_def
        semanticRelease_plugins_def)
  have ri: "releaseIt_git (ConfigData r) c = c" "releaseIt_npm (ConfigData r) c = c"
    "releaseIt_github (ConfigData r) c = c" "releaseIt_gitlab (ConfigData r) c = c" for c
    using assms by (auto simp: releaseIt_git_def releaseIt_npm_def releaseIt_github_def
        releaseIt_gitlab_def)
  have sv: "standardVersion_tagPrefix (ConfigData r) c = c"
    "standardVersion_skip (ConfigData r) c = c"
    "standardVersion_releaseCommitMessageFormat (ConfigData r) c = c"
    "standardVersion_infile (ConfigData r) c = c" for c
    using assms by (auto simp: standardVersion_tagPrefix_def standardVersion_skip_def
        standardVersion_releaseCommitMessageFormat_def standardVersion_infile_def)
  show "convertSemanticRelease r = Inr
      \<lparr>Versioning = \<lparr>Strategy = ''conventional'', TagPrefix = []\<rparr>,
       Changelog = \<lparr>Enabled_Changelog = True, Template = [], File = ''CHANGELOG.md''\<rparr>,
       Git = \<lparr>RequireCleanTree = True, PushTags = True, CreateTag = True,
              CommitMessage = [], TagMessage = [], RequireUpToDate = False,
              AllowedBranches = []\<rparr>,
       Plugins = [], AI = None\<rparr>"
    by (simp add: convertSemanticRelease_def Let_def sr semanticReleaseDefaults_def)
  show "convertReleaseIt r = Inr
      \<lparr>Versioning = \<lparr>Strategy = ''conventional'', TagPrefix = []\<rparr>,
       Changelog = \<lparr>Enabled_Changelog = True, Template = [], File = ''CHANGELOG.md''\<rparr>,
       Git = \<lparr>RequireCleanTree = True, PushTags = True, CreateTag = True,
              CommitMessage = [], TagMessage = [], RequireUpToDate = False,
              AllowedBranches = []\<rparr>,
       Plugins = [], AI = None\<rparr>"
    by (simp add: convertReleaseIt_def Let_def ri releaseItDefaults_def)
  show "convertStandardVersion r = Inr
      \<lparr>Versioning = \<lparr>Strategy = ''conventional'', TagPrefix = []\<rparr>,
       Changelog = \<lparr>Enabled_Changelog = True, Template = [], File = ''CHANGELOG.md''\<rparr>,
       Git = \<lparr>RequireCleanTree = True, PushTags = True, CreateTag = True,
              CommitMessage = [], TagMessage = [], RequireUpToDate = False,
              AllowedBranches = []\<rparr>,
       Plugins = [], AI = None\<rparr>"
    by (simp add: convertStandardVersion_def Let_def sv standardVersionDefaults_def)
qed

text \<open>
  C6 (as amended). For every supported tool, converting an empty (or nil) config tree yields
  that tool's baseline: versioning strategy \<^verbatim>\<open>conventional\<close>, changelog enabled with file
  \<^verbatim>\<open>CHANGELOG.md\<close>, require-clean-tree, tag creation and tag pushing on; for the first three
  tools nothing else is set. The GoReleaser converter additionally seeds the tag prefix
  \<^verbatim>\<open>v\<close> and the single allowed branch \<^verbatim>\<open>main\<close>, and for every tree its output has exactly
  one plugin entry, an enabled GitHub plugin whose configuration holds the derived asset list
  under \<^verbatim>\<open>assets\<close>; when the source declares no release configuration the asset list is
  all that the configuration holds.
\<close>

theorem baseline_documents:
  "(ConfigData r = None \<or> ConfigData r = Some [] \<longrightarrow>
      (Tool r \<in> {ToolSemanticRelease, ToolReleaseIt, ToolStandardVersion} \<longrightarrow>
         Convert r = Inr
           \<lparr>Versioning = \<lparr>Strategy = ''conventional'', TagPrefix = []\<rparr>,
            Changelog = \<lparr>Enabled_Changelog = True, Template = [], File = ''CHANGELOG.md''\<rparr>,
            Git = \<lparr>RequireCleanTree = True, PushTags = True, CreateTag = True,
                   CommitMessage = [], TagMessage = [], RequireUpToDate = False,
                   AllowedBranches = []\<rparr>,
            Plugins = [], AI = None\<rparr>) \<and>
      (Tool r = ToolGoReleaser \<longrightarrow>
         Convert r = Inr
           \<lparr>Versioning = \<lparr>Strategy = ''conventional'', TagPrefix = ''v''\<rparr>,
            Changelog = \<lparr>Enabled_Changelog = True, Template = [], File = ''CHANGELOG.md''\<rparr>,
            Git = \<lparr>RequireCleanTree = True, PushTags = True, CreateTag = True,
                   CommitMessage = [], TagMessage = [], RequireUpToDate = False,
                   AllowedBranches = [''main'']\<rparr>,
            Plugins = [\<lparr>Name = ''github'', Enabled = True,
                        Config = Some [(''assets'', VStrs
                          [''release/{{.ProjectName}}_linux_x86_64.tar.gz'',
                           ''release/{{.ProjectName}}_linux_aarch64.tar.gz'',
                           ''release/{{.ProjectName}}_darwin_x86_64.tar.gz'',
                           ''release/{{.ProjectName}}_darwin_aarch64.tar.gz'',
                           ''release/{{.ProjectName}}_windows_x86_64.zip'',
                           ''release/{{.ProjectName}}_windows_aarch64.zip'',
                           ''release/checksums.txt''])]\<rparr>],
            AI = None\<rparr>)) \<and>
   (Tool r = ToolGoReleaser \<longrightarrow>
      (\<exists>cfg c. Convert r = Inr cfg \<and>
         Plugins cfg = [\<lparr>Name = ''github'', Enabled = True, Config = Some c\<rparr>] \<and>
         map_of c ''assets'' =
           Some (VStrs (extractGoReleaserAssets (ConfigData r)
              (case asString (mget (ConfigData r) ''project_name'') of
                 Some pn \<Rightarrow> pn | None \<Rightarrow> []))) \<and>
         (asMap (mget (ConfigData r) ''release'') = None \<longrightarrow>
            c = [(''assets'', VStrs (extractGoReleaserAssets (ConfigData r)
              (case asString (mget (ConfigData r) ''project_name'') of
                 Some pn \<Rightarrow> pn | None \<Rightarrow> [])))])))"
proof (intro conjI impI)
  assume e: "ConfigData r = None \<or> ConfigData r = Some []"
    and t: "Tool r \<in> {ToolSemanticRelease, ToolReleaseIt, ToolStandardVersion}"
  from t convert_empty_others [OF e] show "Convert r = Inr
           \<lparr>Versioning = \<lparr>Strategy = ''conventional'', TagPrefix = []\<rparr>,
            Changelog = \<lparr>Enabled_Changelog = True, Template = [], File = ''CHANGELOG.md''\<rparr>,
            Git = \<lparr>RequireCleanTree = True, PushTags = True, CreateTag = True,
                   CommitMessage = [], TagMessage = [], RequireUpToDate = False,
                   AllowedBranches = []\<rparr>,
            Plugins = [], AI = None\<rparr>"
    by (auto simp: Convert_def Tool_defs)
next
  assume e: "ConfigData r = None \<or> ConfigData r = Some []" and t: "Tool r = ToolGoReleaser"
  from t convertGoReleaser_empty [OF e] show "Convert r = Inr
           \<lparr>Versioning = \<lparr>Strategy = ''conventional'', TagPrefix = ''v''\<rparr>,
            Changelog = \<lparr>Enabled_Changelog = True, Template = [], File = ''CHANGELOG.md''\<rparr>,
            Git = \<lparr>RequireCleanTree = True, PushTags = True, CreateTag = True,
                   CommitMessage = [], TagMessage = [], RequireUpToDate = False,
                   AllowedBranches = [''main'']\<rparr>,
            Plugins = [\<lparr>Name = ''github'', Enabled = True,
                        Config = Some [(''assets'', VStrs
                          [''release/{{.ProjectName}}_linux_x86_64.tar.gz'',
                           ''release/{{.ProjectName}}_linux_aarch64.tar.gz'',
                           ''release/{{.ProjectName}}_darwin_x86_64.tar.gz'',
                           ''release/{{.ProjectName}}_darwin_aarch64.tar.gz'',
                           ''release/{{.ProjectName}}_windows_x86_64.zip'',
                           ''release/{{.ProjectName}}_windows_aarch64.zip'',
                           ''release/checksums.txt''])]\<rparr>],
            AI = None\<rparr>"
    by (simp add: Convert_def Tool_defs)
next
  assume t: "Tool r = ToolGoReleaser"
  then have "Convert r = convertGoReleaser r" by (simp add: Convert_def Tool_defs)
  with convertGoReleaser_plugins [of r] show "\<exists>cfg c. Convert r = Inr cfg \<and>
         Plugins cfg = [\<lparr>Name = ''github'', Enabled = True, Config = Some c\<rparr>] \<and>
         map_of c ''assets'' =
           Some (VStrs (extractGoReleaserAssets (ConfigData r)
              (case asString (mget (ConfigData r) ''project_name'') of
                 Some pn \<Rightarrow> pn | None \<Rightarrow> []))) \<and>
         (asMap (mget (ConfigData r) ''release'') = None \<longrightarrow>
            c = [(''assets'', VStrs (extractGoReleaserAssets (ConfigData r)
              (case asString (mget (ConfigData r) ''project_name'') of
                 Some pn \<Rightarrow> pn | None \<Rightarrow> [])))])"
    by simp
qed

theorem baseline_documents_witness:
  "Convert \<lparr>Tool = ToolStandardVersion, ConfigFile = ''.versionrc'', ConfigData = Some [],
            Details = None\<rparr> =
     Inr \<lparr>Versioning = \<lparr>Strategy = ''conventional'', TagPrefix = []\<rparr>,
          Changelog = \<lparr>Enabled_Changelog = True, Template = [], File = ''CHANGELOG.md''\<rparr>,
          Git = \<lparr>RequireCleanTree = True, PushTags = True, CreateTag = True,
                 CommitMessage = [], TagMessage = [], RequireUpToDate = False,
                 AllowedBranches = []\<rparr>,
          Plugins = [], AI = None\<rparr> \<and>
   (\<exists>cfg c. Convert \<lparr>Tool = ToolGoReleaser, ConfigFile = ''.goreleaser.yml'',
                      ConfigData = Some [(''release'', VMap (Some [(''draft'', VBool True)]))],
                      Details = None\<rparr> = Inr cfg \<and>
      Plugins cfg = [\<lparr>Name = ''github'', Enabled = True, Config = Some c\<rparr>])"
proof -
  let ?sv = "\<lparr>Tool = ToolStandardVersion, ConfigFile = ''.versionrc'', ConfigData = Some [],
            Details = None\<rparr>"
  let ?gr = "\<lparr>Tool = ToolGoReleaser, ConfigFile = ''.goreleaser.yml'',
                      ConfigData = Some [(''release'', VMap (Some [(''draft'', VBool True)]))],
                      Details = None\<rparr>"
  have e: "ConfigData ?sv = None \<or> ConfigData ?sv = Some []" by simp
  have t: "Tool ?sv \<in> {ToolSemanticRelease, ToolReleaseIt, ToolStandardVersion}" by simp
  have g: "Tool ?gr = ToolGoReleaser" by simp
  note 1 = baseline_documents [where r = ?sv, THEN conjunct1, rule_format, OF e, THEN conjunct1,
      rule_format, OF t]
  from baseline_documents [where r = ?gr, THEN conjunct2, rule_format, OF g]
  have 2: "\<exists>cfg c. Convert ?gr = Inr cfg \<and>
      Plugins cfg = [\<lparr>Name = ''github'', Enabled = True, Config = Some c\<rparr>]"
    by (elim exE conjE) (intro exI conjI)
  show ?thesis by (intro conjI) (fact 1 2)+
qed

text \<open>
  C6 (as stated) fails. Converting the empty GoReleaser tree, which declares no release
  configuration, does not give a bare GitHub plugin: the asset derivation runs for every tree
  and stores its seven default paths in the plugin's configuration.
\<close>

theorem goReleaser_default_plugin_not_bare:
  "Convert \<lparr>Tool = ToolGoReleaser, ConfigFile = ''.goreleaser.yml'', ConfigData = Some [],
            Details = None\<rparr> \<noteq>
   Inr \<lparr>Versioning = \<lparr>Strategy = ''conventional'', TagPrefix = ''v''\<rparr>,
        Changelog = \<lparr>Enabled_Changelog = True, Template = [], File = ''CHANGELOG.md''\<rparr>,
        Git = \<lparr>RequireCleanTree = True, PushTags = True, CreateTag = True,
               CommitMessage = [], TagMessage = [], RequireUpToDate = False,
               AllowedBranches = [''main'']\<rparr>,
        Plugins = [\<lparr>Name = ''github'', Enabled = True, Config = None\<rparr>],
        AI = None\<rparr> \<and>
   (case Convert \<lparr>Tool = ToolGoReleaser, ConfigFile = ''.goreleaser.yml'', ConfigData = Some [],
                  Details = None\<rparr> of
      Inr cfg \<Rightarrow> map Config (Plugins cfg)
    | Inl err \<Rightarrow> []) =
   [Some [(''assets'', VStrs
            [''release/{{.ProjectName}}_linux_x86_64.tar.gz'',
             ''release/{{.ProjectName}}_linux_aarch64.tar.gz'',
             ''release/{{.ProjectName}}_darwin_x86_64.tar.gz'',
             ''release/{{.ProjectName}}_darwin_aarch64.tar.gz'',
             ''release/{{.ProjectName}}_windows_x86_64.zip'',
             ''release/{{.ProjectName}}_windows_aarch64.zip'',
             ''release/checksums.txt''])]]"
  by (simp add: Convert_def Tool_defs convertGoReleaser_def Let_def goReleaserDefaults_def
      goReleaser_changelog_def goReleaser_release_def goReleaser_assets_def
      extractGoReleaserAssets_def firstBuild_def assetPath_def)

section \<open>The conversion entry point\<close>

text \<open>
  C7. For a detection result whose tool identity is \<^verbatim>\<open>none\<close>, or any identity other than the
  four with a mapping function, and for every config tree, \<open>Convert\<close> fails with the
  unsupported-tool error and returns no document.
\<close>

theorem Convert_unsupported:
  "(Tool r = ToolNone \<longrightarrow> Convert r = Inl ''unsupported tool: none'') \<and>
   (Tool r \<notin> {ToolSemanticRelease, ToolReleaseIt, ToolStandardVersion, ToolGoReleaser} \<longrightarrow>
      Convert r = Inl (''unsupported tool: '' @ Tool r) \<and> (\<forall>cfg. Convert r \<noteq> Inr cfg))"
  by (auto simp: Convert_def Tool_defs)

theorem Convert_unsupported_witness:
  "Convert \<lparr>Tool = ToolNone, ConfigFile = [], ConfigData = None, Details = None\<rparr>
     = Inl ''unsupported tool: none'' \<and>
   ''cargo-release'' \<notin> {ToolSemanticRelease, ToolReleaseIt, ToolStandardVersion, ToolGoReleaser} \<and>
   Convert \<lparr>Tool = ''cargo-release'', ConfigFile = ''release.toml'',
            ConfigData = Some [(''tagFormat'', VStr ''v${version}'')], Details = None\<rparr>
     = Inl ''unsupported tool: cargo-release''"
  using
    Convert_unsupported [where r = "\<lparr>Tool = ToolNone, ConfigFile = [], ConfigData = None, Details = None\<rparr>"]
    Convert_unsupported [where r = "\<lparr>Tool = ''cargo-release'', ConfigFile = ''release.toml'',
            ConfigData = Some [(''tagFormat'', VStr ''v${version}'')], Details = None\<rparr>"]
  by (simp add: Tool_defs)

lemma mget_update: "mget (Some (AList.update k v m)) k' = (if k' = k then Some v else map_of m k')"
  by (simp add: update_conv')

lemma mget_delete: "mget (Some (AList.delete k m)) k' = (if k' = k then None else map_of m k')"
  by (simp add: delete_conv')

lemma asString_agree:
  "(k' = k \<longrightarrow> asString (Some v) = None) \<Longrightarrow>
   asString (mget (Some (AList.update k v m)) k') = asString (mget (Some (AList.delete k m)) k')"
  by (simp add: mget_update mget_delete del: mget.simps)

lemma asList_agree:
  "(k' = k \<longrightarrow> asList (Some v) = None) \<Longrightarrow>
   asList (mget (Some (AList.update k v m)) k') = asList (mget (Some (AList.delete k m)) k')"
  by (simp add: mget_update mget_delete del: mget.simps)

lemma asMap_agree:
  "(k' = k \<longrightarrow> asMap (Some v) = None) \<Longrightarrow>
   asMap (mget (Some (AList.update k v m)) k') = asMap (mget (Some (AList.delete k m)) k')"
  by (simp add: mget_update mget_delete del: mget.simps)

lemma convertSemanticRelease_mistyped:
  assumes "\<not> accepts ToolSemanticRelease k v"
  shows "convertSemanticRelease (r\<lparr>ConfigData := Some (AList.update k v m)\<rparr>) =
         convertSemanticRelease (r\<lparr>ConfigData := Some (AList.delete k m)\<rparr>)"
proof -
  from assms have a: "''tagFormat'' = k \<longrightarrow> asString (Some v) = None"
    and b: "''branches'' = k \<longrightarrow> asList (Some v) = None"
    and c: "''plugins'' = k \<longrightarrow> asList (Some v) = None"
    by (auto simp: accepts_def)
  have "semanticRelease_tagFormat (Some (AList.update k v m)) = semanticRelease_tagFormat (Some (AList.delete k m))"
    "semanticRelease_branches (Some (AList.update k v m)) = semanticRelease_branches (Some (AList.delete k m))"
    "semanticRelease_plugins (Some (AList.update k v m)) = semanticRelease_plugins (Some (AList.delete k m))"
    by (simp_all add: fun_eq_iff semanticRelease_tagFormat_def
        semanticRelease_branches_def semanticRelease_plugins_def
        asString_agree [OF a] asList_agree [OF b] asList_agree [OF c] del: mget.simps)
  then show ?thesis
    by (simp add: convertSemanticRelease_def Let_def)
qed

lemma convertReleaseIt_mistyped:
  assumes "\<not> accepts ToolReleaseIt k v"
  shows "convertReleaseIt (r\<lparr>ConfigData := Some (AList.update k v m)\<rparr>) =
         convertReleaseIt (r\<lparr>ConfigData := Some (AList.delete k m)\<rparr>)"
proof -
  from assms have a: "''git'' = k \<longrightarrow> asMap (Some v) = None"
    and b: "''npm'' = k \<longrightarrow> asMap (Some v) = None"
    and c: "''github'' = k \<longrightarrow> asMap (Some v) = None"
    and d: "''gitlab'' = k \<longrightarrow> asMap (Some v) = None"
    by (auto simp: accepts_def Tool_defs)
  have "releaseIt_git (Some (AList.update k v m)) = releaseIt_git (Some (AList.delete k m))"
    "releaseIt_npm (Some (AList.update k v m)) = releaseIt_npm (Some (AList.delete k m))"
    "releaseIt_github (Some (AList.update k v m)) = releaseIt_github (Some (AList.delete k m))"
    "releaseIt_gitlab (Some (AList.update k v m)) = releaseIt_gitlab (Some (AList.delete k m))"
    by (simp_all add: fun_eq_iff releaseIt_git_def releaseIt_npm_def releaseIt_github_def
        releaseIt_gitlab_def
        asMap_agree [OF a] asMap_agree [OF b] asMap_agree [OF c] asMap_agree [OF d]
        del: mget.simps)
  then show ?thesis
    by (simp add: convertReleaseIt_def Let_def)
qed

lemma convertStandardVersion_mistyped:
  assumes "\<not> accepts ToolStandardVersion k v"
  shows "convertStandardVersion (r\<lparr>ConfigData := Some (AList.update k v m)\<rparr>) =
         convertStandardVersion (r\<lparr>ConfigData := Some (AList.delete k m)\<rparr>)"
proof -
  from assms have a: "''tagPrefix'' = k \<longrightarrow> asString (Some v) = None"
    and b: "''skip'' = k \<longrightarrow> asMap (Some v) = None"
    and c: "''releaseCommitMessageFormat'' = k \<longrightarrow> asString (Some v) = None"
    and d: "''infile'' = k \<longrightarrow> asString (Some v) = None"
    by (auto simp: accepts_def Tool_defs)
  have "standardVersion_tagPrefix (Some (AList.update k v m)) = standardVersion_tagPrefix (Some (AList.delete k m))"
    "standardVersion_skip (Some (AList.update k v m)) = standardVersion_skip (Some (AList.delete k m))"
    "standardVersion_releaseCommitMessageFormat (Some (AList.update k v m)) =
       standardVersion_releaseCommitMessageFormat (Some (AList.delete k m))"
    "standardVersion_infile (Some (AList.update k v m)) = standardVersion_infile (Some (AList.delete k m))"
    by (simp_all add: fun_eq_iff standardVersion_tagPrefix_def standardVersion_skip_def
        standardVersion_releaseCommitMessageFormat_def standardVersion_infile_def
        asString_agree [OF a] asMap_agree [OF b] asString_agree [OF c] asString_agree [OF d]
        del: mget.simps)
  then show ?thesis
    by (simp add: convertStandardVersion_def Let_def)
qed

lemma convertGoReleaser_mistyped:
  assumes "\<not> accepts ToolGoReleaser k v"
  shows "convertGoReleaser (r\<lparr>ConfigData := Some (AList.update k v m)\<rparr>) =
         convertGoReleaser (r\<lparr>ConfigData := Some (AList.delete k m)\<rparr>)"
proof -
  from assms have a: "''project_name'' = k \<longrightarrow> asString (Some v) = None"
    and b: "''changelog'' = k \<longrightarrow> asMap (Some v) = None"
    and c: "''release'' = k \<longrightarrow> asMap (Some v) = None"
    and d: "''builds'' = k \<longrightarrow> asList (Some v) = None"
    by (auto simp: accepts_def Tool_defs)
  have fb: "firstBuild (Some (AList.update k v m)) = firstBuild (Some (AList.delete k m))"
    by (simp add: firstBuild_def asList_agree [OF d] del: mget.simps)
  have as: "extractGoReleaserAssets (Some (AList.update k v m)) =
            extractGoReleaserAssets (Some (AList.delete k m))"
    by (simp add: fun_eq_iff extractGoReleaserAssets_def fb del: mget.simps)
  have "goReleaser_changelog (Some (AList.update k v m)) = goReleaser_changelog (Some (AList.delete k m))"
    "goReleaser_release (Some (AList.update k v m)) = goReleaser_release (Some (AList.delete k m))"
    by (simp_all add: fun_eq_iff goReleaser_changelog_def goReleaser_release_def
        asMap_agree [OF b] asMap_agree [OF c] del: mget.simps)
  then show ?thesis
    by (simp add: convertGoReleaser_def Let_def as asString_agree [OF a] del: mget.simps)
qed

lemma Convert_nil_tree:
  "Convert (r\<lparr>ConfigData := None\<rparr>) = Convert (r\<lparr>ConfigData := Some []\<rparr>)"
  by (simp add: Let_def Convert_def convertSemanticRelease_def semanticRelease_tagFormat_def
        semanticRelease_branches_def semanticRelease_plugins_def
        convertReleaseIt_def releaseIt_git_def releaseIt_npm_def releaseIt_github_def
        releaseIt_gitlab_def
        convertStandardVersion_def standardVersion_tagPrefix_def standardVersion_skip_def
        standardVersion_releaseCommitMessageFormat_def standardVersion_infile_def
        convertGoReleaser_def goReleaser_changelog_def goReleaser_release_def
        extractGoReleaserAssets_def firstBuild_def)


lemma asBool_agree:
  "(k' = k \<longrightarrow> asBool (Some v) = None) \<Longrightarrow>
   asBool (mget (Some (AList.update k v m)) k') = asBool (mget (Some (AList.delete k m)) k')"
  by (simp add: mget_update mget_delete del: mget.simps)

text \<open>Top-level lookups when the value under \<open>K\<close> is a mapping, or a list.\<close>

lemma asString_at_VMap:
  "asString (mget (Some (AList.update K (VMap s1) d)) P) =
   asString (mget (Some (AList.update K (VMap s2) d)) P)"
  by (simp add: update_conv')

lemma asList_at_VMap:
  "asList (mget (Some (AList.update K (VMap s1) d)) P) =
   asList (mget (Some (AList.update K (VMap s2) d)) P)"
  by (simp add: update_conv')

lemma asMap_at_VMap:
  "asMap (mget (Some (AList.update K (VMap s) d)) P) =
   (if P = K then Some s else asMap (map_of d P))"
  by (simp add: update_conv')

lemma asString_at_VList:
  "asString (mget (Some (AList.update K (VList x) d)) P) =
   asString (mget (Some (AList.update K (VList y) d)) P)"
  by (simp add: update_conv')

lemma asMap_at_VList:
  "asMap (mget (Some (AList.update K (VList x) d)) P) =
   asMap (mget (Some (AList.update K (VList y) d)) P)"
  by (simp add: update_conv')

lemma asList_at_VList:
  "asList (mget (Some (AList.update K (VList x) d)) P) =
   (if P = K then Some x else asList (map_of d P))"
  by (simp add: update_conv')

text \<open>Each block depends on the mapping it reads only through the assertions it makes.\<close>

lemma releaseIt_git_cong:
  assumes "K = ''git'' \<Longrightarrow>
      asString (mget s1 ''tagName'') = asString (mget s2 ''tagName'') \<and>
      asString (mget s1 ''commitMessage'') = asString (mget s2 ''commitMessage'') \<and>
      asString (mget s1 ''tagAnnotation'') = asString (mget s2 ''tagAnnotation'') \<and>
      asBool (mget s1 ''requireCleanWorkingDir'') = asBool (mget s2 ''requireCleanWorkingDir'') \<and>
      asBool (mget s1 ''push'') = asBool (mget s2 ''push'')"
  shows "releaseIt_git (Some (AList.update K (VMap s1) d)) =
         releaseIt_git (Some (AList.update K (VMap s2) d))"
proof (cases "K = ''git''")
  case True
  from assms [OF True] have
    "releaseIt_tagName s1 = releaseIt_tagName s2"
    "releaseIt_commitMessage s1 = releaseIt_commitMessage s2"
    "releaseIt_tagAnnotation s1 = releaseIt_tagAnnotation s2"
    "releaseIt_requireCleanWorkingDir s1 = releaseIt_requireCleanWorkingDir s2"
    "releaseIt_push s1 = releaseIt_push s2"
    by (simp_all add: fun_eq_iff releaseIt_tagName_def releaseIt_commitMessage_def
        releaseIt_tagAnnotation_def releaseIt_requireCleanWorkingDir_def releaseIt_push_def)
  then show ?thesis
    by (simp add: fun_eq_iff releaseIt_git_def asMap_at_VMap True Let_def del: mget.simps)
next
  case False
  then show ?thesis
    by (simp add: fun_eq_iff releaseIt_git_def asMap_at_VMap del: mget.simps)
qed

lemma releaseIt_npm_cong:
  assumes "K = ''npm'' \<Longrightarrow> asBool (mget s1 ''publish'') = asBool (mget s2 ''publish'')"
  shows "releaseIt_npm (Some (AList.update K (VMap s1) d)) =
         releaseIt_npm (Some (AList.update K (VMap s2) d))"
proof (cases "K = ''npm''")
  case True
  from assms [OF True] show ?thesis
    by (simp add: fun_eq_iff releaseIt_npm_def asMap_at_VMap True del: mget.simps)
next
  case False
  then show ?thesis
    by (simp add: fun_eq_iff releaseIt_npm_def asMap_at_VMap del: mget.simps)
qed

lemma releaseIt_github_cong:
  assumes "K = ''github'' \<Longrightarrow>
      asBool (mget s1 ''release'') = asBool (mget s2 ''release'') \<and>
      asBool (mget s1 ''draft'') = asBool (mget s2 ''draft'') \<and>
      asBool (mget s1 ''preRelease'') = asBool (mget s2 ''preRelease'')"
  shows "releaseIt_github (Some (AList.update K (VMap s1) d)) =
         releaseIt_github (Some (AList.update K (VMap s2) d))"
proof (cases "K = ''github''")
  case True
  from assms [OF True] have "releaseIt_githubConfig s1 = releaseIt_githubConfig s2"
    by (simp add: releaseIt_githubConfig_def)
  with assms [OF True] show ?thesis
    by (simp add: fun_eq_iff releaseIt_github_def asMap_at_VMap True del: mget.simps)
next
  case False
  then show ?thesis
    by (simp add: fun_eq_iff releaseIt_github_def asMap_at_VMap del: mget.simps)
qed

lemma releaseIt_gitlab_cong:
  assumes "K = ''gitlab'' \<Longrightarrow> asBool (mget s1 ''release'') = asBool (mget s2 ''release'')"
  shows "releaseIt_gitlab (Some (AList.update K (VMap s1) d)) =
         releaseIt_gitlab (Some (AList.update K (VMap s2) d))"
proof (cases "K = ''gitlab''")
  case True
  from assms [OF True] show ?thesis
    by (simp add: fun_eq_iff releaseIt_gitlab_def asMap_at_VMap True del: mget.simps)
next
  case False
  then show ?thesis
    by (simp add: fun_eq_iff releaseIt_gitlab_def asMap_at_VMap del: mget.simps)
qed

lemma standardVersion_skip_cong:
  assumes "K = ''skip'' \<Longrightarrow>
      asBool (mget s1 ''changelog'') = asBool (mget s2 ''changelog'') \<and>
      asBool (mget s1 ''tag'') = asBool (mget s2 ''tag'')"
  shows "standardVersion_skip (Some (AList.update K (VMap s1) d)) =
         standardVersion_skip (Some (AList.update K (VMap s2) d))"
proof (cases "K = ''skip''")
  case True
  from assms [OF True] have
    "standardVersion_skipChangelog s1 = standardVersion_skipChangelog s2"
    "standardVersion_skipTag s1 = standardVersion_skipTag s2"
    by (simp_all add: fun_eq_iff standardVersion_skipChangelog_def standardVersion_skipTag_def)
  then show ?thesis
    by (simp add: fun_eq_iff standardVersion_skip_def asMap_at_VMap True Let_def del: mget.simps)
next
  case False
  then show ?thesis
    by (simp add: fun_eq_iff standardVersion_skip_def asMap_at_VMap del: mget.simps)
qed

lemma goReleaser_changelog_cong:
  assumes "K = ''changelog'' \<Longrightarrow> asBool (mget s1 ''skip'') = asBool (mget s2 ''skip'')"
  shows "goReleaser_changelog (Some (AList.update K (VMap s1) d)) =
         goReleaser_changelog (Some (AList.update K (VMap s2) d))"
proof (cases "K = ''changelog''")
  case True
  from assms [OF True] show ?thesis
    by (simp add: fun_eq_iff goReleaser_changelog_def asMap_at_VMap True del: mget.simps)
next
  case False
  then show ?thesis
    by (simp add: fun_eq_iff goReleaser_changelog_def asMap_at_VMap del: mget.simps)
qed

lemma goReleaser_release_cong:
  assumes "K = ''release'' \<Longrightarrow>
      goReleaser_ownerRepo s1 = goReleaser_ownerRepo s2 \<and>
      asBool (mget s1 ''draft'') = asBool (mget s2 ''draft'') \<and>
      asString (mget s1 ''prerelease'') = asString (mget s2 ''prerelease'') \<and>
      asBool (mget s1 ''prerelease'') = asBool (mget s2 ''prerelease'') \<and>
      asString (mget s1 ''name_template'') = asString (mget s2 ''name_template'')"
  shows "goReleaser_release (Some (AList.update K (VMap s1) d)) =
         goReleaser_release (Some (AList.update K (VMap s2) d))"
proof (cases "K = ''release''")
  case True
  from assms [OF True] have
    "goReleaser_ownerRepo s1 = goReleaser_ownerRepo s2"
    "goReleaser_draft s1 = goReleaser_draft s2"
    "goReleaser_prerelease s1 = goReleaser_prerelease s2"
    "goReleaser_nameTemplate s1 = goReleaser_nameTemplate s2"
    by (simp_all add: fun_eq_iff goReleaser_draft_def goReleaser_prerelease_def
        goReleaser_nameTemplate_def split: option.splits)
  then show ?thesis
    by (simp add: fun_eq_iff goReleaser_release_def asMap_at_VMap True Let_def del: mget.simps)
next
  case False
  then show ?thesis
    by (simp add: fun_eq_iff goReleaser_release_def asMap_at_VMap del: mget.simps)
qed

lemma goReleaser_ownerRepo_agree:
  assumes "asMap (mget s1 ''github'') = asMap (mget s2 ''github'')"
  shows "goReleaser_ownerRepo s1 = goReleaser_ownerRepo s2"
  using assms by (simp add: fun_eq_iff goReleaser_ownerRepo_def)

lemma goReleaser_ownerRepo_cong:
  assumes "asString (mget g1 ''owner'') = asString (mget g2 ''owner'')"
    and "asString (mget g1 ''name'') = asString (mget g2 ''name'')"
  shows "goReleaser_ownerRepo (Some (AList.update ''github'' (VMap g1) rel)) =
         goReleaser_ownerRepo (Some (AList.update ''github'' (VMap g2) rel))"
  using assms by (simp add: fun_eq_iff goReleaser_ownerRepo_def asMap_at_VMap del: mget.simps)

lemma extractGoReleaserAssets_firstBuild:
  "firstBuild d1 = firstBuild d2 \<Longrightarrow> extractGoReleaserAssets d1 = extractGoReleaserAssets d2"
  by (simp add: fun_eq_iff extractGoReleaserAssets_def)

lemma extractGoReleaserAssets_cong:
  assumes "firstBuild d1 = Some b1" and "firstBuild d2 = Some b2"
    and "asString (mget b1 ''binary'') = asString (mget b2 ''binary'')"
    and "asList (mget b1 ''goos'') = asList (mget b2 ''goos'')"
    and "asList (mget b1 ''goarch'') = asList (mget b2 ''goarch'')"
  shows "extractGoReleaserAssets d1 = extractGoReleaserAssets d2"
  using assms by (simp add: fun_eq_iff extractGoReleaserAssets_def)

lemma firstBuild_at_VMap:
  "firstBuild (Some (AList.update K (VMap s1) d)) = firstBuild (Some (AList.update K (VMap s2) d))"
  by (simp add: firstBuild_def asList_at_VMap [of K s1 d _ s2] del: mget.simps)

lemma firstBuild_builds:
  "firstBuild (Some (AList.update ''builds'' (VList (VMap b # rest)) d)) = Some b"
  by (simp add: firstBuild_def asList_at_VList del: mget.simps)

text \<open>The converters on two trees that differ in the mapping under one top-level key.\<close>

lemma convertSemanticRelease_nested:
  "convertSemanticRelease (r\<lparr>ConfigData := Some (AList.update K (VMap s1) d)\<rparr>) =
   convertSemanticRelease (r\<lparr>ConfigData := Some (AList.update K (VMap s2) d)\<rparr>)"
proof -
  have "semanticRelease_tagFormat (Some (AList.update K (VMap s1) d)) =
        semanticRelease_tagFormat (Some (AList.update K (VMap s2) d))"
    "semanticRelease_branches (Some (AList.update K (VMap s1) d)) =
     semanticRelease_branches (Some (AList.update K (VMap s2) d))"
    "semanticRelease_plugins (Some (AList.update K (VMap s1) d)) =
     semanticRelease_plugins (Some (AList.update K (VMap s2) d))"
    by (simp_all add: fun_eq_iff semanticRelease_tagFormat_def semanticRelease_branches_def
        semanticRelease_plugins_def asString_at_VMap [of K s1 d _ s2]
        asList_at_VMap [of K s1 d _ s2] del: mget.simps)
  then show ?thesis by (simp add: convertSemanticRelease_def Let_def)
qed

lemma acceptsIn_ReleaseIt_git:
  assumes "\<not> acceptsIn ToolReleaseIt ''git'' k v"
  shows "(''tagName'' = k \<longrightarrow> asString (Some v) = None) \<and>
     (''commitMessage'' = k \<longrightarrow> asString (Some v) = None) \<and>
     (''tagAnnotation'' = k \<longrightarrow> asString (Some v) = None) \<and>
     (''requireCleanWorkingDir'' = k \<longrightarrow> asBool (Some v) = None) \<and>
     (''push'' = k \<longrightarrow> asBool (Some v) = None)"
  using assms by (auto simp: acceptsIn_def Tool_defs)

lemma acceptsIn_ReleaseIt_npm:
  assumes "\<not> acceptsIn ToolReleaseIt ''npm'' k v"
  shows "''publish'' = k \<longrightarrow> asBool (Some v) = None"
  using assms by (auto simp: acceptsIn_def Tool_defs)

lemma acceptsIn_ReleaseIt_github:
  assumes "\<not> acceptsIn ToolReleaseIt ''github'' k v"
  shows "(''release'' = k \<longrightarrow> asBool (Some v) = None) \<and>
     (''draft'' = k \<longrightarrow> asBool (Some v) = None) \<and>
     (''preRelease'' = k \<longrightarrow> asBool (Some v) = None)"
  using assms by (auto simp: acceptsIn_def Tool_defs)

lemma acceptsIn_ReleaseIt_gitlab:
  assumes "\<not> acceptsIn ToolReleaseIt ''gitlab'' k v"
  shows "''release'' = k \<longrightarrow> asBool (Some v) = None"
  using assms by (auto simp: acceptsIn_def Tool_defs)

lemma convertReleaseIt_nested:
  assumes "\<not> acceptsIn ToolReleaseIt K k v"
  shows "convertReleaseIt (r\<lparr>ConfigData := Some (AList.update K
            (VMap (Some (AList.update k v m))) d)\<rparr>) =
         convertReleaseIt (r\<lparr>ConfigData := Some (AList.update K
            (VMap (Some (AList.delete k m))) d)\<rparr>)"
proof -
  let ?s1 = "Some (AList.update k v m)" and ?s2 = "Some (AList.delete k m)"
  have git: "releaseIt_git (Some (AList.update K (VMap ?s1) d)) =
             releaseIt_git (Some (AList.update K (VMap ?s2) d))"
  proof (rule releaseIt_git_cong)
    assume K: "K = ''git''"
    note h = acceptsIn_ReleaseIt_git [OF assms [unfolded K]]
    show "asString (mget ?s1 ''tagName'') = asString (mget ?s2 ''tagName'') \<and>
      asString (mget ?s1 ''commitMessage'') = asString (mget ?s2 ''commitMessage'') \<and>
      asString (mget ?s1 ''tagAnnotation'') = asString (mget ?s2 ''tagAnnotation'') \<and>
      asBool (mget ?s1 ''requireCleanWorkingDir'') = asBool (mget ?s2 ''requireCleanWorkingDir'') \<and>
      asBool (mget ?s1 ''push'') = asBool (mget ?s2 ''push'')"
      by (intro conjI asString_agree [OF h [THEN conjunct1]]
          asString_agree [OF h [THEN conjunct2, THEN conjunct1]]
          asString_agree [OF h [THEN conjunct2, THEN conjunct2, THEN conjunct1]]
          asBool_agree [OF h [THEN conjunct2, THEN conjunct2, THEN conjunct2, THEN conjunct1]]
          asBool_agree [OF h [THEN conjunct2, THEN conjunct2, THEN conjunct2, THEN conjunct2]])
  qed
  have npm: "releaseIt_npm (Some (AList.update K (VMap ?s1) d)) =
             releaseIt_npm (Some (AList.update K (VMap ?s2) d))"
  proof (rule releaseIt_npm_cong)
    assume K: "K = ''npm''"
    show "asBool (mget ?s1 ''publish'') = asBool (mget ?s2 ''publish'')"
      by (rule asBool_agree [OF acceptsIn_ReleaseIt_npm [OF assms [unfolded K]]])
  qed
  have github: "releaseIt_github (Some (AList.update K (VMap ?s1) d)) =
             releaseIt_github (Some (AList.update K (VMap ?s2) d))"
  proof (rule releaseIt_github_cong)
    assume K: "K = ''github''"
    note h = acceptsIn_ReleaseIt_github [OF assms [unfolded K]]
    show "asBool (mget ?s1 ''release'') = asBool (mget ?s2 ''release'') \<and>
      asBool (mget ?s1 ''draft'') = asBool (mget ?s2 ''draft'') \<and>
      asBool (mget ?s1 ''preRelease'') = asBool (mget ?s2 ''preRelease'')"
      by (intro conjI asBool_agree [OF h [THEN conjunct1]]
          asBool_agree [OF h [THEN conjunct2, THEN conjunct1]]
          asBool_agree [OF h [THEN conjunct2, THEN conjunct2]])
  qed
  have gitlab: "releaseIt_gitlab (Some (AList.update K (VMap ?s1) d)) =
             releaseIt_gitlab (Some (AList.update K (VMap ?s2) d))"
  proof (rule releaseIt_gitlab_cong)
    assume K: "K = ''gitlab''"
    show "asBool (mget ?s1 ''release'') = asBool (mget ?s2 ''release'')"
      by (rule asBool_agree [OF acceptsIn_ReleaseIt_gitlab [OF assms [unfolded K]]])
  qed
  show ?thesis
    by (simp add: convertReleaseIt_def Let_def git npm github gitlab)
qed

lemma convertStandardVersion_nested:
  assumes "\<not> acceptsIn ToolStandardVersion K k v"
  shows "convertStandardVersion (r\<lparr>ConfigData := Some (AList.update K
            (VMap (Some (AList.update k v m))) d)\<rparr>) =
         convertStandardVersion (r\<lparr>ConfigData := Some (AList.update K
            (VMap (Some (AList.delete k m))) d)\<rparr>)"
proof -
  let ?s1 = "Some (AList.update k v m)" and ?s2 = "Some (AList.delete k m)"
  have skip: "standardVersion_skip (Some (AList.update K (VMap ?s1) d)) =
             standardVersion_skip (Some (AList.update K (VMap ?s2) d))"
  proof (rule standardVersion_skip_cong)
    assume K: "K = ''skip''"
    with assms have a: "''changelog'' = k \<longrightarrow> asBool (Some v) = None"
      and b: "''tag'' = k \<longrightarrow> asBool (Some v) = None"
      by (auto simp: acceptsIn_def Tool_defs)
    show "asBool (mget ?s1 ''changelog'') = asBool (mget ?s2 ''changelog'') \<and>
      asBool (mget ?s1 ''tag'') = asBool (mget ?s2 ''tag'')"
      by (intro conjI asBool_agree [OF a] asBool_agree [OF b])
  qed
  have "standardVersion_tagPrefix (Some (AList.update K (VMap ?s1) d)) =
        standardVersion_tagPrefix (Some (AList.update K (VMap ?s2) d))"
    "standardVersion_releaseCommitMessageFormat (Some (AList.update K (VMap ?s1) d)) =
     standardVersion_releaseCommitMessageFormat (Some (AList.update K (VMap ?s2) d))"
    "standardVersion_infile (Some (AList.update K (VMap ?s1) d)) =
     standardVersion_infile (Some (AList.update K (VMap ?s2) d))"
    by (simp_all add: fun_eq_iff standardVersion_tagPrefix_def
        standardVersion_releaseCommitMessageFormat_def standardVersion_infile_def
        asString_at_VMap [of K ?s1 d _ ?s2] del: mget.simps)
  with skip show ?thesis
    by (simp add: convertStandardVersion_def Let_def)
qed

lemma convertGoReleaser_cong:
  assumes "goReleaser_changelog d1 = goReleaser_changelog d2"
    and "goReleaser_release d1 = goReleaser_release d2"
    and "extractGoReleaserAssets d1 = extractGoReleaserAssets d2"
    and "asString (mget d1 ''project_name'') = asString (mget d2 ''project_name'')"
  shows "convertGoReleaser (r\<lparr>ConfigData := d1\<rparr>) = convertGoReleaser (r\<lparr>ConfigData := d2\<rparr>)"
  using assms by (simp add: convertGoReleaser_def Let_def)

lemma convertGoReleaser_nested:
  assumes "\<not> acceptsIn ToolGoReleaser K k v"
  shows "convertGoReleaser (r\<lparr>ConfigData := Some (AList.update K
            (VMap (Some (AList.update k v m))) d)\<rparr>) =
         convertGoReleaser (r\<lparr>ConfigData := Some (AList.update K
            (VMap (Some (AList.delete k m))) d)\<rparr>)"
proof (rule convertGoReleaser_cong)
  let ?s1 = "Some (AList.update k v m)" and ?s2 = "Some (AList.delete k m)"
  show "goReleaser_changelog (Some (AList.update K (VMap ?s1) d)) =
        goReleaser_changelog (Some (AList.update K (VMap ?s2) d))"
  proof (rule goReleaser_changelog_cong)
    assume K: "K = ''changelog''"
    with assms have a: "''skip'' = k \<longrightarrow> asBool (Some v) = None"
      by (auto simp: acceptsIn_def Tool_defs)
    show "asBool (mget ?s1 ''skip'') = asBool (mget ?s2 ''skip'')"
      by (rule asBool_agree [OF a])
  qed
  show "goReleaser_release (Some (AList.update K (VMap ?s1) d)) =
        goReleaser_release (Some (AList.update K (VMap ?s2) d))"
  proof (rule goReleaser_release_cong)
    assume K: "K = ''release''"
    with assms have a: "''github'' = k \<longrightarrow> asMap (Some v) = None"
      and b: "''draft'' = k \<longrightarrow> asBool (Some v) = None"
      and c: "''prerelease'' = k \<longrightarrow> asString (Some v) = None"
      and c': "''prerelease'' = k \<longrightarrow> asBool (Some v) = None"
      and e: "''name_template'' = k \<longrightarrow> asString (Some v) = None"
      by (auto simp: acceptsIn_def Tool_defs)
    show "goReleaser_ownerRepo ?s1 = goReleaser_ownerRepo ?s2 \<and>
      asBool (mget ?s1 ''draft'') = asBool (mget ?s2 ''draft'') \<and>
      asString (mget ?s1 ''prerelease'') = asString (mget ?s2 ''prerelease'') \<and>
      asBool (mget ?s1 ''prerelease'') = asBool (mget ?s2 ''prerelease'') \<and>
      asString (mget ?s1 ''name_template'') = asString (mget ?s2 ''name_template'')"
      by (intro conjI goReleaser_ownerRepo_agree asMap_agree [OF a] asBool_agree [OF b]
          asString_agree [OF c] asBool_agree [OF c'] asString_agree [OF e])
  qed
  show "extractGoReleaserAssets (Some (AList.update K (VMap ?s1) d)) =
        extractGoReleaserAssets (Some (AList.update K (VMap ?s2) d))"
    by (rule extractGoReleaserAssets_firstBuild) (rule firstBuild_at_VMap)
  show "asString (mget (Some (AList.update K (VMap ?s1) d)) ''project_name'') =
        asString (mget (Some (AList.update K (VMap ?s2) d)) ''project_name'')"
    by (rule asString_at_VMap)
qed

lemma convertGoReleaser_release_github:
  assumes "k \<in> {''owner'', ''name''} \<longrightarrow> asString (Some v) = None"
  shows "convertGoReleaser (r\<lparr>ConfigData := Some (AList.update ''release''
            (VMap (Some (AList.update ''github'' (VMap (Some (AList.update k v g))) rel))) d)\<rparr>) =
         convertGoReleaser (r\<lparr>ConfigData := Some (AList.update ''release''
            (VMap (Some (AList.update ''github'' (VMap (Some (AList.delete k g))) rel))) d)\<rparr>)"
proof (rule convertGoReleaser_cong)
  let ?g1 = "Some (AList.update k v g)" and ?g2 = "Some (AList.delete k g)"
  let ?s1 = "Some (AList.update ''github'' (VMap ?g1) rel)"
  let ?s2 = "Some (AList.update ''github'' (VMap ?g2) rel)"
  from assms have a: "''owner'' = k \<longrightarrow> asString (Some v) = None"
    and b: "''name'' = k \<longrightarrow> asString (Some v) = None" by auto
  show "goReleaser_changelog (Some (AList.update ''release'' (VMap ?s1) d)) =
        goReleaser_changelog (Some (AList.update ''release'' (VMap ?s2) d))"
    by (rule goReleaser_changelog_cong) simp
  show "goReleaser_release (Some (AList.update ''release'' (VMap ?s1) d)) =
        goReleaser_release (Some (AList.update ''release'' (VMap ?s2) d))"
  proof (rule goReleaser_release_cong, intro conjI)
    show "goReleaser_ownerRepo ?s1 = goReleaser_ownerRepo ?s2"
      by (rule goReleaser_ownerRepo_cong [OF asString_agree [OF a] asString_agree [OF b]])
  qed (simp_all add: update_conv')
  show "extractGoReleaserAssets (Some (AList.update ''release'' (VMap ?s1) d)) =
        extractGoReleaserAssets (Some (AList.update ''release'' (VMap ?s2) d))"
    by (rule extractGoReleaserAssets_firstBuild) (rule firstBuild_at_VMap)
  show "asString (mget (Some (AList.update ''release'' (VMap ?s1) d)) ''project_name'') =
        asString (mget (Some (AList.update ''release'' (VMap ?s2) d)) ''project_name'')"
    by (rule asString_at_VMap)
qed

lemma convertGoReleaser_first_build:
  assumes "k = ''binary'' \<longrightarrow> asString (Some v) = None"
    and "k \<in> {''goos'', ''goarch''} \<longrightarrow> asList (Some v) = None"
  shows "convertGoReleaser (r\<lparr>ConfigData := Some (AList.update ''builds''
            (VList (VMap (Some (AList.update k v b)) # rest)) d)\<rparr>) =
         convertGoReleaser (r\<lparr>ConfigData := Some (AList.update ''builds''
            (VList (VMap (Some (AList.delete k b)) # rest)) d)\<rparr>)"
proof (rule convertGoReleaser_cong)
  let ?b1 = "Some (AList.update k v b)" and ?b2 = "Some (AList.delete k b)"
  let ?d1 = "Some (AList.update ''builds'' (VList (VMap ?b1 # rest)) d)"
  let ?d2 = "Some (AList.update ''builds'' (VList (VMap ?b2 # rest)) d)"
  from assms have a: "''binary'' = k \<longrightarrow> asString (Some v) = None"
    and b: "''goos'' = k \<longrightarrow> asList (Some v) = None"
    and c: "''goarch'' = k \<longrightarrow> asList (Some v) = None" by auto
  show "goReleaser_changelog ?d1 = goReleaser_changelog ?d2"
    by (simp add: fun_eq_iff goReleaser_changelog_def
        asMap_at_VList [of "''builds''" "VMap ?b1 # rest" d _ "VMap ?b2 # rest"] del: mget.simps)
  show "goReleaser_release ?d1 = goReleaser_release ?d2"
    by (simp add: fun_eq_iff goReleaser_release_def
        asMap_at_VList [of "''builds''" "VMap ?b1 # rest" d _ "VMap ?b2 # rest"] del: mget.simps)
  show "extractGoReleaserAssets ?d1 = extractGoReleaserAssets ?d2"
    by (rule extractGoReleaserAssets_cong [OF firstBuild_builds firstBuild_builds
          asString_agree [OF a] asList_agree [OF b] asList_agree [OF c]])
  show "asString (mget ?d1 ''project_name'') = asString (mget ?d2 ''project_name'')"
    by (rule asString_at_VList)
qed

lemma extractBranches_loop_eq:
  "extractBranches_loop branches acc =
   acc @ concat (map (\<lambda>b. case b of
                            VStr branch \<Rightarrow> [branch]
                          | VMap branch \<Rightarrow> (case asString (mget branch ''name'') of
                                              Some name \<Rightarrow> [name] | None \<Rightarrow> [])
                          | _ \<Rightarrow> []) branches)"
  by (induction branches arbitrary: acc) (simp_all split: val.splits option.splits)

lemma extractBranches_name:
  assumes "asString (Some v) = None"
  shows "extractBranches (xs @ VMap (Some (AList.update ''name'' v b)) # ys) =
         extractBranches (xs @ VMap (Some (AList.delete ''name'' b)) # ys)"
  using assms by (simp add: extractBranches_def extractBranches_loop_eq update_conv' delete_conv')

lemma semanticRelease_branches_name:
  assumes "asString (Some v) = None"
  shows "semanticRelease_branches (Some (AList.update ''branches''
            (VList (xs @ VMap (Some (AList.update ''name'' v b)) # ys)) d)) =
         semanticRelease_branches (Some (AList.update ''branches''
            (VList (xs @ VMap (Some (AList.delete ''name'' b)) # ys)) d))"
  by (simp add: fun_eq_iff semanticRelease_branches_def asList_at_VList
      extractBranches_name [OF assms] del: mget.simps)

lemma convertSemanticRelease_branch_name:
  assumes "asString (Some v) = None"
  shows "convertSemanticRelease (r\<lparr>ConfigData := Some (AList.update ''branches''
            (VList (xs @ VMap (Some (AList.update ''name'' v b)) # ys)) d)\<rparr>) =
         convertSemanticRelease (r\<lparr>ConfigData := Some (AList.update ''branches''
            (VList (xs @ VMap (Some (AList.delete ''name'' b)) # ys)) d)\<rparr>)"
proof -
  let ?x = "xs @ VMap (Some (AList.update ''name'' v b)) # ys"
  let ?y = "xs @ VMap (Some (AList.delete ''name'' b)) # ys"
  have "semanticRelease_tagFormat (Some (AList.update ''branches'' (VList ?x) d)) =
        semanticRelease_tagFormat (Some (AList.update ''branches'' (VList ?y) d))"
    by (simp add: fun_eq_iff semanticRelease_tagFormat_def
        asString_at_VList [of "''branches''" ?x d _ ?y] del: mget.simps)
  moreover have "semanticRelease_plugins (Some (AList.update ''branches'' (VList ?x) d)) =
        semanticRelease_plugins (Some (AList.update ''branches'' (VList ?y) d))"
    by (simp add: fun_eq_iff semanticRelease_plugins_def asList_at_VList del: mget.simps)
  ultimately show ?thesis
    using semanticRelease_branches_name [OF assms, of xs b ys d]
    by (simp add: convertSemanticRelease_def Let_def)
qed

text \<open>Entries of the lists the converters walk.\<close>

lemma toStringSlice_skip:
  "asString (Some v) = None \<Longrightarrow> toStringSlice (xs @ v # ys) = toStringSlice (xs @ ys)"
  by (induction xs) (simp_all split: option.splits)

lemma convertGoReleaser_build_not_map:
  assumes "asMap (Some b) = None"
  shows "convertGoReleaser (r\<lparr>ConfigData := Some (AList.update ''builds'' (VList (b # rest)) d)\<rparr>) =
         convertGoReleaser (r\<lparr>ConfigData := Some (AList.delete ''builds'' d)\<rparr>)"
proof (rule convertGoReleaser_cong)
  let ?d1 = "Some (AList.update ''builds'' (VList (b # rest)) d)"
  let ?d2 = "Some (AList.delete ''builds'' d)"
  have m: "\<And>k'. k' = ''builds'' \<longrightarrow> asMap (Some (VList (b # rest))) = None" by simp
  have s: "\<And>k'. k' = ''builds'' \<longrightarrow> asString (Some (VList (b # rest))) = None" by simp
  show "goReleaser_changelog ?d1 = goReleaser_changelog ?d2"
    by (simp add: fun_eq_iff goReleaser_changelog_def asMap_agree [OF m] del: mget.simps)
  show "goReleaser_release ?d1 = goReleaser_release ?d2"
    by (simp add: fun_eq_iff goReleaser_release_def asMap_agree [OF m] del: mget.simps)
  have "firstBuild ?d1 = None"
    using assms by (simp add: firstBuild_def asList_at_VList del: mget.simps)
  moreover have "firstBuild ?d2 = None"
    by (simp add: firstBuild_def mget_delete del: mget.simps)
  ultimately show "extractGoReleaserAssets ?d1 = extractGoReleaserAssets ?d2"
    by (intro extractGoReleaserAssets_firstBuild) simp
  show "asString (mget ?d1 ''project_name'') = asString (mget ?d2 ''project_name'')"
    by (rule asString_agree [OF s])
qed

lemma convertGoReleaser_targets_cong:
  assumes "toStringSlice x = toStringSlice y" and "k \<in> {''goos'', ''goarch''}"
  shows "convertGoReleaser (r\<lparr>ConfigData := Some (AList.update ''builds''
            (VList (VMap (Some (AList.update k (VList x) b)) # rest)) d)\<rparr>) =
         convertGoReleaser (r\<lparr>ConfigData := Some (AList.update ''builds''
            (VList (VMap (Some (AList.update k (VList y) b)) # rest)) d)\<rparr>)"
proof (rule convertGoReleaser_cong)
  let ?b1 = "Some (AList.update k (VList x) b)" and ?b2 = "Some (AList.update k (VList y) b)"
  let ?d1 = "Some (AList.update ''builds'' (VList (VMap ?b1 # rest)) d)"
  let ?d2 = "Some (AList.update ''builds'' (VList (VMap ?b2 # rest)) d)"
  show "goReleaser_changelog ?d1 = goReleaser_changelog ?d2"
    by (simp add: fun_eq_iff goReleaser_changelog_def
        asMap_at_VList [of "''builds''" "VMap ?b1 # rest" d _ "VMap ?b2 # rest"] del: mget.simps)
  show "goReleaser_release ?d1 = goReleaser_release ?d2"
    by (simp add: fun_eq_iff goReleaser_release_def
        asMap_at_VList [of "''builds''" "VMap ?b1 # rest" d _ "VMap ?b2 # rest"] del: mget.simps)
  from assms(2) consider "k = ''goos''" | "k = ''goarch''" by auto
  then show "extractGoReleaserAssets ?d1 = extractGoReleaserAssets ?d2"
  proof cases
    case 1
    then show ?thesis
      using assms(1)
      by (simp add: fun_eq_iff extractGoReleaserAssets_def firstBuild_builds mget_update
          del: mget.simps)
  next
    case 2
    then show ?thesis
      using assms(1)
      by (simp add: fun_eq_iff extractGoReleaserAssets_def firstBuild_builds mget_update
          del: mget.simps)
  qed
  show "asString (mget ?d1 ''project_name'') = asString (mget ?d2 ''project_name'')"
    by (rule asString_at_VList)
qed

lemma convertSemanticRelease_branches_cong:
  assumes "extractBranches x = extractBranches y"
  shows "convertSemanticRelease (r\<lparr>ConfigData := Some (AList.update ''branches'' (VList x) d)\<rparr>) =
         convertSemanticRelease (r\<lparr>ConfigData := Some (AList.update ''branches'' (VList y) d)\<rparr>)"
proof -
  have "semanticRelease_tagFormat (Some (AList.update ''branches'' (VList x) d)) =
        semanticRelease_tagFormat (Some (AList.update ''branches'' (VList y) d))"
    by (simp add: fun_eq_iff semanticRelease_tagFormat_def
        asString_at_VList [of "''branches''" x d _ y] del: mget.simps)
  moreover have "semanticRelease_branches (Some (AList.update ''branches'' (VList x) d)) =
        semanticRelease_branches (Some (AList.update ''branches'' (VList y) d))"
    by (simp add: fun_eq_iff semanticRelease_branches_def asList_at_VList assms del: mget.simps)
  moreover have "semanticRelease_plugins (Some (AList.update ''branches'' (VList x) d)) =
        semanticRelease_plugins (Some (AList.update ''branches'' (VList y) d))"
    by (simp add: fun_eq_iff semanticRelease_plugins_def asList_at_VList del: mget.simps)
  ultimately show ?thesis
    by (simp add: convertSemanticRelease_def Let_def)
qed

lemma extractBranches_skip:
  assumes "asString (Some v) = None" and "asMap (Some v) = None"
  shows "extractBranches (xs @ v # ys) = extractBranches (xs @ ys)"
  using assms by (cases v) (simp_all add: extractBranches_def extractBranches_loop_eq)

lemma convertSemanticRelease_plugins_cong:
  assumes "convertSemanticReleasePlugins x = convertSemanticReleasePlugins y"
  shows "convertSemanticRelease (r\<lparr>ConfigData := Some (AList.update ''plugins'' (VList x) d)\<rparr>) =
         convertSemanticRelease (r\<lparr>ConfigData := Some (AList.update ''plugins'' (VList y) d)\<rparr>)"
proof -
  have "semanticRelease_tagFormat (Some (AList.update ''plugins'' (VList x) d)) =
        semanticRelease_tagFormat (Some (AList.update ''plugins'' (VList y) d))"
    by (simp add: fun_eq_iff semanticRelease_tagFormat_def
        asString_at_VList [of "''plugins''" x d _ y] del: mget.simps)
  moreover have "semanticRelease_branches (Some (AList.update ''plugins'' (VList x) d)) =
        semanticRelease_branches (Some (AList.update ''plugins'' (VList y) d))"
    by (simp add: fun_eq_iff semanticRelease_branches_def asList_at_VList del: mget.simps)
  moreover have "semanticRelease_plugins (Some (AList.update ''plugins'' (VList x) d)) =
        semanticRelease_plugins (Some (AList.update ''plugins'' (VList y) d))"
    by (simp add: fun_eq_iff semanticRelease_plugins_def asList_at_VList assms del: mget.simps)
  ultimately show ?thesis
    by (simp add: convertSemanticRelease_def Let_def)
qed

lemma convertSemanticReleasePlugins_entry:
  assumes "pluginName p = pluginName q" and "pluginConfig p = pluginConfig q"
  shows "convertSemanticReleasePlugins (ps @ p # qs) = convertSemanticReleasePlugins (ps @ q # qs)"
  using assms by (simp add: convertSemanticReleasePlugins_def convertSemanticReleasePlugins_loop_eq)

lemma plugin_config_not_map:
  assumes "asMap (Some y) = None"
  shows "convertSemanticReleasePlugins (ps @ VList (x # y # rest) # qs) =
         convertSemanticReleasePlugins (ps @ VList [x] # qs)"
  using assms by (intro convertSemanticReleasePlugins_entry) simp_all

lemma plugin_name_not_string:
  assumes "asString (Some x) = None"
  shows "convertSemanticReleasePlugins (ps @ VList (x # rest) # qs) =
         convertSemanticReleasePlugins (ps @ VList (VNull # rest) # qs)"
  using assms by (intro convertSemanticReleasePlugins_entry; cases rest) simp_all

lemma plugin_entry_not_string_or_list:
  assumes "asString (Some p) = None" and "asList (Some p) = None"
  shows "convertSemanticReleasePlugins (ps @ p # qs) =
         convertSemanticReleasePlugins (ps @ VList [] # qs)"
  using assms by (intro convertSemanticReleasePlugins_entry; cases p) simp_all

lemma Convert_SemanticRelease:
  "Tool r = ToolSemanticRelease \<Longrightarrow>
   Convert (r\<lparr>ConfigData := x\<rparr>) = convertSemanticRelease (r\<lparr>ConfigData := x\<rparr>)"
  by (simp add: Convert_def)

lemma Convert_GoReleaser:
  "Tool r = ToolGoReleaser \<Longrightarrow>
   Convert (r\<lparr>ConfigData := x\<rparr>) = convertGoReleaser (r\<lparr>ConfigData := x\<rparr>)"
  by (simp add: Convert_def Tool_defs)

lemma Convert_nested:
  assumes "Tool r \<in> {ToolSemanticRelease, ToolReleaseIt, ToolStandardVersion, ToolGoReleaser}"
    and "\<not> acceptsIn (Tool r) K k v"
  shows "Convert (r\<lparr>ConfigData := Some (AList.update K (VMap (Some (AList.update k v m))) d)\<rparr>) =
         Convert (r\<lparr>ConfigData := Some (AList.update K (VMap (Some (AList.delete k m))) d)\<rparr>)"
  using assms
    convertSemanticRelease_nested [where K = K and r = r and d = d
      and ?s1.0 = "Some (AList.update k v m)" and ?s2.0 = "Some (AList.delete k m)"]
    convertReleaseIt_nested [where K = K and k = k and v = v and r = r and m = m and d = d]
    convertStandardVersion_nested [where K = K and k = k and v = v and r = r and m = m and d = d]
    convertGoReleaser_nested [where K = K and k = k and v = v and r = r and m = m and d = d]
  by (auto simp: Convert_def)

text \<open>
  C8. For each of the four supported tool identities and every config tree, \<open>Convert\<close>
  succeeds and returns a document; the error branch is not reached. The nil tree converts as
  the empty tree does. A field whose value fails the type assertion the converter applies to
  it converts as if the field were absent, at every place where a converter reads the tree:
  a top-level key; a key of the mapping under a top-level key; the keys \<^verbatim>\<open>owner\<close> and
  \<^verbatim>\<open>name\<close> under \<^verbatim>\<open>release.github\<close> and the keys \<^verbatim>\<open>binary\<close>, \<^verbatim>\<open>goos\<close> and
  \<^verbatim>\<open>goarch\<close> of the first build of a GoReleaser tree; and the key \<^verbatim>\<open>name\<close> of a
  semantic-release branch entry. The same holds for the entries of the lists the converters
  walk: a first build that is not a mapping converts as no builds, an OS or architecture
  entry that is not a string and a branch entry that is neither a string nor a mapping
  convert as if removed from their list, a plugin entry's second element that is not a
  mapping converts as if the entry had one element, a plugin entry's first element that is
  not a string converts as the null value does, and a plugin entry that is neither a string
  nor a list converts as the empty list entry does.
\<close>

theorem Convert_supported:
  assumes "Tool r \<in> {ToolSemanticRelease, ToolReleaseIt, ToolStandardVersion, ToolGoReleaser}"
  shows "(\<exists>cfg. Convert r = Inr cfg) \<and>
         Convert (r\<lparr>ConfigData := None\<rparr>) = Convert (r\<lparr>ConfigData := Some []\<rparr>) \<and>
         (\<forall>m k v. \<not> accepts (Tool r) k v \<longrightarrow>
            Convert (r\<lparr>ConfigData := Some (AList.update k v m)\<rparr>) =
            Convert (r\<lparr>ConfigData := Some (AList.delete k m)\<rparr>)) \<and>
         (\<forall>d K m k v. \<not> acceptsIn (Tool r) K k v \<longrightarrow>
            Convert (r\<lparr>ConfigData := Some (AList.update K
                        (VMap (Some (AList.update k v m))) d)\<rparr>) =
            Convert (r\<lparr>ConfigData := Some (AList.update K
                        (VMap (Some (AList.delete k m))) d)\<rparr>)) \<and>
         (Tool r = ToolGoReleaser \<longrightarrow>
            (\<forall>d rel g k v. (k \<in> {''owner'', ''name''} \<longrightarrow> asString (Some v) = None) \<longrightarrow>
               Convert (r\<lparr>ConfigData := Some (AList.update ''release''
                  (VMap (Some (AList.update ''github''
                     (VMap (Some (AList.update k v g))) rel))) d)\<rparr>) =
               Convert (r\<lparr>ConfigData := Some (AList.update ''release''
                  (VMap (Some (AList.update ''github''
                     (VMap (Some (AList.delete k g))) rel))) d)\<rparr>)) \<and>
            (\<forall>d b rest k v. (k = ''binary'' \<longrightarrow> asString (Some v) = None) \<and>
                             (k \<in> {''goos'', ''goarch''} \<longrightarrow> asList (Some v) = None) \<longrightarrow>
               Convert (r\<lparr>ConfigData := Some (AList.update ''builds''
                  (VList (VMap (Some (AList.update k v b)) # rest)) d)\<rparr>) =
               Convert (r\<lparr>ConfigData := Some (AList.update ''builds''
                  (VList (VMap (Some (AList.delete k b)) # rest)) d)\<rparr>)) \<and>
            (\<forall>d b rest. asMap (Some b) = None \<longrightarrow>
               Convert (r\<lparr>ConfigData := Some (AList.update ''builds'' (VList (b # rest)) d)\<rparr>) =
               Convert (r\<lparr>ConfigData := Some (AList.delete ''builds'' d)\<rparr>)) \<and>
            (\<forall>d b rest k xs v ys. k \<in> {''goos'', ''goarch''} \<and> asString (Some v) = None \<longrightarrow>
               Convert (r\<lparr>ConfigData := Some (AList.update ''builds''
                  (VList (VMap (Some (AList.update k (VList (xs @ v # ys)) b)) # rest)) d)\<rparr>) =
               Convert (r\<lparr>ConfigData := Some (AList.update ''builds''
                  (VList (VMap (Some (AList.update k (VList (xs @ ys)) b)) # rest)) d)\<rparr>))) \<and>
         (Tool r = ToolSemanticRelease \<longrightarrow>
            (\<forall>d xs b ys v. asString (Some v) = None \<longrightarrow>
               Convert (r\<lparr>ConfigData := Some (AList.update ''branches''
                  (VList (xs @ VMap (Some (AList.update ''name'' v b)) # ys)) d)\<rparr>) =
               Convert (r\<lparr>ConfigData := Some (AList.update ''branches''
                  (VList (xs @ VMap (Some (AList.delete ''name'' b)) # ys)) d)\<rparr>)) \<and>
            (\<forall>d xs v ys. asString (Some v) = None \<and> asMap (Some v) = None \<longrightarrow>
               Convert (r\<lparr>ConfigData := Some (AList.update ''branches''
                  (VList (xs @ v # ys)) d)\<rparr>) =
               Convert (r\<lparr>ConfigData := Some (AList.update ''branches''
                  (VList (xs @ ys)) d)\<rparr>)) \<and>
            (\<forall>d ps x y rest qs. asMap (Some y) = None \<longrightarrow>
               Convert (r\<lparr>ConfigData := Some (AList.update ''plugins''
                  (VList (ps @ VList (x # y # rest) # qs)) d)\<rparr>) =
               Convert (r\<lparr>ConfigData := Some (AList.update ''plugins''
                  (VList (ps @ VList [x] # qs)) d)\<rparr>)) \<and>
            (\<forall>d ps x rest qs. asString (Some x) = None \<longrightarrow>
               Convert (r\<lparr>ConfigData := Some (AList.update ''plugins''
                  (VList (ps @ VList (x # rest) # qs)) d)\<rparr>) =
               Convert (r\<lparr>ConfigData := Some (AList.update ''plugins''
                  (VList (ps @ VList (VNull # rest) # qs)) d)\<rparr>)) \<and>
            (\<forall>d ps p qs. asString (Some p) = None \<and> asList (Some p) = None \<longrightarrow>
               Convert (r\<lparr>ConfigData := Some (AList.update ''plugins''
                  (VList (ps @ p # qs)) d)\<rparr>) =
               Convert (r\<lparr>ConfigData := Some (AList.update ''plugins''
                  (VList (ps @ VList [] # qs)) d)\<rparr>)))"
proof -
  have 1: "\<exists>cfg. Convert r = Inr cfg"
    using assms
    by (auto simp: Convert_def Tool_defs convertSemanticRelease_def convertReleaseIt_def
        convertStandardVersion_def convertGoReleaser_def Let_def)
  have 2: "Convert (r\<lparr>ConfigData := None\<rparr>) = Convert (r\<lparr>ConfigData := Some []\<rparr>)"
    by (rule Convert_nil_tree)
  have 3: "\<forall>m k v. \<not> accepts (Tool r) k v \<longrightarrow>
            Convert (r\<lparr>ConfigData := Some (AList.update k v m)\<rparr>) =
            Convert (r\<lparr>ConfigData := Some (AList.delete k m)\<rparr>)"
  proof (intro allI impI)
    fix m k v
    assume "\<not> accepts (Tool r) k v"
    with assms show "Convert (r\<lparr>ConfigData := Some (AList.update k v m)\<rparr>) =
            Convert (r\<lparr>ConfigData := Some (AList.delete k m)\<rparr>)"
      using convertSemanticRelease_mistyped [where k = k and v = v and r = r and m = m]
        convertReleaseIt_mistyped [where k = k and v = v and r = r and m = m]
        convertStandardVersion_mistyped [where k = k and v = v and r = r and m = m]
        convertGoReleaser_mistyped [where k = k and v = v and r = r and m = m]
      by (auto simp: Convert_def)
  qed
  have 4: "\<forall>d K m k v. \<not> acceptsIn (Tool r) K k v \<longrightarrow>
            Convert (r\<lparr>ConfigData := Some (AList.update K
                        (VMap (Some (AList.update k v m))) d)\<rparr>) =
            Convert (r\<lparr>ConfigData := Some (AList.update K
                        (VMap (Some (AList.delete k m))) d)\<rparr>)"
    by (intro allI impI) (rule Convert_nested [OF assms])
  have 5: "Tool r = ToolGoReleaser \<longrightarrow>
            (\<forall>d rel g k v. (k \<in> {''owner'', ''name''} \<longrightarrow> asString (Some v) = None) \<longrightarrow>
               Convert (r\<lparr>ConfigData := Some (AList.update ''release''
                  (VMap (Some (AList.update ''github''
                     (VMap (Some (AList.update k v g))) rel))) d)\<rparr>) =
               Convert (r\<lparr>ConfigData := Some (AList.update ''release''
                  (VMap (Some (AList.update ''github''
                     (VMap (Some (AList.delete k g))) rel))) d)\<rparr>)) \<and>
            (\<forall>d b rest k v. (k = ''binary'' \<longrightarrow> asString (Some v) = None) \<and>
                             (k \<in> {''goos'', ''goarch''} \<longrightarrow> asList (Some v) = None) \<longrightarrow>
               Convert (r\<lparr>ConfigData := Some (AList.update ''builds''
                  (VList (VMap (Some (AList.update k v b)) # rest)) d)\<rparr>) =
               Convert (r\<lparr>ConfigData := Some (AList.update ''builds''
                  (VList (VMap (Some (AList.delete k b)) # rest)) d)\<rparr>)) \<and>
            (\<forall>d b rest. asMap (Some b) = None \<longrightarrow>
               Convert (r\<lparr>ConfigData := Some (AList.update ''builds'' (VList (b # rest)) d)\<rparr>) =
               Convert (r\<lparr>ConfigData := Some (AList.delete ''builds'' d)\<rparr>)) \<and>
            (\<forall>d b rest k xs v ys. k \<in> {''goos'', ''goarch''} \<and> asString (Some v) = None \<longrightarrow>
               Convert (r\<lparr>ConfigData := Some (AList.update ''builds''
                  (VList (VMap (Some (AList.update k (VList (xs @ v # ys)) b)) # rest)) d)\<rparr>) =
               Convert (r\<lparr>ConfigData := Some (AList.update ''builds''
                  (VList (VMap (Some (AList.update k (VList (xs @ ys)) b)) # rest)) d)\<rparr>))"
  proof (intro impI conjI allI; (elim conjE)?)
    fix d rel g k v
    assume t: "Tool r = ToolGoReleaser"
      and h: "k \<in> {''owner'', ''name''} \<longrightarrow> asString (Some v) = None"
    show "Convert (r\<lparr>ConfigData := Some (AList.update ''release''
                  (VMap (Some (AList.update ''github''
                     (VMap (Some (AList.update k v g))) rel))) d)\<rparr>) =
               Convert (r\<lparr>ConfigData := Some (AList.update ''release''
                  (VMap (Some (AList.update ''github''
                     (VMap (Some (AList.delete k g))) rel))) d)\<rparr>)"
      by (simp only: Convert_GoReleaser [OF t] convertGoReleaser_release_github [OF h])
  next
    fix d b rest k v
    assume t: "Tool r = ToolGoReleaser"
      and h1: "k = ''binary'' \<longrightarrow> asString (Some v) = None"
      and h2: "k \<in> {''goos'', ''goarch''} \<longrightarrow> asList (Some v) = None"
    show "Convert (r\<lparr>ConfigData := Some (AList.update ''builds''
                  (VList (VMap (Some (AList.update k v b)) # rest)) d)\<rparr>) =
               Convert (r\<lparr>ConfigData := Some (AList.update ''builds''
                  (VList (VMap (Some (AList.delete k b)) # rest)) d)\<rparr>)"
      by (simp only: Convert_GoReleaser [OF t] convertGoReleaser_first_build [OF h1 h2])
  next
    fix d b rest
    assume t: "Tool r = ToolGoReleaser" and h: "asMap (Some b) = None"
    show "Convert (r\<lparr>ConfigData := Some (AList.update ''builds'' (VList (b # rest)) d)\<rparr>) =
               Convert (r\<lparr>ConfigData := Some (AList.delete ''builds'' d)\<rparr>)"
      by (simp only: Convert_GoReleaser [OF t] convertGoReleaser_build_not_map [OF h])
  next
    fix d b rest k xs v ys
    assume t: "Tool r = ToolGoReleaser" and k: "k \<in> {''goos'', ''goarch''}"
      and h: "asString (Some v) = None"
    show "Convert (r\<lparr>ConfigData := Some (AList.update ''builds''
                  (VList (VMap (Some (AList.update k (VList (xs @ v # ys)) b)) # rest)) d)\<rparr>) =
               Convert (r\<lparr>ConfigData := Some (AList.update ''builds''
                  (VList (VMap (Some (AList.update k (VList (xs @ ys)) b)) # rest)) d)\<rparr>)"
      by (simp only: Convert_GoReleaser [OF t]
          convertGoReleaser_targets_cong [OF toStringSlice_skip [OF h] k])
  qed
  have 6: "Tool r = ToolSemanticRelease \<longrightarrow>
            (\<forall>d xs b ys v. asString (Some v) = None \<longrightarrow>
               Convert (r\<lparr>ConfigData := Some (AList.update ''branches''
                  (VList (xs @ VMap (Some (AList.update ''name'' v b)) # ys)) d)\<rparr>) =
               Convert (r\<lparr>ConfigData := Some (AList.update ''branches''
                  (VList (xs @ VMap (Some (AList.delete ''name'' b)) # ys)) d)\<rparr>)) \<and>
            (\<forall>d xs v ys. asString (Some v) = None \<and> asMap (Some v) = None \<longrightarrow>
               Convert (r\<lparr>ConfigData := Some (AList.update ''branches''
                  (VList (xs @ v # ys)) d)\<rparr>) =
               Convert (r\<lparr>ConfigData := Some (AList.update ''branches''
                  (VList (xs @ ys)) d)\<rparr>)) \<and>
            (\<forall>d ps x y rest qs. asMap (Some y) = None \<longrightarrow>
               Convert (r\<lparr>ConfigData := Some (AList.update ''plugins''
                  (VList (ps @ VList (x # y # rest) # qs)) d)\<rparr>) =
               Convert (r\<lparr>ConfigData := Some (AList.update ''plugins''
                  (VList (ps @ VList [x] # qs)) d)\<rparr>)) \<and>
            (\<forall>d ps x rest qs. asString (Some x) = None \<longrightarrow>
               Convert (r\<lparr>ConfigData := Some (AList.update ''plugins''
                  (VList (ps @ VList (x # rest) # qs)) d)\<rparr>) =
               Convert (r\<lparr>ConfigData := Some (AList.update ''plugins''
                  (VList (ps @ VList (VNull # rest) # qs)) d)\<rparr>)) \<and>
            (\<forall>d ps p qs. asString (Some p) = None \<and> asList (Some p) = None \<longrightarrow>
               Convert (r\<lparr>ConfigData := Some (AList.update ''plugins''
                  (VList (ps @ p # qs)) d)\<rparr>) =
               Convert (r\<lparr>ConfigData := Some (AList.update ''plugins''
                  (VList (ps @ VList [] # qs)) d)\<rparr>))"
  proof (intro impI conjI allI; (elim conjE)?)
    fix d xs b ys v
    assume t: "Tool r = ToolSemanticRelease" and h: "asString (Some v) = None"
    show "Convert (r\<lparr>ConfigData := Some (AList.update ''branches''
                  (VList (xs @ VMap (Some (AList.update ''name'' v b)) # ys)) d)\<rparr>) =
               Convert (r\<lparr>ConfigData := Some (AList.update ''branches''
                  (VList (xs @ VMap (Some (AList.delete ''name'' b)) # ys)) d)\<rparr>)"
      by (simp only: Convert_SemanticRelease [OF t]
          convertSemanticRelease_branches_cong [OF extractBranches_name [OF h]])
  next
    fix d xs v ys
    assume t: "Tool r = ToolSemanticRelease" and h1: "asString (Some v) = None"
      and h2: "asMap (Some v) = None"
    show "Convert (r\<lparr>ConfigData := Some (AList.update ''branches''
                  (VList (xs @ v # ys)) d)\<rparr>) =
               Convert (r\<lparr>ConfigData := Some (AList.update ''branches''
                  (VList (xs @ ys)) d)\<rparr>)"
      by (simp only: Convert_SemanticRelease [OF t]
          convertSemanticRelease_branches_cong [OF extractBranches_skip [OF h1 h2]])
  next
    fix d ps x y rest qs
    assume t: "Tool r = ToolSemanticRelease" and h: "asMap (Some y) = None"
    show "Convert (r\<lparr>ConfigData := Some (AList.update ''plugins''
                  (VList (ps @ VList (x # y # rest) # qs)) d)\<rparr>) =
               Convert (r\<lparr>ConfigData := Some (AList.update ''plugins''
                  (VList (ps @ VList [x] # qs)) d)\<rparr>)"
      by (simp only: Convert_SemanticRelease [OF t]
          convertSemanticRelease_plugins_cong [OF plugin_config_not_map [OF h]])
  next
    fix d ps x rest qs
    assume t: "Tool r = ToolSemanticRelease" and h: "asString (Some x) = None"
    show "Convert (r\<lparr>ConfigData := Some (AList.update ''plugins''
                  (VList (ps @ VList (x # rest) # qs)) d)\<rparr>) =
               Convert (r\<lparr>ConfigData := Some (AList.update ''plugins''
                  (VList (ps @ VList (VNull # rest) # qs)) d)\<rparr>)"
      by (simp only: Convert_SemanticRelease [OF t]
          convertSemanticRelease_plugins_cong [OF plugin_name_not_string [OF h]])
  next
    fix d ps p qs
    assume t: "Tool r = ToolSemanticRelease" and h1: "asString (Some p) = None"
      and h2: "asList (Some p) = None"
    show "Convert (r\<lparr>ConfigData := Some (AList.update ''plugins''
                  (VList (ps @ p # qs)) d)\<rparr>) =
               Convert (r\<lparr>ConfigData := Some (AList.update ''plugins''
                  (VList (ps @ VList [] # qs)) d)\<rparr>)"
      by (simp only: Convert_SemanticRelease [OF t]
          convertSemanticRelease_plugins_cong [OF plugin_entry_not_string_or_list [OF h1 h2]])
  qed
  show ?thesis
    by (intro conjI) (fact 1 2 3 4 5 6)+
qed

theorem Convert_supported_witness:
  "ToolSemanticRelease \<in> {ToolSemanticRelease, ToolReleaseIt, ToolStandardVersion, ToolGoReleaser} \<and>
   \<not> accepts ToolSemanticRelease ''tagFormat'' (VNum 3) \<and>
   (\<exists>cfg. Convert \<lparr>Tool = ToolSemanticRelease, ConfigFile = ''.releaserc'',
                    ConfigData = Some [(''tagFormat'', VNum 3), (''branches'', VStr ''main'')],
                    Details = None\<rparr> = Inr cfg) \<and>
   Convert \<lparr>Tool = ToolSemanticRelease, ConfigFile = ''.releaserc'',
            ConfigData = Some [(''tagFormat'', VNum 3), (''branches'', VStr ''main'')],
            Details = None\<rparr> =
   Convert \<lparr>Tool = ToolSemanticRelease, ConfigFile = ''.releaserc'',
            ConfigData = Some [(''branches'', VStr ''main'')],
            Details = None\<rparr> \<and>
   \<not> acceptsIn ToolReleaseIt ''git'' ''push'' (VStr ''no'') \<and>
   Convert \<lparr>Tool = ToolReleaseIt, ConfigFile = ''.release-it.json'',
            ConfigData = Some [(''git'', VMap (Some [(''tagName'', VStr ''v${version}''),
                                                     (''push'', VStr ''no'')]))],
            Details = None\<rparr> =
   Convert \<lparr>Tool = ToolReleaseIt, ConfigFile = ''.release-it.json'',
            ConfigData = Some [(''git'', VMap (Some [(''tagName'', VStr ''v${version}'')]))],
            Details = None\<rparr> \<and>
   Convert \<lparr>Tool = ToolReleaseIt, ConfigFile = ''.release-it.json'',
            ConfigData = Some [(''git'', VMap (Some [(''tagName'', VStr ''v${version}'')]))],
            Details = None\<rparr> =
   Inr \<lparr>Versioning = \<lparr>Strategy = ''conventional'', TagPrefix = ''v''\<rparr>,
        Changelog = \<lparr>Enabled_Changelog = True, Template = [], File = ''CHANGELOG.md''\<rparr>,
        Git = \<lparr>RequireCleanTree = True, PushTags = True, CreateTag = True,
               CommitMessage = [], TagMessage = [], RequireUpToDate = False,
               AllowedBranches = []\<rparr>,
        Plugins = [], AI = None\<rparr> \<and>
   Convert \<lparr>Tool = ToolGoReleaser, ConfigFile = ''.goreleaser.yaml'',
            ConfigData = Some [(''builds'', VList [VMap (Some [(''binary'', VStr ''app''),
                                                               (''goos'', VStr ''linux'')])])],
            Details = None\<rparr> =
   Convert \<lparr>Tool = ToolGoReleaser, ConfigFile = ''.goreleaser.yaml'',
            ConfigData = Some [(''builds'', VList [VMap (Some [(''binary'', VStr ''app'')])])],
            Details = None\<rparr>"
proof -
  let ?r = "\<lparr>Tool = ToolSemanticRelease, ConfigFile = ''.releaserc'',
                    ConfigData = Some [(''tagFormat'', VNum 3), (''branches'', VStr ''main'')],
                    Details = None\<rparr>"
  have t: "Tool ?r \<in> {ToolSemanticRelease, ToolReleaseIt, ToolStandardVersion, ToolGoReleaser}"
    by simp
  have a: "\<not> accepts (Tool ?r) ''tagFormat'' (VNum 3)" by (simp add: accepts_def)
  note s = Convert_supported [OF t]
  have 1: "\<exists>cfg. Convert ?r = Inr cfg" by (rule s [THEN conjunct1])
  have 2: "Convert (?r\<lparr>ConfigData := Some (AList.update ''tagFormat'' (VNum 3)
              [(''tagFormat'', VNum 3), (''branches'', VStr ''main'')])\<rparr>) =
           Convert (?r\<lparr>ConfigData := Some (AList.delete ''tagFormat''
              [(''tagFormat'', VNum 3), (''branches'', VStr ''main'')])\<rparr>)"
    by (rule s [THEN conjunct2, THEN conjunct2, THEN conjunct1, rule_format, OF a])
  from t a 1 2 have A:
    "ToolSemanticRelease \<in> {ToolSemanticRelease, ToolReleaseIt, ToolStandardVersion, ToolGoReleaser} \<and>
     \<not> accepts ToolSemanticRelease ''tagFormat'' (VNum 3) \<and>
     (\<exists>cfg. Convert ?r = Inr cfg) \<and>
     Convert ?r =
     Convert \<lparr>Tool = ToolSemanticRelease, ConfigFile = ''.releaserc'',
            ConfigData = Some [(''branches'', VStr ''main'')],
            Details = None\<rparr>"
    by simp
  let ?ri = "\<lparr>Tool = ToolReleaseIt, ConfigFile = ''.release-it.json'',
            ConfigData = Some [(''git'', VMap (Some [(''tagName'', VStr ''v${version}'')]))],
            Details = None\<rparr>"
  have ti: "Tool ?ri \<in> {ToolSemanticRelease, ToolReleaseIt, ToolStandardVersion, ToolGoReleaser}"
    by simp
  have ai: "\<not> acceptsIn (Tool ?ri) ''git'' ''push'' (VStr ''no'')"
    by (simp add: acceptsIn_def Tool_defs)
  have "Convert (?ri\<lparr>ConfigData := Some (AList.update ''git''
              (VMap (Some (AList.update ''push'' (VStr ''no'')
                 [(''tagName'', VStr ''v${version}'')]))) [])\<rparr>) =
        Convert (?ri\<lparr>ConfigData := Some (AList.update ''git''
              (VMap (Some (AList.delete ''push''
                 [(''tagName'', VStr ''v${version}'')]))) [])\<rparr>)"
    by (rule Convert_supported [OF ti, THEN conjunct2, THEN conjunct2, THEN conjunct2,
          THEN conjunct1, rule_format, OF ai])
  with ai have B:
    "\<not> acceptsIn ToolReleaseIt ''git'' ''push'' (VStr ''no'') \<and>
     Convert \<lparr>Tool = ToolReleaseIt, ConfigFile = ''.release-it.json'',
            ConfigData = Some [(''git'', VMap (Some [(''tagName'', VStr ''v${version}''),
                                                     (''push'', VStr ''no'')]))],
            Details = None\<rparr> = Convert ?ri"
    by simp
  have C: "Convert ?ri =
     Inr \<lparr>Versioning = \<lparr>Strategy = ''conventional'', TagPrefix = ''v''\<rparr>,
        Changelog = \<lparr>Enabled_Changelog = True, Template = [], File = ''CHANGELOG.md''\<rparr>,
        Git = \<lparr>RequireCleanTree = True, PushTags = True, CreateTag = True,
               CommitMessage = [], TagMessage = [], RequireUpToDate = False,
               AllowedBranches = []\<rparr>,
        Plugins = [], AI = None\<rparr>"
    by code_simp
  let ?rg = "\<lparr>Tool = ToolGoReleaser, ConfigFile = ''.goreleaser.yaml'',
            ConfigData = Some [(''builds'', VList [VMap (Some [(''binary'', VStr ''app'')])])],
            Details = None\<rparr>"
  have tg: "Tool ?rg \<in> {ToolSemanticRelease, ToolReleaseIt, ToolStandardVersion, ToolGoReleaser}"
    by simp
  have g: "Tool ?rg = ToolGoReleaser" by simp
  have h: "(''goos'' = ''binary'' \<longrightarrow> asString (Some (VStr ''linux'')) = None) \<and>
           (''goos'' \<in> {''goos'', ''goarch''} \<longrightarrow> asList (Some (VStr ''linux'')) = None)"
    by simp
  have "Convert (?rg\<lparr>ConfigData := Some (AList.update ''builds''
            (VList (VMap (Some (AList.update ''goos'' (VStr ''linux'')
               [(''binary'', VStr ''app'')])) # [])) [])\<rparr>) =
        Convert (?rg\<lparr>ConfigData := Some (AList.update ''builds''
            (VList (VMap (Some (AList.delete ''goos''
               [(''binary'', VStr ''app'')])) # [])) [])\<rparr>)"
    by (rule Convert_supported [OF tg, THEN conjunct2, THEN conjunct2, THEN conjunct2,
          THEN conjunct2, THEN conjunct1, THEN mp, OF g, THEN conjunct2, THEN conjunct1,
          rule_format, OF h])
  then have D:
    "Convert \<lparr>Tool = ToolGoReleaser, ConfigFile = ''.goreleaser.yaml'',
            ConfigData = Some [(''builds'', VList [VMap (Some [(''binary'', VStr ''app''),
                                                               (''goos'', VStr ''linux'')])])],
            Details = None\<rparr> = Convert ?rg"
    by simp
  from A B C D show ?thesis
    apply -
    apply (elim conjE)
    apply (intro conjI)
    apply assumption+
    done
qed

text \<open>
  C9. The converter's output does not depend on the highlights summary: two detection results
  with the same tool identity and the same config tree convert to the same result, whatever
  their \<open>Details\<close> maps are.
\<close>

theorem Convert_ignores_Details:
  assumes "Tool r1 = Tool r2" and "ConfigData r1 = ConfigData r2"
  shows "Convert r1 = Convert r2"
  using assms
  by (simp add: Convert_def convertSemanticRelease_def convertReleaseIt_def
      convertStandardVersion_def convertGoReleaser_def)

theorem Convert_ignores_Details_witness:
  "Convert \<lparr>Tool = ToolSemanticRelease, ConfigFile = ''.releaserc'',
            ConfigData = Some [(''tagFormat'', VStr ''v${version}'')],
            Details = Some [(''tagFormat'', VStr ''v${version}'')]\<rparr> =
   Convert \<lparr>Tool = ToolSemanticRelease, ConfigFile = ''.releaserc'',
            ConfigData = Some [(''tagFormat'', VStr ''v${version}'')],
            Details = None\<rparr>"
  using Convert_ignores_Details [where
      ?r1.0 = "\<lparr>Tool = ToolSemanticRelease, ConfigFile = ''.releaserc'',
            ConfigData = Some [(''tagFormat'', VStr ''v${version}'')],
            Details = Some [(''tagFormat'', VStr ''v${version}'')]\<rparr>" and
      ?r2.0 = "\<lparr>Tool = ToolSemanticRelease, ConfigFile = ''.releaserc'',
            ConfigData = Some [(''tagFormat'', VStr ''v${version}'')],
            Details = None\<rparr>"]
  by simp


end
